theory Spec2Isabelle
  imports Complex_Main "HOL-Library.Product_Lexorder" "HOL-Library.Multiset"
begin

section \<open>Errors and sequencing\<close>

text \<open>
  The Python exceptions that the mesh codec can raise. A function that may raise returns
  \<open>error + 'a\<close>, with \<open>Inl\<close> for the exception.
\<close>

datatype error =
    BF2MeshException string
  | KeyError
  | ValueError
  | IndexError
  | StructError
  | TypeError
  | ZeroDivisionError

definition ebind :: "error + 'a \<Rightarrow> ('a \<Rightarrow> error + 'b) \<Rightarrow> error + 'b" where
  "ebind r k = (case r of Inl e \<Rightarrow> Inl e | Inr x \<Rightarrow> k x)"

text \<open>Consecutive writes to the output file: the bytes of each, in order, up to the first error.\<close>

fun seq_out :: "(error + nat list) list \<Rightarrow> error + nat list" where
  "seq_out [] = Inr []"
| "seq_out (w # ws) =
     (case w of
        Inl e \<Rightarrow> Inl e
      | Inr a \<Rightarrow> (case seq_out ws of Inl e \<Rightarrow> Inl e | Inr b \<Rightarrow> Inr (a @ b)))"

section \<open>Enumerations\<close>

datatype D3DDECLTYPE =
    FLOAT1 | FLOAT2 | FLOAT3 | FLOAT4 | D3DCOLOR | UBYTE4 | SHORT2 | SHORT4 | UBYTE4N
  | SHORT2N | SHORT4N | USHORT2N | USHORT4N | UDEC3 | DEC3N | FLOAT16_2 | FLOAT16_4 | UNUSED

definition D3DDECLTYPE_members :: "D3DDECLTYPE list" where
  "D3DDECLTYPE_members =
     [FLOAT1, FLOAT2, FLOAT3, FLOAT4, D3DCOLOR, UBYTE4, SHORT2, SHORT4, UBYTE4N,
      SHORT2N, SHORT4N, USHORT2N, USHORT4N, UDEC3, DEC3N, FLOAT16_2, FLOAT16_4, UNUSED]"

fun D3DDECLTYPE_int :: "D3DDECLTYPE \<Rightarrow> nat" where
  "D3DDECLTYPE_int FLOAT1 = 0"
| "D3DDECLTYPE_int FLOAT2 = 1"
| "D3DDECLTYPE_int FLOAT3 = 2"
| "D3DDECLTYPE_int FLOAT4 = 3"
| "D3DDECLTYPE_int D3DCOLOR = 4"
| "D3DDECLTYPE_int UBYTE4 = 5"
| "D3DDECLTYPE_int SHORT2 = 6"
| "D3DDECLTYPE_int SHORT4 = 7"
| "D3DDECLTYPE_int UBYTE4N = 8"
| "D3DDECLTYPE_int SHORT2N = 9"
| "D3DDECLTYPE_int SHORT4N = 10"
| "D3DDECLTYPE_int USHORT2N = 11"
| "D3DDECLTYPE_int USHORT4N = 12"
| "D3DDECLTYPE_int UDEC3 = 13"
| "D3DDECLTYPE_int DEC3N = 14"
| "D3DDECLTYPE_int FLOAT16_2 = 15"
| "D3DDECLTYPE_int FLOAT16_4 = 16"
| "D3DDECLTYPE_int UNUSED = 17"

text \<open>\<open>D3DDECLTYPE(n)\<close>: the member with value \<open>n\<close>, or \<open>ValueError\<close>.\<close>

definition D3DDECLTYPE_of :: "nat \<Rightarrow> error + D3DDECLTYPE" where
  "D3DDECLTYPE_of n =
     (case find (\<lambda>t. D3DDECLTYPE_int t = n) D3DDECLTYPE_members of
        None \<Rightarrow> Inl ValueError | Some t \<Rightarrow> Inr t)"

text \<open>
  \<open>get_struct_fmt\<close>: the lookup in \<open>_TYPE_TO_FORMAT\<close>; a type that is not a key of the
  dictionary raises \<open>KeyError\<close>.
\<close>

fun get_struct_fmt :: "D3DDECLTYPE \<Rightarrow> error + string" where
  "get_struct_fmt FLOAT1 = Inr ''1f''"
| "get_struct_fmt FLOAT2 = Inr ''2f''"
| "get_struct_fmt FLOAT3 = Inr ''3f''"
| "get_struct_fmt FLOAT4 = Inr ''4f''"
| "get_struct_fmt D3DCOLOR = Inr ''4B''"
| "get_struct_fmt UNUSED = Inr ''''"
| "get_struct_fmt t = Inl KeyError"

datatype D3DDECLUSAGE =
    POSITION | BLENDWEIGHT | BLENDINDICES | NORMAL | PSIZE | TEXCOORD0 | TANGENT | BINORMAL
  | TESSFACTOR | POSITIONT | COLOR | FOG | DEPTH | SAMPLE
  | TEXCOORD1 | TEXCOORD2 | TEXCOORD3 | TEXCOORD4

definition D3DDECLUSAGE_members :: "D3DDECLUSAGE list" where
  "D3DDECLUSAGE_members =
     [POSITION, BLENDWEIGHT, BLENDINDICES, NORMAL, PSIZE, TEXCOORD0, TANGENT, BINORMAL,
      TESSFACTOR, POSITIONT, COLOR, FOG, DEPTH, SAMPLE,
      TEXCOORD1, TEXCOORD2, TEXCOORD3, TEXCOORD4]"

fun D3DDECLUSAGE_int :: "D3DDECLUSAGE \<Rightarrow> nat" where
  "D3DDECLUSAGE_int POSITION = 0"
| "D3DDECLUSAGE_int BLENDWEIGHT = 1"
| "D3DDECLUSAGE_int BLENDINDICES = 2"
| "D3DDECLUSAGE_int NORMAL = 3"
| "D3DDECLUSAGE_int PSIZE = 4"
| "D3DDECLUSAGE_int TEXCOORD0 = 5"
| "D3DDECLUSAGE_int TANGENT = 6"
| "D3DDECLUSAGE_int BINORMAL = 7"
| "D3DDECLUSAGE_int TESSFACTOR = 8"
| "D3DDECLUSAGE_int POSITIONT = 9"
| "D3DDECLUSAGE_int COLOR = 10"
| "D3DDECLUSAGE_int FOG = 11"
| "D3DDECLUSAGE_int DEPTH = 12"
| "D3DDECLUSAGE_int SAMPLE = 13"
| "D3DDECLUSAGE_int TEXCOORD1 = 261"
| "D3DDECLUSAGE_int TEXCOORD2 = 517"
| "D3DDECLUSAGE_int TEXCOORD3 = 773"
| "D3DDECLUSAGE_int TEXCOORD4 = 1029"

definition D3DDECLUSAGE_of :: "nat \<Rightarrow> error + D3DDECLUSAGE" where
  "D3DDECLUSAGE_of n =
     (case find (\<lambda>u. D3DDECLUSAGE_int u = n) D3DDECLUSAGE_members of
        None \<Rightarrow> Inl ValueError | Some u \<Rightarrow> Inr u)"

datatype D3DPRIMITIVETYPE =
    POINTLIST | LINELIST | LINESTRIP | TRIANGLELIST | TRIANGLESTRIP | TRIANGLEFAN

definition D3DPRIMITIVETYPE_members :: "D3DPRIMITIVETYPE list" where
  "D3DPRIMITIVETYPE_members =
     [POINTLIST, LINELIST, LINESTRIP, TRIANGLELIST, TRIANGLESTRIP, TRIANGLEFAN]"

fun D3DPRIMITIVETYPE_int :: "D3DPRIMITIVETYPE \<Rightarrow> nat" where
  "D3DPRIMITIVETYPE_int POINTLIST = 1"
| "D3DPRIMITIVETYPE_int LINELIST = 2"
| "D3DPRIMITIVETYPE_int LINESTRIP = 3"
| "D3DPRIMITIVETYPE_int TRIANGLELIST = 4"
| "D3DPRIMITIVETYPE_int TRIANGLESTRIP = 5"
| "D3DPRIMITIVETYPE_int TRIANGLEFAN = 6"

fun D3DPRIMITIVETYPE_name :: "D3DPRIMITIVETYPE \<Rightarrow> string" where
  "D3DPRIMITIVETYPE_name POINTLIST = ''POINTLIST''"
| "D3DPRIMITIVETYPE_name LINELIST = ''LINELIST''"
| "D3DPRIMITIVETYPE_name LINESTRIP = ''LINESTRIP''"
| "D3DPRIMITIVETYPE_name TRIANGLELIST = ''TRIANGLELIST''"
| "D3DPRIMITIVETYPE_name TRIANGLESTRIP = ''TRIANGLESTRIP''"
| "D3DPRIMITIVETYPE_name TRIANGLEFAN = ''TRIANGLEFAN''"

definition D3DPRIMITIVETYPE_of :: "nat \<Rightarrow> error + D3DPRIMITIVETYPE" where
  "D3DPRIMITIVETYPE_of n =
     (case find (\<lambda>p. D3DPRIMITIVETYPE_int p = n) D3DPRIMITIVETYPE_members of
        None \<Rightarrow> Inl ValueError | Some p \<Rightarrow> Inr p)"

datatype AlphaMode = NONE | ALPHA_BLEND | ALPHA_TEST

fun AlphaMode_int :: "AlphaMode \<Rightarrow> nat" where
  "AlphaMode_int NONE = 0"
| "AlphaMode_int ALPHA_BLEND = 1"
| "AlphaMode_int ALPHA_TEST = 2"

definition AlphaMode_of :: "nat \<Rightarrow> error + AlphaMode" where
  "AlphaMode_of n =
     (case find (\<lambda>a. AlphaMode_int a = n) [NONE, ALPHA_BLEND, ALPHA_TEST] of
        None \<Rightarrow> Inl ValueError | Some a \<Rightarrow> Inr a)"

definition ALPHA_BLEND_FACE_SET_COUNT :: nat where
  "ALPHA_BLEND_FACE_SET_COUNT = 8"

section \<open>The struct module\<close>

text \<open>
  Python's \<open>struct\<close> converts a float to and from its four bytes (format \<open>f\<close>). The
  conversion is not code of the repository; the model takes it as a parameter. A byte is a
  natural number below 256, a float a real number.
\<close>

record float_format =
  pack_f :: "real \<Rightarrow> nat list"
  unpack_f :: "nat list \<Rightarrow> real"

text \<open>
  Python's floats are IEEE 754 doubles: a sum, a difference, a product, a quotient, a
  square root, a sine, a cosine or a conversion to radians is the exact result rounded to
  a double. The rounding is not code of the repository either; the model takes the
  rounded operations as a parameter. A finite float is the real number it stands for, so
  that comparing, negating, \<open>abs\<close>, \<open>min\<close> and \<open>max\<close> are exact.
\<close>

record float_arith =
  fl_add :: "real \<Rightarrow> real \<Rightarrow> real"
  fl_sub :: "real \<Rightarrow> real \<Rightarrow> real"
  fl_mul :: "real \<Rightarrow> real \<Rightarrow> real"
  fl_div :: "real \<Rightarrow> real \<Rightarrow> real"
  fl_sqrt :: "real \<Rightarrow> real"
  fl_sin :: "real \<Rightarrow> real"
  fl_cos :: "real \<Rightarrow> real"
  fl_radians :: "real \<Rightarrow> real"

text \<open>A value of a vertex attribute is a tuple of floats or of integers.\<close>

datatype scalar = F real | I int

text \<open>
  A format of \<open>_TYPE_TO_FORMAT\<close> is empty or a repeat count and a code: \<open>3f\<close> is three
  floats, \<open>4B\<close> four unsigned bytes.
\<close>

definition struct_items :: "string \<Rightarrow> char list" where
  "struct_items fmt =
     (case fmt of
        [d, c] \<Rightarrow> replicate (of_char d - 48) c
      | _ \<Rightarrow> [])"

definition item_size :: "char \<Rightarrow> nat" where
  "item_size c = (if c = CHR ''f'' then 4 else 1)"

definition struct_calcsize :: "string \<Rightarrow> nat" where
  "struct_calcsize fmt = sum_list (map item_size (struct_items fmt))"

fun unpack_items :: "float_format \<Rightarrow> char list \<Rightarrow> nat list \<Rightarrow> scalar list" where
  "unpack_items fc [] bs = []"
| "unpack_items fc (c # cs) bs =
     (if c = CHR ''f'' then F (unpack_f fc (take 4 bs)) # unpack_items fc cs (drop 4 bs)
      else (case bs of
              [] \<Rightarrow> []
            | b # bs' \<Rightarrow> I (int b) # unpack_items fc cs bs'))"

definition struct_unpack :: "float_format \<Rightarrow> string \<Rightarrow> nat list \<Rightarrow> error + scalar list" where
  "struct_unpack fc fmt data =
     (if length data \<noteq> struct_calcsize fmt then Inl StructError
      else Inr (unpack_items fc (struct_items fmt) data))"

fun pack_item :: "float_format \<Rightarrow> char \<Rightarrow> scalar \<Rightarrow> error + nat list" where
  "pack_item fc c (F x) = (if c = CHR ''f'' then Inr (pack_f fc x) else Inl StructError)"
| "pack_item fc c (I n) =
     (if c = CHR ''f'' then Inr (pack_f fc (of_int n))
      else if 0 \<le> n \<and> n \<le> 255 then Inr [nat n]
      else Inl StructError)"

definition struct_pack :: "float_format \<Rightarrow> string \<Rightarrow> scalar list \<Rightarrow> error + nat list" where
  "struct_pack fc fmt vals =
     (if length vals \<noteq> length (struct_items fmt) then Inl StructError
      else seq_out (map (\<lambda>(c, v). pack_item fc c v) (zip (struct_items fmt) vals)))"

section \<open>FileUtils\<close>

text \<open>
  Modelled from the spec: the class \<open>FileUtils\<close> (module \<open>fileutils\<close>, absent from the
  sources). All integers are little-endian and of fixed width; a string is a dword byte
  length followed by that many bytes. A file being read is the list of its remaining
  bytes; a read that runs past the end fails. A write returns the bytes it appends and
  fails on a value that does not fit the width.
\<close>

fun le_encode :: "nat \<Rightarrow> nat \<Rightarrow> nat list" where
  "le_encode 0 v = []"
| "le_encode (Suc k) v = (v mod 256) # le_encode k (v div 256)"

fun le_decode :: "nat list \<Rightarrow> nat" where
  "le_decode [] = 0"
| "le_decode (b # bs) = b + 256 * le_decode bs"

definition read_raw :: "nat \<Rightarrow> nat list \<Rightarrow> error + (nat list \<times> nat list)" where
  "read_raw n f = (if length f < n then Inl StructError else Inr (take n f, drop n f))"

definition read_uint :: "nat \<Rightarrow> nat list \<Rightarrow> error + (nat \<times> nat list)" where
  "read_uint k f = ebind (read_raw k f) (\<lambda>(bs, f'). Inr (le_decode bs, f'))"

definition read_dword :: "nat list \<Rightarrow> error + (nat \<times> nat list)" where
  "read_dword = read_uint 4"

definition read_word :: "nat list \<Rightarrow> error + (nat \<times> nat list)" where
  "read_word = read_uint 2"

definition read_byte :: "nat list \<Rightarrow> error + (nat \<times> nat list)" where
  "read_byte = read_uint 1"

text \<open>\<open>load_n_elems\<close> (module \<open>bf2_common\<close>): \<open>count\<close> consecutive loads, in order.\<close>

fun load_n_elems ::
  "(nat list \<Rightarrow> error + ('a \<times> nat list)) \<Rightarrow> nat \<Rightarrow> nat list \<Rightarrow> error + ('a list \<times> nat list)"
where
  "load_n_elems ld 0 f = Inr ([], f)"
| "load_n_elems ld (Suc n) f =
     ebind (ld f) (\<lambda>(x, f'). ebind (load_n_elems ld n f') (\<lambda>(xs, f''). Inr (x # xs, f'')))"

definition read_words :: "nat \<Rightarrow> nat list \<Rightarrow> error + (nat list \<times> nat list)" where
  "read_words cnt f = load_n_elems read_word cnt f"

text \<open>
  A float read from or written to a file is a real number, an infinity or a NaN:
  \<open>float("inf")\<close> is not a real number. The four bytes of the infinities and of the NaNs
  are those of IEEE 754 (exponent bits all set, fraction zero for an infinity); the bytes
  of any other float are those of the format \<open>fc\<close>. A NaN is written with the bytes that
  \<open>struct.pack\<close> gives \<open>float("nan")\<close>.
\<close>

datatype pyfloat = Fin real | PosInf | NegInf | NaN

definition is_nan_bytes :: "nat list \<Rightarrow> bool" where
  "is_nan_bytes bs =
     (case bs of
        [b0, b1, b2, b3] \<Rightarrow> b3 mod 128 = 127 \<and> 128 \<le> b2 \<and> (b0 \<noteq> 0 \<or> b1 \<noteq> 0 \<or> b2 \<noteq> 128)
      | _ \<Rightarrow> False)"

definition float_of_bytes :: "float_format \<Rightarrow> nat list \<Rightarrow> pyfloat" where
  "float_of_bytes fc bs =
     (if bs = [0, 0, 128, 127] then PosInf
      else if bs = [0, 0, 128, 255] then NegInf
      else if is_nan_bytes bs then NaN
      else Fin (unpack_f fc bs))"

definition read_float :: "float_format \<Rightarrow> nat list \<Rightarrow> error + (pyfloat \<times> nat list)" where
  "read_float fc f = ebind (read_raw 4 f) (\<lambda>(bs, f'). Inr (float_of_bytes fc bs, f'))"

fun write_float :: "float_format \<Rightarrow> pyfloat \<Rightarrow> error + nat list" where
  "write_float fc (Fin x) = Inr (pack_f fc x)"
| "write_float fc PosInf = Inr [0, 0, 128, 127]"
| "write_float fc NegInf = Inr [0, 0, 128, 255]"
| "write_float fc NaN = Inr [0, 0, 192, 127]"

definition read_string :: "nat list \<Rightarrow> error + (string \<times> nat list)" where
  "read_string f =
     ebind (read_dword f) (\<lambda>(n, f').
     ebind (read_raw n f') (\<lambda>(bs, f''). Inr (map char_of bs, f'')))"

definition write_uint :: "nat \<Rightarrow> nat option \<Rightarrow> error + nat list" where
  "write_uint k v =
     (case v of
        None \<Rightarrow> Inl StructError
      | Some n \<Rightarrow> if n < 256 ^ k then Inr (le_encode k n) else Inl StructError)"

definition write_dword :: "nat option \<Rightarrow> error + nat list" where
  "write_dword = write_uint 4"

definition write_word :: "nat option \<Rightarrow> error + nat list" where
  "write_word = write_uint 2"

definition write_byte :: "nat option \<Rightarrow> error + nat list" where
  "write_byte = write_uint 1"

definition write_words :: "nat list \<Rightarrow> error + nat list" where
  "write_words ws = seq_out (map (\<lambda>w. write_word (Some w)) ws)"

definition write_raw :: "nat list \<Rightarrow> error + nat list" where
  "write_raw bs = Inr bs"

definition write_string :: "string option \<Rightarrow> error + nat list" where
  "write_string s =
     (case s of
        None \<Rightarrow> Inl TypeError
      | Some cs \<Rightarrow> seq_out [write_dword (Some (length cs)), write_raw (map of_char cs)])"

section \<open>Vectors\<close>

text \<open>
  Modelled from the spec: the class \<open>Vec3\<close> and the functions \<open>calc_bounds\<close> and
  \<open>Mat4.rotation\<close> (module \<open>bf2_common\<close>, absent from the sources). A vector is three
  floats; its operations work component by component in the float arithmetic \<open>ar\<close>; the
  bounds of a list of positions are its component-wise minimum and maximum.
\<close>

type_synonym Vec3 = "real \<times> real \<times> real"

definition Vec3_add :: "float_arith \<Rightarrow> Vec3 \<Rightarrow> Vec3 \<Rightarrow> Vec3" where
  "Vec3_add ar a b =
     (case a of (ax, ay, az) \<Rightarrow> case b of (bx, by, bz) \<Rightarrow>
        (fl_add ar ax bx, fl_add ar ay by, fl_add ar az bz))"

definition Vec3_sub :: "float_arith \<Rightarrow> Vec3 \<Rightarrow> Vec3 \<Rightarrow> Vec3" where
  "Vec3_sub ar a b =
     (case a of (ax, ay, az) \<Rightarrow> case b of (bx, by, bz) \<Rightarrow>
        (fl_sub ar ax bx, fl_sub ar ay by, fl_sub ar az bz))"

definition Vec3_scale :: "float_arith \<Rightarrow> Vec3 \<Rightarrow> real \<Rightarrow> Vec3" where
  "Vec3_scale ar a s = (case a of (ax, ay, az) \<Rightarrow> (fl_mul ar ax s, fl_mul ar ay s, fl_mul ar az s))"

definition Vec3_dot_product :: "float_arith \<Rightarrow> Vec3 \<Rightarrow> Vec3 \<Rightarrow> real" where
  "Vec3_dot_product ar a b =
     (case a of (ax, ay, az) \<Rightarrow> case b of (bx, by, bz) \<Rightarrow>
        fl_add ar (fl_add ar (fl_mul ar ax bx) (fl_mul ar ay by)) (fl_mul ar az bz))"

definition Vec3_distance :: "float_arith \<Rightarrow> Vec3 \<Rightarrow> Vec3 \<Rightarrow> real" where
  "Vec3_distance ar a b = fl_sqrt ar (Vec3_dot_product ar (Vec3_sub ar a b) (Vec3_sub ar a b))"

definition Vec3_index :: "Vec3 \<Rightarrow> nat \<Rightarrow> real" where
  "Vec3_index a i = (case a of (ax, ay, az) \<Rightarrow> if i = 0 then ax else if i = 1 then ay else az)"

definition Vec3_set :: "Vec3 \<Rightarrow> nat \<Rightarrow> real \<Rightarrow> Vec3" where
  "Vec3_set a i v =
     (case a of (ax, ay, az) \<Rightarrow> if i = 0 then (v, ay, az) else if i = 1 then (ax, v, az) else (ax, ay, v))"

text \<open>The rotation by \<open>angle\<close> radians around the up axis \<open>Y\<close>, applied to a vector.\<close>

definition rotate_Y :: "float_arith \<Rightarrow> real \<Rightarrow> Vec3 \<Rightarrow> Vec3" where
  "rotate_Y ar angle a =
     (case a of (ax, ay, az) \<Rightarrow>
        (fl_add ar (fl_mul ar ax (fl_cos ar angle)) (fl_mul ar az (fl_sin ar angle)), ay,
         fl_sub ar (fl_mul ar az (fl_cos ar angle)) (fl_mul ar ax (fl_sin ar angle))))"

text \<open>\<open>Vec3(*t)\<close> for a tuple \<open>t\<close> of a vertex: three numbers, or \<open>TypeError\<close>.\<close>

fun scalar_float :: "scalar \<Rightarrow> real" where
  "scalar_float (F x) = x"
| "scalar_float (I n) = of_int n"

definition Vec3_of :: "scalar list option \<Rightarrow> error + Vec3" where
  "Vec3_of t =
     (case t of
        Some [x, y, z] \<Rightarrow> Inr (scalar_float x, scalar_float y, scalar_float z)
      | _ \<Rightarrow> Inl TypeError)"

fun bounds_step :: "Vec3 \<times> Vec3 \<Rightarrow> Vec3 \<Rightarrow> Vec3 \<times> Vec3" where
  "bounds_step ((lx, ly, lz), (hx, hy, hz)) (x, y, z) =
     ((min lx x, min ly y, min lz z), (max hx x, max hy y, max hz z))"

definition calc_bounds :: "Vec3 list \<Rightarrow> error + (Vec3 \<times> Vec3)" where
  "calc_bounds verts =
     (case verts of
        [] \<Rightarrow> Inl IndexError
      | v # vs \<Rightarrow> Inr (foldl bounds_step (v, v) vs))"

text \<open>
  The bounds of a Lod start from \<open>float("inf")\<close>: they are vectors of floats that may be
  infinite. \<open>Vec3.load\<close> and \<open>Vec3.save\<close> read and write three floats.
\<close>

type_synonym PyVec3 = "pyfloat \<times> pyfloat \<times> pyfloat"

text \<open>\<open>x < y\<close> and \<open>x > y\<close> for a finite float \<open>x\<close>; a comparison with NaN is false.\<close>

fun float_lt :: "real \<Rightarrow> pyfloat \<Rightarrow> bool" where
  "float_lt x (Fin y) = (x < y)"
| "float_lt x PosInf = True"
| "float_lt x NegInf = False"
| "float_lt x NaN = False"

fun float_gt :: "real \<Rightarrow> pyfloat \<Rightarrow> bool" where
  "float_gt x (Fin y) = (x > y)"
| "float_gt x PosInf = False"
| "float_gt x NegInf = True"
| "float_gt x NaN = False"

definition PyVec3_index :: "PyVec3 \<Rightarrow> nat \<Rightarrow> pyfloat" where
  "PyVec3_index a i = (case a of (ax, ay, az) \<Rightarrow> if i = 0 then ax else if i = 1 then ay else az)"

definition PyVec3_set :: "PyVec3 \<Rightarrow> nat \<Rightarrow> pyfloat \<Rightarrow> PyVec3" where
  "PyVec3_set a i v =
     (case a of (ax, ay, az) \<Rightarrow> if i = 0 then (v, ay, az) else if i = 1 then (ax, v, az) else (ax, ay, v))"

definition Vec3_save :: "float_format \<Rightarrow> PyVec3 \<Rightarrow> error + nat list" where
  "Vec3_save fc a = (case a of (ax, ay, az) \<Rightarrow> seq_out [write_float fc ax, write_float fc ay, write_float fc az])"

definition Vec3_load :: "float_format \<Rightarrow> nat list \<Rightarrow> error + (PyVec3 \<times> nat list)" where
  "Vec3_load fc f =
     ebind (read_float fc f) (\<lambda>(x, f1).
     ebind (read_float fc f1) (\<lambda>(y, f2).
     ebind (read_float fc f2) (\<lambda>(z, f3). Inr ((x, y, z), f3))))"

section \<open>Loops that may raise\<close>

text \<open>A \<open>for\<close> loop whose body may raise: the results in order, or the first exception.\<close>

fun emap :: "('a \<Rightarrow> error + 'b) \<Rightarrow> 'a list \<Rightarrow> error + 'b list" where
  "emap g [] = Inr []"
| "emap g (x # xs) = ebind (g x) (\<lambda>y. ebind (emap g xs) (\<lambda>ys. Inr (y # ys)))"

fun efold :: "('s \<Rightarrow> 'a \<Rightarrow> error + 's) \<Rightarrow> 's \<Rightarrow> 'a list \<Rightarrow> error + 's" where
  "efold g s [] = Inr s"
| "efold g s (x # xs) = ebind (g s x) (\<lambda>s'. efold g s' xs)"

text \<open>A loop that updates each element and threads a state (buffers, running offsets).\<close>

fun emap_st :: "('a \<Rightarrow> 's \<Rightarrow> error + ('b \<times> 's)) \<Rightarrow> 'a list \<Rightarrow> 's \<Rightarrow> error + ('b list \<times> 's)" where
  "emap_st g [] s = Inr ([], s)"
| "emap_st g (x # xs) s =
     ebind (g x s) (\<lambda>(y, s'). ebind (emap_st g xs s') (\<lambda>(ys, s''). Inr (y # ys, s'')))"

text \<open>A loop that updates each element and writes to the output file.\<close>

fun emap_out :: "('a \<Rightarrow> error + ('b \<times> nat list)) \<Rightarrow> 'a list \<Rightarrow> error + ('b list \<times> nat list)" where
  "emap_out g [] = Inr ([], [])"
| "emap_out g (x # xs) =
     ebind (g x) (\<lambda>(y, bs). ebind (emap_out g xs) (\<lambda>(ys, bs'). Inr (y # ys, bs @ bs')))"

section \<open>Vertices and vertex attributes\<close>

text \<open>
  A \<open>Vertex\<close> has one attribute per member name of \<open>D3DDECLUSAGE\<close>, each \<open>None\<close> at
  first; \<open>setattr\<close> and \<open>getattr\<close> with the lower-case name of a usage write and read the
  attribute of that usage.
\<close>

type_synonym Vertex = "D3DDECLUSAGE \<Rightarrow> scalar list option"

definition Vertex_init :: Vertex where
  "Vertex_init = (\<lambda>u. None)"

fun D3DDECLUSAGE_name :: "D3DDECLUSAGE \<Rightarrow> string" where
  "D3DDECLUSAGE_name POSITION = ''POSITION''"
| "D3DDECLUSAGE_name BLENDWEIGHT = ''BLENDWEIGHT''"
| "D3DDECLUSAGE_name BLENDINDICES = ''BLENDINDICES''"
| "D3DDECLUSAGE_name NORMAL = ''NORMAL''"
| "D3DDECLUSAGE_name PSIZE = ''PSIZE''"
| "D3DDECLUSAGE_name TEXCOORD0 = ''TEXCOORD0''"
| "D3DDECLUSAGE_name TANGENT = ''TANGENT''"
| "D3DDECLUSAGE_name BINORMAL = ''BINORMAL''"
| "D3DDECLUSAGE_name TESSFACTOR = ''TESSFACTOR''"
| "D3DDECLUSAGE_name POSITIONT = ''POSITIONT''"
| "D3DDECLUSAGE_name COLOR = ''COLOR''"
| "D3DDECLUSAGE_name FOG = ''FOG''"
| "D3DDECLUSAGE_name DEPTH = ''DEPTH''"
| "D3DDECLUSAGE_name SAMPLE = ''SAMPLE''"
| "D3DDECLUSAGE_name TEXCOORD1 = ''TEXCOORD1''"
| "D3DDECLUSAGE_name TEXCOORD2 = ''TEXCOORD2''"
| "D3DDECLUSAGE_name TEXCOORD3 = ''TEXCOORD3''"
| "D3DDECLUSAGE_name TEXCOORD4 = ''TEXCOORD4''"

definition VertexAttribute_USED :: nat where
  "VertexAttribute_USED = 0"

definition VertexAttribute_UNUSED :: nat where
  "VertexAttribute_UNUSED = 255"

text \<open>The fields \<open>_flag\<close> and \<open>_offset\<close> are \<open>a_flag\<close> and \<open>a_offset\<close>.\<close>

record VertexAttribute =
  a_flag :: "nat option"
  a_offset :: "nat option"
  decl_type :: D3DDECLTYPE
  decl_usage :: D3DDECLUSAGE

definition VertexAttribute_init :: "D3DDECLTYPE \<Rightarrow> D3DDECLUSAGE \<Rightarrow> VertexAttribute" where
  "VertexAttribute_init t u = \<lparr>a_flag = None, a_offset = None, decl_type = t, decl_usage = u\<rparr>"

definition VertexAttribute_load :: "nat list \<Rightarrow> error + (VertexAttribute \<times> nat list)" where
  "VertexAttribute_load f =
     ebind (read_word f) (\<lambda>(fl, f1).
     ebind (read_word f1) (\<lambda>(off, f2).
     ebind (read_word f2) (\<lambda>(t, f3).
     ebind (D3DDECLTYPE_of t) (\<lambda>dt.
     ebind (read_word f3) (\<lambda>(u, f4).
     ebind (D3DDECLUSAGE_of u) (\<lambda>du.
       Inr ((VertexAttribute_init dt du)\<lparr>a_flag := Some fl, a_offset := Some off\<rparr>, f4)))))))"

definition VertexAttribute_save :: "VertexAttribute \<Rightarrow> error + nat list" where
  "VertexAttribute_save self =
     seq_out [write_word (a_flag self), write_word (a_offset self),
              write_word (Some (D3DDECLTYPE_int (decl_type self))),
              write_word (Some (D3DDECLUSAGE_int (decl_usage self)))]"

section \<open>Materials\<close>

text \<open>
  \<open>Material\<close> and its subclass \<open>MaterialWithTransparency\<close> are one record: \<open>mat_class\<close> says
  which class the object is, and the three fields of the subclass are \<open>None\<close> and unused
  in a plain \<open>Material\<close>. The fields \<open>_vstart\<close>, \<open>_istart\<close>, \<open>_inum\<close>, \<open>_vnum\<close>, \<open>_u4\<close>,
  \<open>_u5\<close>, \<open>_min\<close>, \<open>_max\<close> and \<open>_alpha_blend_indexnum\<close> carry the prefix \<open>m\<close>. A method
  that assigns to a field returns the updated material.
\<close>

datatype material_class = Material_class | MaterialWithTransparency_class

type_synonym Face = "nat \<times> nat \<times> nat"

record Material =
  mat_class :: material_class
  fxfile :: "string option"
  technique :: "string option"
  maps :: "string list"
  vertices :: "Vertex list"
  faces :: "Face list"
  m_vstart :: "nat option"
  m_istart :: "nat option"
  m_inum :: "nat option"
  m_vnum :: "nat option"
  m_u4 :: "nat option"
  m_u5 :: "nat option"
  m_min :: "Vec3 option"
  m_max :: "Vec3 option"
  alpha_mode :: "AlphaMode option"
  face_sets :: "Face list list option"
  m_alpha_blend_indexnum :: "nat option"

definition Material_init :: "material_class \<Rightarrow> Material" where
  "Material_init cls =
     \<lparr>mat_class = cls, fxfile = None, technique = None, maps = [], vertices = [], faces = [],
      m_vstart = None, m_istart = None, m_inum = None, m_vnum = None, m_u4 = None, m_u5 = None,
      m_min = None, m_max = None, alpha_mode = None, face_sets = None,
      m_alpha_blend_indexnum = None\<rparr>"

definition Material_load :: "material_class \<Rightarrow> nat list \<Rightarrow> error + (Material \<times> nat list)" where
  "Material_load cls f =
     ebind (read_string f) (\<lambda>(fx, f1).
     ebind (read_string f1) (\<lambda>(te, f2).
     ebind (read_dword f2) (\<lambda>(n, f3).
     ebind (load_n_elems read_string n f3) (\<lambda>(ms, f4).
     ebind (read_dword f4) (\<lambda>(vstart, f5).
     ebind (read_dword f5) (\<lambda>(istart, f6).
     ebind (read_dword f6) (\<lambda>(inum, f7).
     ebind (read_dword f7) (\<lambda>(vnum, f8).
     ebind (read_dword f8) (\<lambda>(u4, f9).
     ebind (read_dword f9) (\<lambda>(u5, f10).
       Inr ((Material_init cls)
              \<lparr>fxfile := Some fx, technique := Some te, maps := ms,
               m_vstart := Some vstart, m_istart := Some istart, m_inum := Some inum,
               m_vnum := Some vnum, m_u4 := Some u4, m_u5 := Some u5\<rparr>, f10)))))))))))"

definition MaterialWithTransparency_load ::
  "nat list \<Rightarrow> nat \<Rightarrow> nat option \<Rightarrow> error + (Material \<times> nat list)"
where
  "MaterialWithTransparency_load f version alpha_blend_indexnum =
     ebind (read_dword f) (\<lambda>(am, f1).
     ebind (AlphaMode_of am) (\<lambda>mode.
     ebind (Material_load MaterialWithTransparency_class f1) (\<lambda>(obj, f2).
       Inr (obj\<lparr>alpha_mode := Some mode, m_alpha_blend_indexnum := alpha_blend_indexnum\<rparr>, f2))))"

text \<open>The \<open>load\<close> of the material class \<open>cls\<close>, as \<open>Lod.load_materials\<close> calls it.\<close>

definition MATERIAL_TYPE_load ::
  "material_class \<Rightarrow> nat \<Rightarrow> nat option \<Rightarrow> nat list \<Rightarrow> error + (Material \<times> nat list)"
where
  "MATERIAL_TYPE_load cls version alpha_blend_indexnum f =
     (case cls of
        Material_class \<Rightarrow> Material_load Material_class f
      | MaterialWithTransparency_class \<Rightarrow>
          MaterialWithTransparency_load f version alpha_blend_indexnum)"

definition Material_save :: "Material \<Rightarrow> error + nat list" where
  "Material_save self =
     seq_out [write_string (fxfile self), write_string (technique self),
              write_dword (Some (length (maps self))),
              seq_out (map (\<lambda>mp. write_string (Some mp)) (maps self)),
              write_dword (m_vstart self), write_dword (m_istart self),
              write_dword (m_inum self), write_dword (m_vnum self),
              write_dword (Some 0), write_dword (Some 0)]"

definition MaterialWithTransparency_save :: "Material \<Rightarrow> error + nat list" where
  "MaterialWithTransparency_save self =
     seq_out [write_dword (map_option AlphaMode_int (alpha_mode self)), Material_save self]"

text \<open>\<open>mat.save(f)\<close>: the method of the object's class.\<close>

definition mat_save :: "Material \<Rightarrow> error + nat list" where
  "mat_save self =
     (case mat_class self of
        Material_class \<Rightarrow> Material_save self
      | MaterialWithTransparency_class \<Rightarrow> MaterialWithTransparency_save self)"

subsection \<open>Vertices of a material\<close>

text \<open>
  The body of the inner loop of \<open>load_vertices\<close>: one attribute of the vertex at index
  \<open>i\<close> of the buffer. A Python slice \<open>b[s:s+n]\<close> is \<open>take n (drop s b)\<close>: it is shorter
  when the buffer ends early, and \<open>struct.unpack\<close> then raises.
\<close>

definition load_vertex_attr ::
  "float_format \<Rightarrow> nat \<Rightarrow> nat list \<Rightarrow> nat \<Rightarrow> Vertex \<Rightarrow> VertexAttribute \<Rightarrow> error + Vertex"
where
  "load_vertex_attr fc vertex_decl_size vertex_buffer i vertex vertex_attr =
     (if a_flag vertex_attr = Some VertexAttribute_UNUSED then Inr vertex
      else
        ebind (get_struct_fmt (decl_type vertex_attr)) (\<lambda>fmt.
        (case a_offset vertex_attr of
           None \<Rightarrow> Inl TypeError
         | Some off \<Rightarrow>
             (let size = struct_calcsize fmt;
                  vstart = i * vertex_decl_size + off;
                  data_packed = take size (drop vstart vertex_buffer)
              in ebind (struct_unpack fc fmt data_packed) (\<lambda>vertex_attr_value.
                   Inr (vertex(decl_usage vertex_attr := Some vertex_attr_value)))))))"

definition load_vertices ::
  "float_format \<Rightarrow> Material \<Rightarrow> nat \<Rightarrow> VertexAttribute list \<Rightarrow> nat list \<Rightarrow> error + Material"
where
  "load_vertices fc self vertex_decl_size vertex_attributes vertex_buffer =
     (case (m_vstart self, m_vnum self) of
        (Some vstart, Some vnum) \<Rightarrow>
          ebind (emap (\<lambda>i. efold (load_vertex_attr fc vertex_decl_size vertex_buffer i)
                              Vertex_init vertex_attributes)
                   [vstart ..< vstart + vnum]) (\<lambda>vs.
            Inr (self\<lparr>vertices := vs\<rparr>))
      | _ \<Rightarrow> Inl TypeError)"

definition save_vertex_attr ::
  "float_format \<Rightarrow> Vertex \<Rightarrow> nat list \<Rightarrow> VertexAttribute \<Rightarrow> error + nat list"
where
  "save_vertex_attr fc vertex vertex_buffer vertex_attr =
     (if a_flag vertex_attr = Some VertexAttribute_UNUSED then Inr vertex_buffer
      else
        ebind (get_struct_fmt (decl_type vertex_attr)) (\<lambda>fmt.
        (case vertex (decl_usage vertex_attr) of
           None \<Rightarrow>
             Inl (BF2MeshException
                    (''Vertex missing '' @ [CHR 0x27] @ D3DDECLUSAGE_name (decl_usage vertex_attr)
                       @ [CHR 0x27] @ '' attribute value''))
         | Some vertex_attr_value \<Rightarrow>
             ebind (struct_pack fc fmt vertex_attr_value) (\<lambda>bs. Inr (vertex_buffer @ bs)))))"

text \<open>Returns the material with \<open>_vstart\<close> and \<open>_vnum\<close> set, the buffer and \<open>_vnum\<close>.\<close>

definition save_vertices ::
  "float_format \<Rightarrow> Material \<Rightarrow> VertexAttribute list \<Rightarrow> nat list \<Rightarrow> nat
     \<Rightarrow> error + (Material \<times> nat list \<times> nat)"
where
  "save_vertices fc self vertex_attributes vertex_buffer vstart =
     (let self' = self\<lparr>m_vstart := Some vstart, m_vnum := Some (length (vertices self))\<rparr>
      in ebind (efold (\<lambda>vb vertex. efold (save_vertex_attr fc vertex) vb vertex_attributes)
                  vertex_buffer (vertices self')) (\<lambda>vb.
           Inr (self', vb, length (vertices self'))))"

subsection \<open>Faces of a material\<close>

definition index_at :: "'a list \<Rightarrow> nat \<Rightarrow> error + 'a" where
  "index_at xs i = (if i < length xs then Inr (xs ! i) else Inl IndexError)"

text \<open>\<open>range(a, b, 3)\<close>.\<close>

definition range3 :: "nat \<Rightarrow> nat \<Rightarrow> nat list" where
  "range3 a b = map (\<lambda>k. a + 3 * k) [0 ..< (b - a + 2) div 3]"

definition load_face :: "nat list \<Rightarrow> nat \<Rightarrow> error + Face" where
  "load_face index_buffer i =
     ebind (index_at index_buffer (i + 0)) (\<lambda>v1.
     ebind (index_at index_buffer (i + 1)) (\<lambda>v2.
     ebind (index_at index_buffer (i + 2)) (\<lambda>v3. Inr (v1, v2, v3))))"

definition Material_load_faces :: "Material \<Rightarrow> nat list \<Rightarrow> error + Material" where
  "Material_load_faces self index_buffer =
     (case (m_istart self, m_inum self) of
        (Some istart, Some inum) \<Rightarrow>
          ebind (emap (load_face index_buffer) (range3 istart (istart + inum))) (\<lambda>fs.
            Inr (self\<lparr>faces := fs\<rparr>))
      | _ \<Rightarrow> Inl TypeError)"

definition face_indices :: "Face \<Rightarrow> nat list" where
  "face_indices face = (case face of (v1, v2, v3) \<Rightarrow> [v1, v2, v3])"

text \<open>Returns the material with \<open>_inum\<close> and \<open>_istart\<close> set, the buffer and \<open>_inum\<close>.\<close>

definition Material_save_faces :: "Material \<Rightarrow> nat list \<Rightarrow> nat \<Rightarrow> Material \<times> nat list \<times> nat" where
  "Material_save_faces self index_buffer istart =
     (let self' = self\<lparr>m_inum := Some (length (faces self) * 3), m_istart := Some istart\<rparr>
      in (self', index_buffer @ concat (map face_indices (faces self')),
          length (faces self') * 3))"

text \<open>Returns the material with \<open>_min\<close> and \<open>_max\<close> set, and the bounds.\<close>

definition Material_calc_bounds :: "Material \<Rightarrow> error + (Material \<times> Vec3 \<times> Vec3)" where
  "Material_calc_bounds self =
     (if vertices self = [] then Inl ValueError
      else
        ebind (emap (\<lambda>vertex. Vec3_of (vertex POSITION)) (vertices self)) (\<lambda>verts.
        ebind (calc_bounds verts) (\<lambda>(mn, mx).
          Inr (self\<lparr>m_min := Some mn, m_max := Some mx\<rparr>, mn, mx))))"

subsection \<open>Faces of a material with alpha blending\<close>

record Plane =
  point :: Vec3
  normal :: Vec3

definition MaterialWithTransparency_load_faces :: "Material \<Rightarrow> nat list \<Rightarrow> error + Material" where
  "MaterialWithTransparency_load_faces self index_buffer =
     (if alpha_mode self = Some ALPHA_BLEND then
        (case (m_alpha_blend_indexnum self, m_istart self, m_inum self) of
           (Some n, Some istart0, Some inum) \<Rightarrow>
             ebind (emap (\<lambda>i. let istart = istart0 + i * inum
                               in emap (load_face index_buffer) (range3 istart (istart + inum)))
                      [0 ..< n]) (\<lambda>fsets.
               (case fsets of
                  [] \<Rightarrow> Inl IndexError
                | fs0 # _ \<Rightarrow> Inr (self\<lparr>face_sets := Some fsets, faces := fs0\<rparr>)))
         | _ \<Rightarrow> Inl TypeError)
      else Material_load_faces self index_buffer)"

definition get_sorting_planes :: "float_arith \<Rightarrow> Material \<Rightarrow> error + (Material \<times> Plane list)" where
  "get_sorting_planes ar self =
     (let planes_count = ALPHA_BLEND_FACE_SET_COUNT
      in ebind (Material_calc_bounds self) (\<lambda>(self', mn, mx).
           (let max_dist = Vec3_distance ar (0, 0, 0) mx;
                min_dist = Vec3_distance ar (0, 0, 0) mn;
                max_radius = max max_dist min_dist
            in Inr (self',
                 map (\<lambda>i.
                        let plane_rotation =
                              fl_add ar (fl_div ar 360 (2 * real planes_count))
                                (fl_mul ar (real i) (fl_div ar 360 (real planes_count)));
                            plane_normal = rotate_Y ar (- fl_radians ar plane_rotation) (0, 0, -1);
                            plane_point = Vec3_scale ar plane_normal max_radius
                        in \<lparr>point = plane_point, normal = plane_normal\<rparr>)
                     [0 ..< planes_count]))))"

text \<open>
  The centre of a face: the positions of its three vertices, added to the zero vector in
  the order of the face, and the sum scaled by the float \<open>1.0 / 3\<close>.
\<close>

definition face_center :: "float_arith \<Rightarrow> Vertex list \<Rightarrow> Face \<Rightarrow> error + Vec3" where
  "face_center ar vs face =
     ebind (efold (\<lambda>c v. ebind (index_at vs v) (\<lambda>vertex.
                          ebind (Vec3_of (vertex POSITION)) (\<lambda>p. Inr (Vec3_add ar c p))))
              (0, 0, 0) (face_indices face)) (\<lambda>c.
       Inr (Vec3_scale ar c (fl_div ar 1 3)))"

definition face_dist :: "float_arith \<Rightarrow> Plane \<Rightarrow> Vec3 \<Rightarrow> real" where
  "face_dist ar plane fcenter =
     (let delta = Vec3_sub ar fcenter (point plane)
      in \<bar>Vec3_dot_product ar delta (normal plane)\<bar>)"

text \<open>
  \<open>sorted\<close> on a list of tuples: Python's sort is stable and compares tuples
  lexicographically, the order of pairs here.
\<close>

definition py_sorted :: "(real \<times> Face) list \<Rightarrow> (real \<times> Face) list" where
  "py_sorted xs = sort xs"

text \<open>The indices that the loop over the faces sorted for one plane appends.\<close>

definition plane_block :: "float_arith \<Rightarrow> Face list \<Rightarrow> Vec3 list \<Rightarrow> Plane \<Rightarrow> nat list" where
  "plane_block ar fs face_mid_points plane =
     (let face_dist_to_plane = map (face_dist ar plane) (map snd (zip fs face_mid_points))
      in concat (map (\<lambda>(d, face). face_indices face) (py_sorted (zip face_dist_to_plane fs))))"

definition save_faces_alpha_blend ::
  "float_arith \<Rightarrow> Material \<Rightarrow> nat list \<Rightarrow> nat \<Rightarrow> error + (Material \<times> nat list \<times> nat)"
where
  "save_faces_alpha_blend ar self index_buffer istart =
     ebind (get_sorting_planes ar self) (\<lambda>(self1, sorting_planes).
       (let self2 = self1\<lparr>m_inum := Some (length (faces self1) * 3), m_istart := Some istart\<rparr>
        in ebind (emap (face_center ar (vertices self2)) (faces self2)) (\<lambda>face_mid_points.
             Inr (self2,
                  foldl (\<lambda>ib plane. ib @ plane_block ar (faces self2) face_mid_points plane)
                    index_buffer sorting_planes,
                  length (faces self2) * 3 * length sorting_planes))))"

definition MaterialWithTransparency_save_faces ::
  "float_arith \<Rightarrow> Material \<Rightarrow> nat list \<Rightarrow> nat \<Rightarrow> error + (Material \<times> nat list \<times> nat)"
where
  "MaterialWithTransparency_save_faces ar self index_buffer istart =
     (if alpha_mode self = Some ALPHA_BLEND then save_faces_alpha_blend ar self index_buffer istart
      else Inr (Material_save_faces self index_buffer istart))"

text \<open>\<open>mat.load_faces\<close> and \<open>mat.save_faces\<close>: the methods of the object's class.\<close>

definition mat_load_faces :: "Material \<Rightarrow> nat list \<Rightarrow> error + Material" where
  "mat_load_faces self index_buffer =
     (case mat_class self of
        Material_class \<Rightarrow> Material_load_faces self index_buffer
      | MaterialWithTransparency_class \<Rightarrow> MaterialWithTransparency_load_faces self index_buffer)"

definition mat_save_faces ::
  "float_arith \<Rightarrow> Material \<Rightarrow> nat list \<Rightarrow> nat \<Rightarrow> error + (Material \<times> nat list \<times> nat)"
where
  "mat_save_faces ar self index_buffer istart =
     (case mat_class self of
        Material_class \<Rightarrow> Inr (Material_save_faces self index_buffer istart)
      | MaterialWithTransparency_class \<Rightarrow>
          MaterialWithTransparency_save_faces ar self index_buffer istart)"

section \<open>Lods and geoms\<close>

text \<open>The fields \<open>_min\<close> and \<open>_max\<close> of a Lod are \<open>l_min\<close> and \<open>l_max\<close>.\<close>

record Lod =
  l_min :: "PyVec3 option"
  l_max :: "PyVec3 option"
  materials :: "Material list"

definition Lod_init :: Lod where
  "Lod_init = \<lparr>l_min = None, l_max = None, materials = []\<rparr>"

definition Lod_load :: "nat list \<Rightarrow> error + (Lod \<times> nat list)" where
  "Lod_load f = Inr (Lod_init, f)"

definition Lod_save :: "Lod \<Rightarrow> error + nat list" where
  "Lod_save self = Inr []"

definition load_parts_rigs :: "float_format \<Rightarrow> Lod \<Rightarrow> nat list \<Rightarrow> nat \<Rightarrow> error + (Lod \<times> nat list)" where
  "load_parts_rigs fc self f version =
     ebind (Vec3_load fc f) (\<lambda>(mn, f1).
     ebind (Vec3_load fc f1) (\<lambda>(mx, f2).
       (let self' = self\<lparr>l_min := Some mn, l_max := Some mx\<rparr>
        in if version \<le> 6 then ebind (Vec3_load fc f2) (\<lambda>(unused, f3). Inr (self', f3))
           else Inr (self', f2))))"

text \<open>The loop \<open>for i in range(3)\<close> of \<open>save_parts_rigs\<close>, for one material's bounds.\<close>

definition widen_bounds :: "PyVec3 \<times> PyVec3 \<Rightarrow> Vec3 \<times> Vec3 \<Rightarrow> PyVec3 \<times> PyVec3" where
  "widen_bounds acc mat_bounds =
     foldl (\<lambda>(lmin, lmax) i.
              (case mat_bounds of (mat_min, mat_max) \<Rightarrow>
                 (if float_lt (Vec3_index mat_min i) (PyVec3_index lmin i)
                  then PyVec3_set lmin i (Fin (Vec3_index mat_min i)) else lmin,
                  if float_gt (Vec3_index mat_max i) (PyVec3_index lmax i)
                  then PyVec3_set lmax i (Fin (Vec3_index mat_max i)) else lmax)))
       acc [0 ..< 3]"

text \<open>
  The loop over the materials: each material's bounds are computed (and stored in the
  material), then the bounds of the Lod are widened by them.
\<close>

definition lod_bounds_step ::
  "Material \<Rightarrow> PyVec3 \<times> PyVec3 \<Rightarrow> error + (Material \<times> (PyVec3 \<times> PyVec3))"
where
  "lod_bounds_step mat acc =
     ebind (Material_calc_bounds mat) (\<lambda>(mat', mat_min, mat_max).
       Inr (mat', widen_bounds acc (mat_min, mat_max)))"

definition save_parts_rigs :: "float_format \<Rightarrow> Lod \<Rightarrow> error + (Lod \<times> nat list)" where
  "save_parts_rigs fc self =
     ebind (emap_st lod_bounds_step (materials self)
              ((PosInf, PosInf, PosInf), (Fin 0, Fin 0, Fin 0))) (\<lambda>(mats, lmin, lmax).
     ebind (seq_out [Vec3_save fc lmin, Vec3_save fc lmax]) (\<lambda>bs.
       Inr (self\<lparr>l_min := Some lmin, l_max := Some lmax, materials := mats\<rparr>, bs)))"

definition load_materials ::
  "material_class \<Rightarrow> Lod \<Rightarrow> nat list \<Rightarrow> nat \<Rightarrow> nat option \<Rightarrow> error + (Lod \<times> nat list)"
where
  "load_materials cls self f version alpha_blend_indexnum =
     ebind (read_dword f) (\<lambda>(n, f1).
     ebind (load_n_elems (MATERIAL_TYPE_load cls version alpha_blend_indexnum) n f1) (\<lambda>(ms, f2).
       Inr (self\<lparr>materials := ms\<rparr>, f2)))"

definition save_materials :: "Lod \<Rightarrow> error + nat list" where
  "save_materials self =
     seq_out (write_dword (Some (length (materials self))) # map mat_save (materials self))"

record Geom =
  lods :: "Lod list"

definition Geom_load :: "nat list \<Rightarrow> error + (Geom \<times> nat list)" where
  "Geom_load f =
     ebind (read_dword f) (\<lambda>(n, f1).
     ebind (load_n_elems Lod_load n f1) (\<lambda>(ls, f2). Inr (\<lparr>lods = ls\<rparr>, f2)))"

definition Geom_save :: "Geom \<Rightarrow> error + nat list" where
  "Geom_save self = seq_out (write_dword (Some (length (lods self))) # map Lod_save (lods self))"

section \<open>The mesh file\<close>

definition MeshHeader_load :: "nat list \<Rightarrow> error + (nat \<times> nat list)" where
  "MeshHeader_load f =
     ebind (read_dword f) (\<lambda>(u0, f1).
     ebind (read_dword f1) (\<lambda>(version, f2).
     ebind (read_dword f2) (\<lambda>(u1, f3).
     ebind (read_dword f3) (\<lambda>(u2, f4).
     ebind (read_dword f4) (\<lambda>(u3, f5).
     ebind (read_byte f5) (\<lambda>(u4, f6). Inr (version, f6)))))))"

definition MeshHeader_save :: "nat option \<Rightarrow> error + nat list" where
  "MeshHeader_save version =
     seq_out [write_dword (Some 0), write_dword version, write_dword (Some 0),
              write_dword (Some 0), write_dword (Some 0), write_byte (Some 0)]"

text \<open>
  The class attributes of a mesh class: \<open>_VERSION\<close> (\<open>None\<close> in \<open>BF2VisibleMesh\<close> itself),
  \<open>_FILE_EXT\<close> (the empty string there) and the material class
  \<open>_GEOM_TYPE._LOD_TYPE._MATERIAL_TYPE\<close>. The subclasses that set them are not among the
  sources; the model takes them as a parameter.
\<close>

record mesh_class =
  VERSION :: "nat option"
  FILE_EXT :: string
  MATERIAL_TYPE :: material_class

record BF2VisibleMesh =
  geoms :: "Geom list"
  vertex_attributes :: "VertexAttribute list"

subsection \<open>Loading\<close>

text \<open>The vertex attribute table: the rows, without the last one when it is flagged unused.\<close>

definition load_vertex_attributes :: "nat list \<Rightarrow> error + (VertexAttribute list \<times> nat list)" where
  "load_vertex_attributes f =
     ebind (read_dword f) (\<lambda>(n, f1).
     ebind (load_n_elems VertexAttribute_load n f1) (\<lambda>(attrs, f2).
       (if attrs = [] then Inl IndexError
        else if a_flag (last attrs) = Some VertexAttribute_UNUSED then Inr (butlast attrs, f2)
        else Inr (attrs, f2))))"

definition load_primitive_type :: "nat list \<Rightarrow> error + (unit \<times> nat list)" where
  "load_primitive_type f =
     ebind (read_dword f) (\<lambda>(p, f1).
     ebind (D3DPRIMITIVETYPE_of p) (\<lambda>primitive_type.
       (if primitive_type \<noteq> TRIANGLELIST
        then Inl (BF2MeshException
                    (''Unsupported primitive type: '' @ D3DPRIMITIVETYPE_name primitive_type))
        else Inr ((), f1))))"

definition load_buffers :: "nat list \<Rightarrow> error + ((nat \<times> nat list \<times> nat list) \<times> nat list)" where
  "load_buffers f =
     ebind (read_dword f) (\<lambda>(vertex_decl_size, f1).
     ebind (read_dword f1) (\<lambda>(vcount, f2).
     ebind (read_raw (vertex_decl_size * vcount) f2) (\<lambda>(vertex_buffer, f3).
     ebind (read_dword f3) (\<lambda>(icount, f4).
     ebind (read_words icount f4) (\<lambda>(index_buffer, f5).
       Inr ((vertex_decl_size, vertex_buffer, index_buffer), f5))))))"

definition load_alpha_blend_indexnum :: "mesh_class \<Rightarrow> nat list \<Rightarrow> error + (nat option \<times> nat list)" where
  "load_alpha_blend_indexnum cls f =
     (if MATERIAL_TYPE cls = MaterialWithTransparency_class
      then ebind (read_dword f) (\<lambda>(n, f1). Inr (Some n, f1))
      else Inr (None, f))"

text \<open>The two loops over the geoms and their Lods.\<close>

definition load_all_parts_rigs ::
  "float_format \<Rightarrow> nat \<Rightarrow> Geom list \<Rightarrow> nat list \<Rightarrow> error + (Geom list \<times> nat list)"
where
  "load_all_parts_rigs fc version gs f =
     emap_st (\<lambda>geom f1.
                ebind (emap_st (\<lambda>lod f2. load_parts_rigs fc lod f2 version) (lods geom) f1)
                  (\<lambda>(ls, f3). Inr (geom\<lparr>lods := ls\<rparr>, f3)))
       gs f"

definition load_lod_materials ::
  "mesh_class \<Rightarrow> float_format \<Rightarrow> nat \<Rightarrow> nat option \<Rightarrow> nat \<Rightarrow> VertexAttribute list
     \<Rightarrow> nat list \<Rightarrow> nat list \<Rightarrow> Lod \<Rightarrow> nat list \<Rightarrow> error + (Lod \<times> nat list)"
where
  "load_lod_materials cls fc version alpha_blend_indexnum vertex_decl_size attrs
       vertex_buffer index_buffer lod f =
     ebind (load_materials (MATERIAL_TYPE cls) lod f version alpha_blend_indexnum) (\<lambda>(lod', f1).
     ebind (emap (\<lambda>mat.
                    ebind (load_vertices fc mat vertex_decl_size attrs vertex_buffer) (\<lambda>mat1.
                      mat_load_faces mat1 index_buffer))
              (materials lod')) (\<lambda>mats.
       Inr (lod'\<lparr>materials := mats\<rparr>, f1)))"

definition load_all_materials ::
  "mesh_class \<Rightarrow> float_format \<Rightarrow> nat \<Rightarrow> nat option \<Rightarrow> nat \<Rightarrow> VertexAttribute list
     \<Rightarrow> nat list \<Rightarrow> nat list \<Rightarrow> Geom list \<Rightarrow> nat list \<Rightarrow> error + (Geom list \<times> nat list)"
where
  "load_all_materials cls fc version alpha_blend_indexnum vertex_decl_size attrs
       vertex_buffer index_buffer gs f =
     emap_st (\<lambda>geom f1.
                ebind (emap_st (load_lod_materials cls fc version alpha_blend_indexnum
                                  vertex_decl_size attrs vertex_buffer index_buffer)
                         (lods geom) f1)
                  (\<lambda>(ls, f2). Inr (geom\<lparr>lods := ls\<rparr>, f2)))
       gs f"

text \<open>
  \<open>load\<close> in two parts: up to the face set count of the document, and the bounds and
  materials of the Lods after it.
\<close>

type_synonym mesh_head = "nat \<times> Geom list \<times> VertexAttribute list \<times> nat \<times> nat list \<times> nat list \<times> nat option"

definition load_head :: "mesh_class \<Rightarrow> nat list \<Rightarrow> error + (mesh_head \<times> nat list)" where
  "load_head cls f =
     ebind (MeshHeader_load f) (\<lambda>(version, f1).
     ebind (read_dword f1) (\<lambda>(ngeoms, f2).
     ebind (load_n_elems Geom_load ngeoms f2) (\<lambda>(gs, f3).
     ebind (load_vertex_attributes f3) (\<lambda>(attrs, f4).
     ebind (load_primitive_type f4) (\<lambda>(u, f5).
     ebind (load_buffers f5) (\<lambda>((vertex_decl_size, vertex_buffer, index_buffer), f6).
     ebind (load_alpha_blend_indexnum cls f6) (\<lambda>(alpha_blend_indexnum, f7).
       Inr ((version, gs, attrs, vertex_decl_size, vertex_buffer, index_buffer,
             alpha_blend_indexnum), f7))))))))"

definition load :: "mesh_class \<Rightarrow> float_format \<Rightarrow> nat list \<Rightarrow> error + (BF2VisibleMesh \<times> nat list)" where
  "load cls fc f =
     ebind (load_head cls f)
       (\<lambda>((version, gs, attrs, vertex_decl_size, vertex_buffer, index_buffer,
            alpha_blend_indexnum), f7).
     ebind (load_all_parts_rigs fc version gs f7) (\<lambda>(gs1, f8).
     ebind (load_all_materials cls fc version alpha_blend_indexnum vertex_decl_size attrs
              vertex_buffer index_buffer gs1 f8) (\<lambda>(gs2, f9).
       Inr (\<lparr>geoms = gs2, vertex_attributes = attrs\<rparr>, f9))))"

text \<open>
  The constructor with a file: after \<open>load\<close>, the file position must be the size of the
  file.
\<close>

definition BF2VisibleMesh_init :: "mesh_class \<Rightarrow> float_format \<Rightarrow> nat list \<Rightarrow> error + BF2VisibleMesh" where
  "BF2VisibleMesh_init cls fc f =
     ebind (load cls fc f) (\<lambda>(self, rest).
       (if rest \<noteq> []
        then Inl (BF2MeshException
                    (''Corrupted '' @ FILE_EXT cls
                       @ '' file? Reading finished and file pointer != filesize''))
        else Inr self))"

subsection \<open>Exporting\<close>

text \<open>
  The body of the loop over the vertex attributes: a row flagged unused is skipped; any
  other row gets the running size as its offset, is flagged used and written. The state
  is the running \<open>vertex_decl_size\<close>; the result is the updated row and the bytes written.
\<close>

definition export_vertex_attr ::
  "VertexAttribute \<Rightarrow> nat \<Rightarrow> error + ((VertexAttribute \<times> nat list) \<times> nat)"
where
  "export_vertex_attr vertex_attr vertex_decl_size =
     (if a_flag vertex_attr = Some VertexAttribute_UNUSED then Inr ((vertex_attr, []), vertex_decl_size)
      else
        (let vertex_attr' =
               vertex_attr\<lparr>a_offset := Some vertex_decl_size, a_flag := Some VertexAttribute_USED\<rparr>
         in ebind (VertexAttribute_save vertex_attr') (\<lambda>bs.
            ebind (get_struct_fmt (decl_type vertex_attr')) (\<lambda>fmt.
              Inr ((vertex_attr', bs), vertex_decl_size + struct_calcsize fmt)))))"

text \<open>
  The dummy last row: type \<open>UNUSED\<close>, usage \<open>0\<close> (the value of \<open>POSITION\<close>), offset 0,
  flagged unused.
\<close>

definition unused_attr :: VertexAttribute where
  "unused_attr =
     (VertexAttribute_init UNUSED POSITION)
       \<lparr>a_offset := Some 0, a_flag := Some VertexAttribute_UNUSED\<rparr>"

text \<open>
  The attribute table as written: the count \<open>len(self.vertex_attributes) + 1\<close>, the rows
  of the loop and the dummy row. Returns the updated rows, \<open>vertex_decl_size\<close> and the bytes.
\<close>

definition export_vertex_attributes ::
  "VertexAttribute list \<Rightarrow> error + (VertexAttribute list \<times> nat \<times> nat list)"
where
  "export_vertex_attributes attrs =
     ebind (write_dword (Some (length attrs + 1))) (\<lambda>cnt_bytes.
     ebind (emap_st export_vertex_attr attrs 0) (\<lambda>(rows, vertex_decl_size).
     ebind (VertexAttribute_save unused_attr) (\<lambda>last_bytes.
       Inr (map fst rows, vertex_decl_size, cnt_bytes @ concat (map snd rows) @ last_bytes))))"

text \<open>
  The body of the loop over all materials. The state is the vertex buffer, the index
  buffer, \<open>has_alpha_blend_material\<close>, \<open>vstart\<close> and \<open>istart\<close>.
\<close>

type_synonym export_state = "nat list \<times> nat list \<times> bool \<times> nat \<times> nat"

definition export_material ::
  "float_arith \<Rightarrow> float_format \<Rightarrow> VertexAttribute list \<Rightarrow> Material \<Rightarrow> export_state
     \<Rightarrow> error + (Material \<times> export_state)"
where
  "export_material ar fc attrs mat st =
     (case st of (vertex_buffer, index_buffer, has_alpha_blend_material, vstart, istart) \<Rightarrow>
        (let has_alpha' =
               (if mat_class mat = MaterialWithTransparency_class
                then has_alpha_blend_material \<or> alpha_mode mat = Some ALPHA_BLEND
                else has_alpha_blend_material)
         in ebind (save_vertices fc mat attrs vertex_buffer vstart) (\<lambda>(mat1, vb, vnum).
            ebind (mat_save_faces ar mat1 index_buffer istart) (\<lambda>(mat2, ib, inum).
              Inr (mat2, (vb, ib, has_alpha', vstart + vnum, istart + inum))))))"

definition export_lod_buffers ::
  "float_arith \<Rightarrow> float_format \<Rightarrow> VertexAttribute list \<Rightarrow> Lod \<Rightarrow> export_state
     \<Rightarrow> error + (Lod \<times> export_state)"
where
  "export_lod_buffers ar fc attrs lod st =
     ebind (emap_st (export_material ar fc attrs) (materials lod) st) (\<lambda>(mats, st').
       Inr (lod\<lparr>materials := mats\<rparr>, st'))"

definition export_geom_buffers ::
  "float_arith \<Rightarrow> float_format \<Rightarrow> VertexAttribute list \<Rightarrow> Geom \<Rightarrow> export_state
     \<Rightarrow> error + (Geom \<times> export_state)"
where
  "export_geom_buffers ar fc attrs geom st =
     ebind (emap_st (export_lod_buffers ar fc attrs) (lods geom) st) (\<lambda>(ls, st').
       Inr (geom\<lparr>lods := ls\<rparr>, st'))"

definition export_buffers ::
  "float_arith \<Rightarrow> float_format \<Rightarrow> VertexAttribute list \<Rightarrow> Geom list
     \<Rightarrow> error + (Geom list \<times> export_state)"
where
  "export_buffers ar fc attrs gs =
     emap_st (export_geom_buffers ar fc attrs) gs ([], [], False, 0, 0)"

text \<open>The vertex count, the vertex bytes, the index count and the indices.\<close>

definition save_buffers :: "nat \<Rightarrow> nat list \<Rightarrow> nat list \<Rightarrow> error + nat list" where
  "save_buffers vertex_decl_size vertex_buffer index_buffer =
     (if vertex_decl_size = 0 then Inl ZeroDivisionError
      else seq_out [write_dword (Some (length vertex_buffer div vertex_decl_size)),
                    write_raw vertex_buffer,
                    write_dword (Some (length index_buffer)),
                    write_words index_buffer])"

text \<open>The face set count of the document, written for a class with transparency only.\<close>

definition save_alpha_blend_indexnum :: "mesh_class \<Rightarrow> bool \<Rightarrow> error + nat list" where
  "save_alpha_blend_indexnum cls has_alpha_blend_material =
     (if MATERIAL_TYPE cls = MaterialWithTransparency_class then
        (if has_alpha_blend_material then write_dword (Some ALPHA_BLEND_FACE_SET_COUNT)
         else write_dword (Some 0))
      else Inr [])"

definition save_all_parts_rigs :: "float_format \<Rightarrow> Geom list \<Rightarrow> error + (Geom list \<times> nat list)" where
  "save_all_parts_rigs fc gs =
     emap_out (\<lambda>geom. ebind (emap_out (save_parts_rigs fc) (lods geom))
                         (\<lambda>(ls, bs). Inr (geom\<lparr>lods := ls\<rparr>, bs)))
       gs"

definition save_all_materials :: "Geom list \<Rightarrow> error + nat list" where
  "save_all_materials gs = seq_out (map (\<lambda>geom. seq_out (map save_materials (lods geom))) gs)"

text \<open>\<open>export\<close> returns the mesh as the export leaves it, and the bytes of the file.\<close>

definition export ::
  "mesh_class \<Rightarrow> float_arith \<Rightarrow> float_format \<Rightarrow> BF2VisibleMesh
     \<Rightarrow> error + (BF2VisibleMesh \<times> nat list)"
where
  "export cls ar fc self =
     ebind (MeshHeader_save (VERSION cls)) (\<lambda>header.
     ebind (seq_out (write_dword (Some (length (geoms self))) # map Geom_save (geoms self)))
       (\<lambda>skeleton.
     ebind (export_vertex_attributes (vertex_attributes self)) (\<lambda>(attrs, vertex_decl_size, table).
     ebind (seq_out [write_dword (Some (D3DPRIMITIVETYPE_int TRIANGLELIST)),
                     write_dword (Some vertex_decl_size)]) (\<lambda>prim.
     ebind (export_buffers ar fc attrs (geoms self))
       (\<lambda>(gs1, vertex_buffer, index_buffer, has_alpha_blend_material, vstart, istart).
     ebind (save_buffers vertex_decl_size vertex_buffer index_buffer) (\<lambda>buffers.
     ebind (save_alpha_blend_indexnum cls has_alpha_blend_material) (\<lambda>face_set_count.
     ebind (save_all_parts_rigs fc gs1) (\<lambda>(gs2, bounds).
     ebind (save_all_materials gs2) (\<lambda>mats.
       Inr (\<lparr>geoms = gs2, vertex_attributes = attrs\<rparr>,
            header @ skeleton @ table @ prim @ buffers @ face_set_count @ bounds @ mats))))))))))"

section \<open>Frames and example documents\<close>

text \<open>
  Two materials have the same content when they agree on every field but the bookkeeping
  of the last load or save (\<open>_vstart\<close>, \<open>_istart\<close>, \<open>_inum\<close>, \<open>_vnum\<close>, \<open>_min\<close>, \<open>_max\<close>).
\<close>

definition same_content :: "Material \<Rightarrow> Material \<Rightarrow> bool" where
  "same_content self' self \<longleftrightarrow>
     mat_class self' = mat_class self \<and> fxfile self' = fxfile self
     \<and> technique self' = technique self \<and> maps self' = maps self
     \<and> vertices self' = vertices self \<and> faces self' = faces self
     \<and> m_u4 self' = m_u4 self \<and> m_u5 self' = m_u5 self
     \<and> alpha_mode self' = alpha_mode self \<and> face_sets self' = face_sets self
     \<and> m_alpha_blend_indexnum self' = m_alpha_blend_indexnum self"

text \<open>
  A two-sided triangle with alpha blending: the same three vertices, once in each winding.
  Its face sets are as a load could have left them.
\<close>

definition vertex_at :: "real \<Rightarrow> real \<Rightarrow> real \<Rightarrow> Vertex" where
  "vertex_at x y z = Vertex_init(POSITION := Some [F x, F y, F z])"

definition two_sided_material :: Material where
  "two_sided_material =
     (Material_init MaterialWithTransparency_class)
       \<lparr>fxfile := Some ''glass.fx'', technique := Some ''alpha'',
        vertices := [vertex_at 0 0 0, vertex_at 1 0 0, vertex_at 0 1 0],
        faces := [(2, 1, 0), (0, 1, 2)],
        alpha_mode := Some ALPHA_BLEND,
        face_sets := Some [[(0, 1, 2), (2, 1, 0)], [(2, 1, 0), (0, 1, 2)]]\<rparr>"


text \<open>
  The arithmetic without rounding, for evaluating examples. The sums of the examples are
  sums of small integers, which the doubles add without rounding.
\<close>

definition exact_arith :: float_arith where
  "exact_arith =
     \<lparr>fl_add = (+), fl_sub = (-), fl_mul = (*), fl_div = (/), fl_sqrt = sqrt,
      fl_sin = sin, fl_cos = cos, fl_radians = (\<lambda>deg. deg * pi / 180)\<rparr>"

text \<open>
  A float format for evaluating examples: four bytes hold a small natural number. The
  claims below do not depend on how a float is laid out.
\<close>

definition example_format :: float_format where
  "example_format = \<lparr>pack_f = (\<lambda>x. le_encode 4 (nat \<lfloor>x\<rfloor>)), unpack_f = (\<lambda>bs. real (le_decode bs))\<rparr>"

text \<open>A Lod of one opaque material that lies wholly below the origin.\<close>

definition below_origin_material :: Material where
  "below_origin_material =
     (Material_init Material_class)
       \<lparr>fxfile := Some ''a.fx'', technique := Some ''t'',
        vertices := [vertex_at (-2) (-2) (-2), vertex_at (-1) (-1) (-1), vertex_at (-2) (-1) (-2)],
        faces := [(0, 1, 2)]\<rparr>"

definition below_origin_lod :: Lod where
  "below_origin_lod = Lod_init\<lparr>materials := [below_origin_material]\<rparr>"

text \<open>
  The triangle of the concrete scenario: one opaque material of three vertices at (0,0,0),
  (1,0,0) and (0,1,0) and one face, alone in a Lod.
\<close>

definition triangle_material :: Material where
  "triangle_material =
     (Material_init Material_class)
       \<lparr>fxfile := Some ''a.fx'', technique := Some ''t'',
        vertices := [vertex_at 0 0 0, vertex_at 1 0 0, vertex_at 0 1 0],
        faces := [(0, 1, 2)]\<rparr>"

definition triangle_lod :: Lod where
  "triangle_lod = Lod_init\<lparr>materials := [triangle_material]\<rparr>"

text \<open>
  A material of one vertex at the start of the vertex buffer, and two rows of the type
  \<open>UBYTE4\<close>, which has no format: one flagged unused, one flagged used.
\<close>

definition one_vertex_material :: Material where
  "one_vertex_material = (Material_init Material_class)\<lparr>m_vstart := Some 0, m_vnum := Some 1\<rparr>"

definition skipped_ubyte4_row :: VertexAttribute where
  "skipped_ubyte4_row =
     (VertexAttribute_init UBYTE4 BLENDINDICES)\<lparr>a_flag := Some 255, a_offset := Some 12\<rparr>"

definition used_ubyte4_row :: VertexAttribute where
  "used_ubyte4_row =
     (VertexAttribute_init UBYTE4 BLENDINDICES)\<lparr>a_flag := Some 0, a_offset := Some 0\<rparr>"

text \<open>A material of no vertices.\<close>

definition no_vertex_material :: Material where
  "no_vertex_material = (Material_init Material_class)\<lparr>m_vstart := Some 0, m_vnum := Some 0\<rparr>"

text \<open>A material as loaded from a file whose two reserved dwords are 7 and 9.\<close>

definition reserved_material :: Material where
  "reserved_material =
     (Material_init Material_class)
       \<lparr>fxfile := Some ''a'', technique := Some ''b'', maps := [],
        m_vstart := Some 0, m_istart := Some 0, m_inum := Some 0, m_vnum := Some 0,
        m_u4 := Some 7, m_u5 := Some 9\<rparr>"

text \<open>The vector that \<open>Vec3.load\<close> reads from the first twelve bytes of a list.\<close>

definition unpack_vec3 :: "float_format \<Rightarrow> nat list \<Rightarrow> PyVec3" where
  "unpack_vec3 fc bs =
     (float_of_bytes fc (take 4 bs), float_of_bytes fc (take 4 (drop 4 bs)),
      float_of_bytes fc (take 4 (drop 8 bs)))"

text \<open>
  Two mesh classes of version 11, without and with transparency, and the start of a file
  of no geoms whose table is the dummy row alone: header, geom count, table.
\<close>

definition opaque_mesh_class :: mesh_class where
  "opaque_mesh_class = \<lparr>VERSION = Some 11, FILE_EXT = ''.staticmesh'', MATERIAL_TYPE = Material_class\<rparr>"

definition transparent_mesh_class :: mesh_class where
  "transparent_mesh_class =
     \<lparr>VERSION = Some 11, FILE_EXT = ''.staticmesh'', MATERIAL_TYPE = MaterialWithTransparency_class\<rparr>"

definition file_up_to_primitive_type :: "nat list" where
  "file_up_to_primitive_type =
     [0, 0, 0, 0, 11, 0, 0, 0, 0, 0, 0, 0, 0, 0, 0, 0, 0, 0, 0, 0, 0,
      0, 0, 0, 0,
      1, 0, 0, 0, 255, 0, 0, 0, 17, 0, 0, 0]"

section \<open>Predicates for the round trip\<close>

text \<open>What \<open>load\<close> makes of the geom and Lod counts: geoms of empty Lods.\<close>

definition skeleton :: "Geom \<Rightarrow> Geom" where
  "skeleton g = \<lparr>lods = replicate (length (lods g)) Lod_init\<rparr>"

text \<open>
  A tuple survives packing and unpacking under the item codes \<open>cs\<close> when each float item
  holds a float that the four-byte format represents exactly.
\<close>

definition value_ok :: "float_format \<Rightarrow> char list \<Rightarrow> scalar list \<Rightarrow> bool" where
  "value_ok fc cs xs \<longleftrightarrow>
     (\<forall>(c, s) \<in> set (zip cs xs). c = CHR ''f'' \<longrightarrow> (\<exists>x. s = F x \<and> unpack_f fc (pack_f fc x) = x))"

text \<open>
  The rows of a table as an export leaves them: all flagged used, each at the offset where
  the row before it ends. \<open>table_size\<close> is the size of one vertex record.
\<close>

fun laid_out :: "nat \<Rightarrow> VertexAttribute list \<Rightarrow> bool" where
  "laid_out off [] = True"
| "laid_out off (a # as) =
     (a_flag a = Some VertexAttribute_USED \<and> a_offset a = Some off
      \<and> (case get_struct_fmt (decl_type a) of
            Inl e \<Rightarrow> False
          | Inr fmt \<Rightarrow> laid_out (off + struct_calcsize fmt) as))"

fun table_size :: "VertexAttribute list \<Rightarrow> nat" where
  "table_size [] = 0"
| "table_size (a # as) =
     (case get_struct_fmt (decl_type a) of Inl e \<Rightarrow> 0 | Inr fmt \<Rightarrow> struct_calcsize fmt)
       + table_size as"

text \<open>
  A table as loaded from a file whose second row is flagged unused: a position row and a
  normal row flagged unused (the dummy last row of the file is dropped by the load).
\<close>

definition position_row :: VertexAttribute where
  "position_row = (VertexAttribute_init FLOAT3 POSITION)\<lparr>a_flag := Some 0, a_offset := Some 0\<rparr>"

definition unused_normal_row :: VertexAttribute where
  "unused_normal_row = (VertexAttribute_init FLOAT3 NORMAL)\<lparr>a_flag := Some 255, a_offset := Some 12\<rparr>"

text \<open>
  The bytes that \<open>save_vertices\<close> appends for one vertex and for a list of vertices.
\<close>

definition encode_vertex :: "float_format \<Rightarrow> VertexAttribute list \<Rightarrow> Vertex \<Rightarrow> error + nat list" where
  "encode_vertex fc attrs v = efold (save_vertex_attr fc v) [] attrs"

definition encode_vertices :: "float_format \<Rightarrow> VertexAttribute list \<Rightarrow> Vertex list \<Rightarrow> error + nat list" where
  "encode_vertices fc attrs vs = seq_out (map (encode_vertex fc attrs) vs)"

text \<open>
  A vertex fits a table when it has a value for no usage but those of the table, and each
  value survives packing and unpacking under the format of its row.
\<close>

definition vertex_ok :: "float_format \<Rightarrow> VertexAttribute list \<Rightarrow> Vertex \<Rightarrow> bool" where
  "vertex_ok fc attrs v \<longleftrightarrow>
     (\<forall>u. v u \<noteq> None \<longrightarrow> u \<in> decl_usage ` set attrs)
     \<and> (\<forall>a \<in> set attrs. \<forall>fmt xs. get_struct_fmt (decl_type a) = Inr fmt
            \<longrightarrow> v (decl_usage a) = Some xs \<longrightarrow> value_ok fc (struct_items fmt) xs)"

text \<open>
  A material is written with face sets when it is an object of the class with transparency
  and its alpha mode is \<open>ALPHA_BLEND\<close>. \<open>index_count\<close> is the number of indices that saving
  the faces of a material appends, \<open>all_materials\<close> the materials of a document in the
  order of the loops over geoms, Lods and materials.
\<close>

definition uses_alpha_blend :: "Material \<Rightarrow> bool" where
  "uses_alpha_blend m \<longleftrightarrow>
     mat_class m = MaterialWithTransparency_class \<and> alpha_mode m = Some ALPHA_BLEND"

definition index_count :: "Material \<Rightarrow> nat" where
  "index_count m =
     (if uses_alpha_blend m then length (faces m) * 3 * ALPHA_BLEND_FACE_SET_COUNT
      else length (faces m) * 3)"

definition all_materials :: "Geom list \<Rightarrow> Material list" where
  "all_materials gs = concat (map (\<lambda>g. concat (map materials (lods g))) gs)"

text \<open>
  The indices that saving a material appends: for a material with alpha blending eight
  blocks, each the faces of the material in some order; otherwise the faces in order.
\<close>

definition face_set_blocks :: "Material \<Rightarrow> nat list list \<Rightarrow> bool" where
  "face_set_blocks m blocks \<longleftrightarrow>
     length blocks = ALPHA_BLEND_FACE_SET_COUNT
     \<and> (\<forall>b \<in> set blocks. \<exists>fs. mset fs = mset (faces m) \<and> b = concat (map face_indices fs))"

definition indices_of :: "Material \<Rightarrow> nat list \<Rightarrow> bool" where
  "indices_of m X \<longleftrightarrow>
     (if uses_alpha_blend m then (\<exists>blocks. X = concat blocks \<and> face_set_blocks m blocks)
      else X = concat (map face_indices (faces m)))"

text \<open>
  A material is placed in a vertex buffer and an index buffer when its bookkeeping fields
  hold the start and the number of its vertices and indices, the encoded vertices are in
  the vertex buffer at the start (in vertices) and its indices are in the index buffer at
  the start.
\<close>

definition placed :: "float_format \<Rightarrow> VertexAttribute list \<Rightarrow> nat list \<Rightarrow> nat list \<Rightarrow> Material \<Rightarrow> bool" where
  "placed fc attrs vb ib m \<longleftrightarrow>
     (\<exists>vs is E A B C X D.
        m_vstart m = Some vs \<and> m_vnum m = Some (length (vertices m))
        \<and> m_istart m = Some is \<and> m_inum m = Some (length (faces m) * 3)
        \<and> encode_vertices fc attrs (vertices m) = Inr E
        \<and> vb = A @ E @ B \<and> length A = vs * table_size attrs
        \<and> ib = C @ X @ D \<and> length C = is \<and> indices_of m X)"

text \<open>
  The state of the loop over the materials of an export: the buffers have the lengths that
  the running starts say; a later state extends the buffers of an earlier one.
\<close>

definition buffers_ok :: "nat \<Rightarrow> export_state \<Rightarrow> bool" where
  "buffers_ok vds st =
     (case st of (vb, ib, ha, vstart, istart) \<Rightarrow>
        length vb = vstart * vds \<and> length ib = istart)"

definition buffers_extend :: "export_state \<Rightarrow> export_state \<Rightarrow> bool" where
  "buffers_extend s t =
     (case s of (vb, ib, r) \<Rightarrow> case t of (vb', ib', r') \<Rightarrow>
        (\<exists>X Y. vb' = vb @ X \<and> ib' = ib @ Y))"

definition placed_in :: "float_format \<Rightarrow> VertexAttribute list \<Rightarrow> export_state \<Rightarrow> Material \<Rightarrow> bool" where
  "placed_in fc attrs st m = (case st of (vb, ib, r) \<Rightarrow> placed fc attrs vb ib m)"

text \<open>
  The content of a material, a Lod, a geom, an attribute row and a document: what is left
  when the fields derived on load or save (offsets and counts, bounds, flags, the reserved
  dwords, face sets) are blanked. Two documents are structurally equal when their
  contents are.
\<close>

definition content :: "Material \<Rightarrow> Material" where
  "content m =
     (Material_init (mat_class m))
       \<lparr>fxfile := fxfile m, technique := technique m, maps := maps m,
        vertices := vertices m, faces := faces m,
        alpha_mode := (if mat_class m = MaterialWithTransparency_class then alpha_mode m else None)\<rparr>"

definition lod_content :: "Lod \<Rightarrow> Lod" where
  "lod_content l = Lod_init\<lparr>materials := map content (materials l)\<rparr>"

definition geom_content :: "Geom \<Rightarrow> Geom" where
  "geom_content g = \<lparr>lods = map lod_content (lods g)\<rparr>"

definition attr_content :: "VertexAttribute \<Rightarrow> VertexAttribute" where
  "attr_content a = VertexAttribute_init (decl_type a) (decl_usage a)"

definition doc_content :: "BF2VisibleMesh \<Rightarrow> BF2VisibleMesh" where
  "doc_content d =
     \<lparr>geoms = map geom_content (geoms d), vertex_attributes = map attr_content (vertex_attributes d)\<rparr>"

text \<open>
  A document of one geom, one Lod and the two-sided triangle, with a table of one position
  row; and a document of no geoms.
\<close>

definition glass_document :: BF2VisibleMesh where
  "glass_document =
     \<lparr>geoms = [\<lparr>lods = [Lod_init\<lparr>materials := [two_sided_material]\<rparr>]\<rparr>],
      vertex_attributes = [position_row]\<rparr>"

definition empty_document :: BF2VisibleMesh where
  "empty_document = \<lparr>geoms = [], vertex_attributes = [position_row]\<rparr>"

section \<open>Basic facts\<close>

lemma ebind_Inr [simp]: "ebind (Inr x) k = k x" by (simp add: ebind_def)
lemma ebind_Inl [simp]: "ebind (Inl e) k = Inl e" by (simp add: ebind_def)

lemma exact_arith_simps [simp]:
  "fl_add exact_arith x y = x + y" "fl_sub exact_arith x y = x - y"
  "fl_mul exact_arith x y = x * y" "fl_div exact_arith x y = x / y"
  "fl_sqrt exact_arith x = sqrt x" "fl_sin exact_arith x = sin x" "fl_cos exact_arith x = cos x"
  "fl_radians exact_arith x = x * pi / 180"
  by (simp_all add: exact_arith_def)

lemma ebind_eq_Inr: "ebind r k = Inr y \<longleftrightarrow> (\<exists>x. r = Inr x \<and> k x = Inr y)"
  by (cases r) simp_all

lemma seq_out_Cons_Inr:
  "seq_out (w # ws) = Inr bs \<longleftrightarrow> (\<exists>a b. w = Inr a \<and> seq_out ws = Inr b \<and> bs = a @ b)"
  by (auto split: sum.splits)

lemma length_le_encode [simp]: "length (le_encode k n) = k"
  by (induction k arbitrary: n) simp_all

lemma le_decode_encode: "n < 256 ^ k \<Longrightarrow> le_decode (le_encode k n) = n"
proof (induction k arbitrary: n)
  case 0
  then show ?case by simp
next
  case (Suc k)
  have "n div 256 < 256 ^ k" using Suc.prems by (simp add: less_mult_imp_div_less mult.commute)
  then show ?case using Suc.IH [of "n div 256"] by simp
qed

lemma read_raw_append [simp]: "read_raw (length bs) (bs @ rest) = Inr (bs, rest)"
  by (simp add: read_raw_def)

lemma read_uint_write:
  "write_uint k v = Inr bs \<Longrightarrow> \<exists>n. v = Some n \<and> n < 256 ^ k \<and> bs = le_encode k n \<and> read_uint k (bs @ rest) = Inr (n, rest)"
  apply (cases v)
   apply (simp add: write_uint_def)
  apply (auto simp: write_uint_def read_uint_def le_decode_encode split: if_splits)
  using read_raw_append [of "le_encode k _" rest]
  apply (simp add: le_decode_encode)
  done


section \<open>What a save changes in a material\<close>

lemma Material_calc_bounds_frame:
  "Material_calc_bounds self = Inr (self', mn, mx) \<Longrightarrow>
     self' = self\<lparr>m_min := Some mn, m_max := Some mx\<rparr>"
  by (auto simp: Material_calc_bounds_def ebind_eq_Inr split: if_splits)

lemma get_sorting_planes_frame:
  assumes "get_sorting_planes ar self = Inr (self', planes)"
  shows "same_content self' self \<and> length planes = 8"
proof -
  from assms obtain mn mx where cb: "Material_calc_bounds self = Inr (self', mn, mx)"
    and "length planes = 8"
    by (auto simp: get_sorting_planes_def Let_def ebind_eq_Inr ALPHA_BLEND_FACE_SET_COUNT_def)
  moreover have "same_content self' self"
    using Material_calc_bounds_frame [OF cb] by (simp add: same_content_def)
  ultimately show ?thesis by simp
qed

lemma save_faces_alpha_blend_frame:
  assumes "save_faces_alpha_blend ar self ib istart = Inr (self', ib', n)"
  shows "same_content self' self"
proof -
  from assms obtain self1 planes where gp: "get_sorting_planes ar self = Inr (self1, planes)"
    and "self' = self1\<lparr>m_inum := Some (length (faces self1) * 3), m_istart := Some istart\<rparr>"
    by (auto simp: save_faces_alpha_blend_def Let_def ebind_eq_Inr)
  then show ?thesis
    using get_sorting_planes_frame [OF gp] by (simp add: same_content_def)
qed


subsection \<open>The two-sided triangle, saved\<close>

lemma two_sided_bounds:
  "Material_calc_bounds two_sided_material =
     Inr (two_sided_material\<lparr>m_min := Some (0, 0, 0), m_max := Some (1, 1, 0)\<rparr>, (0, 0, 0), (1, 1, 0))"
  by (simp add: Material_calc_bounds_def two_sided_material_def Material_init_def vertex_at_def
      Vertex_init_def Vec3_of_def calc_bounds_def)

lemma two_sided_centers:
  "emap (face_center exact_arith (vertices two_sided_material)) (faces two_sided_material)
     = Inr [(1/3, 1/3, 0), (1/3, 1/3, 0)]"
  by (simp add: two_sided_material_def Material_init_def face_center_def face_indices_def
      index_at_def vertex_at_def Vertex_init_def Vec3_of_def Vec3_add_def Vec3_scale_def)


lemma py_sorted_tie:
  "py_sorted [(k, a), (k, b)] = (if a \<le> b then [(k, a), (k, b)] else [(k, b), (k, a)])"
  by (auto simp: py_sorted_def less_eq_prod_def)

lemma two_sided_block:
  "plane_block exact_arith [(2, 1, 0), (0, 1, 2)] [c, c] plane = [0, 1, 2, 2, 1, 0]"
  by (simp add: plane_block_def py_sorted_tie face_indices_def less_eq_prod_def)

lemma foldl_const_block:
  "(\<And>p. p \<in> set ps \<Longrightarrow> blk p = b) \<Longrightarrow>
     foldl (\<lambda>ib p. ib @ blk p) ib ps = ib @ concat (replicate (length ps) b)"
proof (induction ps arbitrary: ib)
  case Nil
  then show ?case by simp
next
  case (Cons p ps)
  then show ?case by simp
qed

lemma two_sided_planes:
  "\<exists>planes. get_sorting_planes exact_arith two_sided_material =
     Inr (two_sided_material\<lparr>m_min := Some (0, 0, 0), m_max := Some (1, 1, 0)\<rparr>, planes)
     \<and> length planes = 8"
  by (simp add: get_sorting_planes_def two_sided_bounds Let_def ALPHA_BLEND_FACE_SET_COUNT_def)

lemma two_sided_save:
  "save_faces_alpha_blend exact_arith two_sided_material ib istart =
     Inr (two_sided_material\<lparr>m_min := Some (0, 0, 0), m_max := Some (1, 1, 0),
            m_inum := Some 6, m_istart := Some istart\<rparr>,
          ib @ concat (replicate 8 [0, 1, 2, 2, 1, 0]), 48)"
proof -
  obtain planes where gp: "get_sorting_planes exact_arith two_sided_material =
     Inr (two_sided_material\<lparr>m_min := Some (0, 0, 0), m_max := Some (1, 1, 0)\<rparr>, planes)"
    and len: "length planes = 8"
    using two_sided_planes by blast
  have fs: "faces two_sided_material = [(2, 1, 0), (0, 1, 2)]"
    by (simp add: two_sided_material_def)
  have blk: "\<And>plane. plane_block exact_arith (faces two_sided_material) [(1/3, 1/3, 0), (1/3, 1/3, 0)] plane
     = [0, 1, 2, 2, 1, 0]"
    unfolding fs by (rule two_sided_block)
  have "save_faces_alpha_blend exact_arith two_sided_material ib istart =
     Inr (two_sided_material\<lparr>m_min := Some (0, 0, 0), m_max := Some (1, 1, 0),
            m_inum := Some (length (faces two_sided_material) * 3), m_istart := Some istart\<rparr>,
          foldl (\<lambda>ib plane. ib @ plane_block exact_arith (faces two_sided_material)
                                   [(1/3, 1/3, 0), (1/3, 1/3, 0)] plane) ib planes,
          length (faces two_sided_material) * 3 * length planes)"
    by (simp add: save_faces_alpha_blend_def gp Let_def two_sided_centers del: emap.simps)
  moreover have "foldl (\<lambda>ib plane. ib @ plane_block exact_arith (faces two_sided_material)
                                   [(1/3, 1/3, 0), (1/3, 1/3, 0)] plane) ib planes
      = ib @ concat (replicate 8 [0, 1, 2, 2, 1, 0])"
    using foldl_const_block [of planes "plane_block exact_arith (faces two_sided_material)
                                   [(1/3, 1/3, 0), (1/3, 1/3, 0)]" "[0, 1, 2, 2, 1, 0]" ib]
    by (simp add: blk len)
  ultimately show ?thesis
    by (simp only: fs len) simp
qed


section \<open>Claims\<close>

text \<open>
  C10. Saving a material with alpha blending leaves its field \<open>face_sets\<close> (and its active
  list \<open>faces\<close>) as they were: the orderings made for the planes go to the index buffer
  only.
\<close>

theorem save_faces_keeps_face_sets:
  assumes "mat_class self = MaterialWithTransparency_class"
    and "alpha_mode self = Some ALPHA_BLEND"
    and "mat_save_faces ar self index_buffer istart = Inr (self', index_buffer', n)"
  shows "face_sets self' = face_sets self \<and> faces self' = faces self"
proof -
  from assms have "save_faces_alpha_blend ar self index_buffer istart = Inr (self', index_buffer', n)"
    by (simp add: mat_save_faces_def MaterialWithTransparency_save_faces_def)
  from save_faces_alpha_blend_frame [OF this] show ?thesis
    by (simp add: same_content_def)
qed

theorem save_faces_keeps_face_sets_witness:
  "mat_save_faces exact_arith two_sided_material [] 0 =
     Inr (two_sided_material\<lparr>m_min := Some (0, 0, 0), m_max := Some (1, 1, 0),
            m_inum := Some 6, m_istart := Some 0\<rparr>,
          concat (replicate 8 [0, 1, 2, 2, 1, 0]), 48)
   \<and> face_sets (two_sided_material\<lparr>m_min := Some (0, 0, 0), m_max := Some (1, 1, 0),
            m_inum := Some 6, m_istart := Some 0\<rparr>)
       = Some [[(0, 1, 2), (2, 1, 0)], [(2, 1, 0), (0, 1, 2)]]"
proof -
  have c: "mat_class two_sided_material = MaterialWithTransparency_class"
    and a: "alpha_mode two_sided_material = Some ALPHA_BLEND"
    by (simp_all add: two_sided_material_def Material_init_def)
  have s: "mat_save_faces exact_arith two_sided_material [] 0 =
     Inr (two_sided_material\<lparr>m_min := Some (0, 0, 0), m_max := Some (1, 1, 0),
            m_inum := Some 6, m_istart := Some 0\<rparr>,
          concat (replicate 8 [0, 1, 2, 2, 1, 0]), 48)"
    using two_sided_save [of "[]" 0]
    by (simp add: mat_save_faces_def MaterialWithTransparency_save_faces_def c a)
  from save_faces_keeps_face_sets [OF c a s] s show ?thesis
    by (simp add: two_sided_material_def)
qed

subsection \<open>The index blocks of a material with alpha blending\<close>

lemma foldl_append_blocks:
  "foldl (\<lambda>ib p. ib @ blk p) ib ps = ib @ concat (map blk ps)"
  by (induction ps arbitrary: ib) simp_all

lemma save_faces_alpha_blend_out:
  assumes "save_faces_alpha_blend ar self ib istart = Inr (self', ib', n)"
  shows "\<exists>self1 planes mids.
           get_sorting_planes ar self = Inr (self1, planes) \<and> length planes = 8
           \<and> emap (face_center ar (vertices self)) (faces self) = Inr mids
           \<and> ib' = ib @ concat (map (plane_block ar (faces self) mids) planes)
           \<and> n = length (faces self) * 3 * 8"
proof -
  from assms obtain self1 planes where gp: "get_sorting_planes ar self = Inr (self1, planes)"
    by (auto simp: save_faces_alpha_blend_def ebind_eq_Inr)
  from get_sorting_planes_frame [OF gp] have sc: "same_content self1 self" and len: "length planes = 8"
    by simp_all
  from sc have v: "vertices self1 = vertices self" and f: "faces self1 = faces self"
    by (simp_all add: same_content_def)
  from assms gp obtain mids where
    m: "emap (face_center ar (vertices self)) (faces self) = Inr mids"
    and "ib' = foldl (\<lambda>ib plane. ib @ plane_block ar (faces self) mids plane) ib planes"
    and "n = length (faces self) * 3 * length planes"
    by (auto simp: save_faces_alpha_blend_def Let_def ebind_eq_Inr v f simp del: emap.simps)
  then show ?thesis using gp len by (auto simp: foldl_append_blocks)
qed

lemma emap_length: "emap g xs = Inr ys \<Longrightarrow> length ys = length xs"
  by (induction xs arbitrary: ys) (auto simp: ebind_eq_Inr)

lemma plane_block_sorted:
  assumes "length mids = length fs"
  shows "\<exists>ps. plane_block ar fs mids plane = concat (map (\<lambda>(d, face). face_indices face) ps)
           \<and> mset ps = mset (zip (map (face_dist ar plane) mids) fs)
           \<and> sorted (map fst ps)
           \<and> (\<forall>i j. i < j \<and> j < length ps \<and> fst (ps ! i) = fst (ps ! j) \<longrightarrow> snd (ps ! i) \<le> snd (ps ! j))"
proof -
  let ?ps = "py_sorted (zip (map (face_dist ar plane) mids) fs)"
  have snd_zip: "map snd (zip fs mids) = mids"
    using assms by simp
  have s: "sorted ?ps" by (simp add: py_sorted_def)
  have 1: "plane_block ar fs mids plane = concat (map (\<lambda>(d, face). face_indices face) ?ps)"
    by (simp add: plane_block_def Let_def snd_zip)
  have 2: "mset ?ps = mset (zip (map (face_dist ar plane) mids) fs)"
    by (simp add: py_sorted_def)
  have le: "\<And>i j. i < j \<Longrightarrow> j < length ?ps \<Longrightarrow> ?ps ! i \<le> ?ps ! j"
    using s by (simp add: sorted_iff_nth_mono)
  have 3: "sorted (map fst ?ps)"
    unfolding sorted_iff_nth_mono
  proof (intro allI impI)
    fix i j assume "i \<le> j" "j < length (map fst ?ps)"
    then have "?ps ! i \<le> ?ps ! j" using s by (simp add: sorted_iff_nth_mono)
    then have "fst (?ps ! i) \<le> fst (?ps ! j)" by (auto simp: less_eq_prod_def)
    then show "map fst ?ps ! i \<le> map fst ?ps ! j"
      using \<open>i \<le> j\<close> \<open>j < length (map fst ?ps)\<close> by simp
  qed
  have 4: "\<forall>i j. i < j \<and> j < length ?ps \<and> fst (?ps ! i) = fst (?ps ! j) \<longrightarrow> snd (?ps ! i) \<le> snd (?ps ! j)"
  proof (intro allI impI)
    fix i j assume a: "i < j \<and> j < length ?ps \<and> fst (?ps ! i) = fst (?ps ! j)"
    then have "?ps ! i \<le> ?ps ! j" using le by blast
    then show "snd (?ps ! i) \<le> snd (?ps ! j)" using a by (auto simp: less_eq_prod_def)
  qed
  from 1 2 3 4 show ?thesis by blast
qed

subsection \<open>Two faces on either side of the origin\<close>














subsection \<open>The bounds of a Lod\<close>

lemma below_origin_bounds:
  "Material_calc_bounds below_origin_material =
     Inr (below_origin_material\<lparr>m_min := Some (-2, -2, -2), m_max := Some (-1, -1, -1)\<rparr>,
          (-2, -2, -2), (-1, -1, -1))"
  by (simp add: Material_calc_bounds_def below_origin_material_def Material_init_def vertex_at_def
      Vertex_init_def Vec3_of_def calc_bounds_def)

lemma upt_0_3: "[0 ..< 3] = [0, 1, 2]"
  by (simp add: numeral_3_eq_3 upt_rec)

lemma widen_below_origin:
  "widen_bounds ((PosInf, PosInf, PosInf), (Fin 0, Fin 0, Fin 0)) ((-2, -2, -2), (-1, -1, -1))
     = ((Fin (-2), Fin (-2), Fin (-2)), (Fin 0, Fin 0, Fin 0))"
  by (simp add: widen_bounds_def upt_0_3 Vec3_index_def PyVec3_index_def PyVec3_set_def)

text \<open>
  C4. The bounds that \<open>save_parts_rigs\<close> writes are not the union of the materials'
  bounds when a material's maximum has a negative component: the maximum starts from 0,
  not from minus infinity. For the Lod below the origin the material's maximum is
  (-1, -1, -1) and the maximum written is (0, 0, 0); the minimum written, (-2, -2, -2), is
  the material's.
\<close>

theorem lod_max_is_not_the_union:
  "save_parts_rigs fc below_origin_lod =
     Inr (below_origin_lod
            \<lparr>l_min := Some (Fin (-2), Fin (-2), Fin (-2)), l_max := Some (Fin 0, Fin 0, Fin 0),
             materials := [below_origin_material\<lparr>m_min := Some (-2, -2, -2), m_max := Some (-1, -1, -1)\<rparr>]\<rparr>,
          pack_f fc (-2) @ pack_f fc (-2) @ pack_f fc (-2) @ pack_f fc 0 @ pack_f fc 0 @ pack_f fc 0)"
  by (simp add: save_parts_rigs_def below_origin_lod_def Lod_init_def lod_bounds_step_def
      below_origin_bounds widen_below_origin Vec3_save_def)

subsection \<open>Decoding vertices\<close>

lemma get_struct_fmt_KeyError:
  "get_struct_fmt t = Inl KeyError \<longleftrightarrow> t \<notin> {FLOAT1, FLOAT2, FLOAT3, FLOAT4, D3DCOLOR, UNUSED}"
  by (cases t) simp_all

lemma efold_append:
  "efold g s (xs @ ys) = ebind (efold g s xs) (\<lambda>s'. efold g s' ys)"
  by (induction xs arbitrary: s) (simp_all add: ebind_def split: sum.splits)

lemma efold_fails:
  assumes "a \<in> set xs" and "\<And>s. \<exists>e. g s a = Inl e"
  shows "\<exists>e. efold g s xs = Inl e"
  using assms(1)
proof (induction xs arbitrary: s)
  case Nil
  then show ?case by simp
next
  case (Cons x xs)
  show ?case
  proof (cases "g s x")
    case (Inl e)
    then show ?thesis by simp
  next
    case (Inr s')
    show ?thesis
    proof (cases "x = a")
      case True
      with assms(2) [of s] Inr show ?thesis by simp
    next
      case False
      with Cons.prems have "a \<in> set xs" by simp
      from Cons.IH [OF this, of s'] Inr show ?thesis by simp
    qed
  qed
qed

lemma load_vertex_attr_unsupported:
  assumes "a_flag a \<noteq> Some VertexAttribute_UNUSED" and "get_struct_fmt (decl_type a) = Inl KeyError"
  shows "load_vertex_attr fc vertex_decl_size vertex_buffer i vertex a = Inl KeyError"
  using assms by (simp add: load_vertex_attr_def)

lemma load_vertex_attr_unused:
  "a_flag a = Some VertexAttribute_UNUSED \<Longrightarrow>
     load_vertex_attr fc vertex_decl_size vertex_buffer i vertex a = Inr vertex"
  by (simp add: load_vertex_attr_def)

lemma efold_skips_unused:
  "efold (load_vertex_attr fc vertex_decl_size vertex_buffer i) vertex attrs
     = efold (load_vertex_attr fc vertex_decl_size vertex_buffer i) vertex
         (filter (\<lambda>r. a_flag r \<noteq> Some VertexAttribute_UNUSED) attrs)"
proof (induction attrs arbitrary: vertex)
  case Nil
  then show ?case by simp
next
  case (Cons a attrs)
  show ?case
  proof (cases "a_flag a = Some VertexAttribute_UNUSED")
    case True
    then show ?thesis using Cons.IH [of vertex] by (simp add: load_vertex_attr_unused)
  next
    case False
    then show ?thesis using Cons.IH
      by (cases "load_vertex_attr fc vertex_decl_size vertex_buffer i vertex a") simp_all
  qed
qed

lemma load_vertices_skips_unused:
  "load_vertices fc self vertex_decl_size attrs vertex_buffer
     = load_vertices fc self vertex_decl_size
         (filter (\<lambda>r. a_flag r \<noteq> Some VertexAttribute_UNUSED) attrs) vertex_buffer"
  unfolding load_vertices_def by (subst efold_skips_unused) (rule refl)

lemma load_vertices_unsupported:
  assumes "m_vstart self = Some vstart" and "m_vnum self = Some vnum" and "0 < vnum"
    and "a \<in> set attrs"
    and "a_flag a \<noteq> Some VertexAttribute_UNUSED"
    and "get_struct_fmt (decl_type a) = Inl KeyError"
  shows "(\<exists>e. load_vertices fc self vertex_decl_size attrs vertex_buffer = Inl e)
       \<and> (\<forall>pre post v. attrs = pre @ a # post
              \<and> efold (load_vertex_attr fc vertex_decl_size vertex_buffer vstart) Vertex_init pre = Inr v
            \<longrightarrow> load_vertices fc self vertex_decl_size attrs vertex_buffer = Inl KeyError)"
proof -
  let ?g = "\<lambda>i. efold (load_vertex_attr fc vertex_decl_size vertex_buffer i) Vertex_init attrs"
  have r: "[vstart ..< vstart + vnum] = vstart # [Suc vstart ..< vstart + vnum]"
    using assms(3) by (simp add: upt_rec)
  have lv: "load_vertices fc self vertex_decl_size attrs vertex_buffer =
      ebind (emap ?g (vstart # [Suc vstart ..< vstart + vnum])) (\<lambda>vs. Inr (self\<lparr>vertices := vs\<rparr>))"
    using r by (simp add: load_vertices_def assms(1,2))
  have first: "\<And>e. ?g vstart = Inl e \<Longrightarrow>
      load_vertices fc self vertex_decl_size attrs vertex_buffer = Inl e"
    unfolding lv by simp
  have "\<exists>e. ?g vstart = Inl e"
    using efold_fails [OF assms(4), of "load_vertex_attr fc vertex_decl_size vertex_buffer vstart"]
      load_vertex_attr_unsupported [OF assms(5,6)] by blast
  then have 1: "\<exists>e. load_vertices fc self vertex_decl_size attrs vertex_buffer = Inl e"
    using first by blast
  have 2: "\<forall>pre post v. attrs = pre @ a # post
              \<and> efold (load_vertex_attr fc vertex_decl_size vertex_buffer vstart) Vertex_init pre = Inr v
            \<longrightarrow> load_vertices fc self vertex_decl_size attrs vertex_buffer = Inl KeyError"
  proof (intro allI impI)
    fix pre post v
    assume h: "attrs = pre @ a # post
       \<and> efold (load_vertex_attr fc vertex_decl_size vertex_buffer vstart) Vertex_init pre = Inr v"
    then have "?g vstart = Inl KeyError"
      by (simp add: efold_append load_vertex_attr_unsupported [OF assms(5,6)])
    then show "load_vertices fc self vertex_decl_size attrs vertex_buffer = Inl KeyError"
      by (rule first)
  qed
  from 1 2 show ?thesis by blast
qed

text \<open>
  C8 (as amended). Decoding at least one vertex with a table that has a row not flagged
  unused whose type has no format (any type but the floats of one to four components, the
  packed colour and \<open>UNUSED\<close>) fails, and no vertex is produced; the exception is the
  \<open>KeyError\<close> of the format lookup when the rows before it decode for the first vertex.
  A row flagged unused is skipped whatever its type: decoding with a table gives what
  decoding with the table without its rows flagged unused gives. A material of zero
  vertices decodes to the hollow list of vertices, whatever the table and the buffer.
\<close>

theorem load_vertices_unsupported_type:
  "(m_vstart self = Some vstart \<and> m_vnum self = Some vnum \<and> 0 < vnum \<and> a \<in> set attrs
      \<and> a_flag a \<noteq> Some VertexAttribute_UNUSED \<and> get_struct_fmt (decl_type a) = Inl KeyError
    \<longrightarrow> (\<exists>e. load_vertices fc self vertex_decl_size attrs vertex_buffer = Inl e)
       \<and> (\<forall>pre post v. attrs = pre @ a # post
              \<and> efold (load_vertex_attr fc vertex_decl_size vertex_buffer vstart) Vertex_init pre = Inr v
            \<longrightarrow> load_vertices fc self vertex_decl_size attrs vertex_buffer = Inl KeyError))
   \<and> load_vertices fc mat row_size rows row_buffer
       = load_vertices fc mat row_size
           (filter (\<lambda>r. a_flag r \<noteq> Some VertexAttribute_UNUSED) rows) row_buffer
   \<and> (m_vstart hollow = Some first \<and> m_vnum hollow = Some 0
        \<longrightarrow> load_vertices fc hollow any_size table any_buffer = Inr (hollow\<lparr>vertices := []\<rparr>))"
proof -
  have 3: "m_vstart hollow = Some first \<and> m_vnum hollow = Some 0
        \<longrightarrow> load_vertices fc hollow any_size table any_buffer = Inr (hollow\<lparr>vertices := []\<rparr>)"
    by (simp add: load_vertices_def)
  from load_vertices_unsupported [of self vstart vnum a attrs fc vertex_decl_size vertex_buffer]
    load_vertices_skips_unused [of fc mat row_size rows row_buffer] 3
  show ?thesis by blast
qed

theorem load_vertices_unsupported_type_witness:
  "load_vertices example_format one_vertex_material 4 [used_ubyte4_row] [1, 2, 3, 4] = Inl KeyError
   \<and> load_vertices example_format one_vertex_material 16 [skipped_ubyte4_row, position_row] (replicate 16 0)
       = load_vertices example_format one_vertex_material 16 [position_row] (replicate 16 0)
   \<and> load_vertices example_format no_vertex_material 4 [used_ubyte4_row] []
       = Inr (no_vertex_material\<lparr>vertices := []\<rparr>)"
proof -
  have h: "m_vstart one_vertex_material = Some 0 \<and> m_vnum one_vertex_material = Some 1 \<and> (0::nat) < 1
    \<and> used_ubyte4_row \<in> set [used_ubyte4_row]
    \<and> a_flag used_ubyte4_row \<noteq> Some VertexAttribute_UNUSED
    \<and> get_struct_fmt (decl_type used_ubyte4_row) = Inl KeyError"
    by (simp add: one_vertex_material_def Material_init_def used_ubyte4_row_def
        VertexAttribute_init_def VertexAttribute_UNUSED_def)
  have e: "m_vstart no_vertex_material = Some 0 \<and> m_vnum no_vertex_material = Some 0"
    by (simp add: no_vertex_material_def Material_init_def)
  have f: "filter (\<lambda>r. a_flag r \<noteq> Some VertexAttribute_UNUSED) [skipped_ubyte4_row, position_row]
      = [position_row]"
    by (simp add: skipped_ubyte4_row_def position_row_def VertexAttribute_init_def
        VertexAttribute_UNUSED_def)
  note t = load_vertices_unsupported_type [where self = one_vertex_material and vstart = 0
      and vnum = 1 and a = used_ubyte4_row and attrs = "[used_ubyte4_row]" and fc = example_format
      and vertex_decl_size = 4 and vertex_buffer = "[1, 2, 3, 4]"
      and mat = one_vertex_material and row_size = 16 and rows = "[skipped_ubyte4_row, position_row]"
      and row_buffer = "replicate 16 0"
      and hollow = no_vertex_material and first = 0 and any_size = 4 and table = "[used_ubyte4_row]"
      and any_buffer = "[]"]
  from t h have "\<forall>pre post v. [used_ubyte4_row] = pre @ used_ubyte4_row # post
              \<and> efold (load_vertex_attr example_format 4 [1, 2, 3, 4] 0) Vertex_init pre = Inr v
            \<longrightarrow> load_vertices example_format one_vertex_material 4 [used_ubyte4_row] [1, 2, 3, 4] = Inl KeyError"
    by blast
  from this [rule_format, of "[]" "[]" Vertex_init]
  have 1: "load_vertices example_format one_vertex_material 4 [used_ubyte4_row] [1, 2, 3, 4] = Inl KeyError"
    by simp
  from t have 2: "load_vertices example_format one_vertex_material 16 [skipped_ubyte4_row, position_row] (replicate 16 0)
       = load_vertices example_format one_vertex_material 16 [position_row] (replicate 16 0)"
    unfolding f by blast
  from t e have 3: "load_vertices example_format no_vertex_material 4 [used_ubyte4_row] []
       = Inr (no_vertex_material\<lparr>vertices := []\<rparr>)"
    by blast
  from 1 2 3 show ?thesis by blast
qed

text \<open>
  C8, the claim as stated, fails for a row flagged unused: the row is skipped whatever its
  type, and the vertex is produced.
\<close>

theorem unused_row_of_unsupported_type_is_skipped:
  "load_vertices example_format one_vertex_material 16 [skipped_ubyte4_row] (replicate 16 0)
     = Inr (one_vertex_material\<lparr>vertices := [Vertex_init]\<rparr>)
   \<and> get_struct_fmt (decl_type skipped_ubyte4_row) = Inl KeyError"
  by (simp add: load_vertices_def one_vertex_material_def Material_init_def skipped_ubyte4_row_def
      VertexAttribute_init_def load_vertex_attr_def VertexAttribute_UNUSED_def)

section \<open>Reading back what was written\<close>

lemma write_uint_read:
  assumes "write_uint k v = Inr bs"
  obtains n where "v = Some n" and "n < 256 ^ k" and "bs = le_encode k n"
    and "\<And>rest. read_uint k (bs @ rest) = Inr (n, rest)"
  using read_uint_write [OF assms] by blast

lemma write_dword_read:
  assumes "write_dword v = Inr bs"
  obtains n where "v = Some n" and "bs = le_encode 4 n"
    and "\<And>rest. read_dword (bs @ rest) = Inr (n, rest)"
  using assms unfolding write_dword_def read_dword_def by (elim write_uint_read) blast

lemma write_word_read:
  assumes "write_word v = Inr bs"
  obtains n where "v = Some n" and "bs = le_encode 2 n"
    and "\<And>rest. read_word (bs @ rest) = Inr (n, rest)"
  using assms unfolding write_word_def read_word_def by (elim write_uint_read) blast

lemma write_byte_read:
  assumes "write_byte v = Inr bs"
  obtains n where "v = Some n" and "bs = le_encode 1 n"
    and "\<And>rest. read_byte (bs @ rest) = Inr (n, rest)"
  using assms unfolding write_byte_def read_byte_def by (elim write_uint_read) blast

lemma write_string_read:
  assumes "write_string s = Inr bs"
  obtains cs where "s = Some cs" and "\<And>rest. read_string (bs @ rest) = Inr (cs, rest)"
proof -
  from assms obtain cs where s: "s = Some cs" by (cases s) (simp_all add: write_string_def)
  from assms s obtain b1 where w: "write_dword (Some (length cs)) = Inr b1"
    and bs: "bs = b1 @ map of_char cs"
    by (auto simp: write_string_def write_raw_def seq_out_Cons_Inr simp del: seq_out.simps(2))
  from w obtain n where "Some (length cs) = Some n"
    and r: "\<And>rest. read_dword (b1 @ rest) = Inr (n, rest)"
    by (rule write_dword_read) blast
  then have n: "n = length cs" by simp
  have "\<And>rest. read_string (bs @ rest) = Inr (cs, rest)"
  proof -
    fix rest
    have "read_raw (length (map (of_char :: char \<Rightarrow> nat) cs)) (map of_char cs @ rest) = Inr (map of_char cs, rest)"
      by (rule read_raw_append)
    then show "read_string (bs @ rest) = Inr (cs, rest)"
      by (simp add: read_string_def bs r n comp_def)
  qed
  with s that show ?thesis by blast
qed

lemma load_n_elems_seq_out:
  assumes "seq_out (map w xs) = Inr bs"
    and "\<And>x b rest. x \<in> set xs \<Longrightarrow> w x = Inr b \<Longrightarrow> ld (b @ rest) = Inr (h x, rest)"
  shows "load_n_elems ld (length xs) (bs @ rest) = Inr (map h xs, rest)"
  using assms
proof (induction xs arbitrary: bs)
  case Nil
  then show ?case by simp
next
  case (Cons x xs)
  from Cons.prems(1) obtain a b where a: "w x = Inr a" and b: "seq_out (map w xs) = Inr b"
    and bs: "bs = a @ b"
    by (auto simp: seq_out_Cons_Inr simp del: seq_out.simps(2))
  have 1: "ld (a @ b @ rest) = Inr (h x, b @ rest)"
    using Cons.prems(2) [of x a "b @ rest"] a by simp
  have 2: "load_n_elems ld (length xs) (b @ rest) = Inr (map h xs, rest)"
    using Cons.IH [OF b] Cons.prems(2) by simp
  show ?case by (simp add: bs 1 2)
qed

lemma read_strings_written:
  assumes "seq_out (map (\<lambda>s. write_string (Some s)) xs) = Inr bs"
  shows "load_n_elems read_string (length xs) (bs @ rest) = Inr (xs, rest)"
proof -
  have "load_n_elems read_string (length xs) (bs @ rest) = Inr (map (\<lambda>x. x) xs, rest)"
  proof (rule load_n_elems_seq_out [OF assms])
    fix x b rest
    assume "write_string (Some x) = Inr b"
    then show "read_string (b @ rest) = Inr (x, rest)"
      by (elim write_string_read) simp
  qed
  then show ?thesis by simp
qed

lemma Material_save_load:
  assumes "Material_save self = Inr bs"
  shows "Material_load cls (bs @ rest) =
     Inr ((Material_init cls)
            \<lparr>fxfile := fxfile self, technique := technique self, maps := maps self,
             m_vstart := m_vstart self, m_istart := m_istart self, m_inum := m_inum self,
             m_vnum := m_vnum self, m_u4 := Some 0, m_u5 := Some 0\<rparr>, rest)
     \<and> (\<exists>pre. bs = pre @ le_encode 4 0 @ le_encode 4 0)"
proof -
  from assms obtain b1 b2 b3 b4 b5 b6 b7 b8 b9 b10 where
    w: "write_string (fxfile self) = Inr b1" "write_string (technique self) = Inr b2"
       "write_dword (Some (length (maps self))) = Inr b3"
       "seq_out (map (\<lambda>mp. write_string (Some mp)) (maps self)) = Inr b4"
       "write_dword (m_vstart self) = Inr b5" "write_dword (m_istart self) = Inr b6"
       "write_dword (m_inum self) = Inr b7" "write_dword (m_vnum self) = Inr b8"
       "write_dword (Some 0) = Inr b9" "write_dword (Some 0) = Inr b10"
    and bs: "bs = b1 @ b2 @ b3 @ b4 @ b5 @ b6 @ b7 @ b8 @ b9 @ b10"
    by (auto simp: Material_save_def seq_out_Cons_Inr simp del: seq_out.simps(2))
  from w(1) obtain fx where fx: "fxfile self = Some fx"
    and r1: "\<And>rest. read_string (b1 @ rest) = Inr (fx, rest)" by (rule write_string_read) blast
  from w(2) obtain te where te: "technique self = Some te"
    and r2: "\<And>rest. read_string (b2 @ rest) = Inr (te, rest)" by (rule write_string_read) blast
  from w(3) obtain n where "Some (length (maps self)) = Some n"
    and r3: "\<And>rest. read_dword (b3 @ rest) = Inr (n, rest)" by (rule write_dword_read) blast
  then have n: "n = length (maps self)" by simp
  note r4 = read_strings_written [OF w(4)]
  from w(5) obtain vs where vs: "m_vstart self = Some vs"
    and r5: "\<And>rest. read_dword (b5 @ rest) = Inr (vs, rest)" by (rule write_dword_read) blast
  from w(6) obtain ist where ist: "m_istart self = Some ist"
    and r6: "\<And>rest. read_dword (b6 @ rest) = Inr (ist, rest)" by (rule write_dword_read) blast
  from w(7) obtain inu where inu: "m_inum self = Some inu"
    and r7: "\<And>rest. read_dword (b7 @ rest) = Inr (inu, rest)" by (rule write_dword_read) blast
  from w(8) obtain vn where vn: "m_vnum self = Some vn"
    and r8: "\<And>rest. read_dword (b8 @ rest) = Inr (vn, rest)" by (rule write_dword_read) blast
  from w(9) obtain z1 where "Some (0::nat) = Some z1" and b9: "b9 = le_encode 4 z1"
    and r9: "\<And>rest. read_dword (b9 @ rest) = Inr (z1, rest)" by (rule write_dword_read) blast
  from w(10) obtain z2 where "Some (0::nat) = Some z2" and b10: "b10 = le_encode 4 z2"
    and r10: "\<And>rest. read_dword (b10 @ rest) = Inr (z2, rest)" by (rule write_dword_read) blast
  have z: "z1 = 0" "z2 = 0" using \<open>Some (0::nat) = Some z1\<close> \<open>Some (0::nat) = Some z2\<close> by simp_all
  have "Material_load cls (bs @ rest) =
     Inr ((Material_init cls)
            \<lparr>fxfile := fxfile self, technique := technique self, maps := maps self,
             m_vstart := m_vstart self, m_istart := m_istart self, m_inum := m_inum self,
             m_vnum := m_vnum self, m_u4 := Some 0, m_u5 := Some 0\<rparr>, rest)"
    by (simp add: Material_load_def bs r1 r2 r3 n r4 r5 r6 r7 r8 r9 r10 z fx te vs ist inu vn)
  moreover have "bs = (b1 @ b2 @ b3 @ b4 @ b5 @ b6 @ b7 @ b8) @ le_encode 4 0 @ le_encode 4 0"
    using bs b9 b10 z by simp
  ultimately show ?thesis by blast
qed




subsection \<open>A material record, evaluated\<close>

lemma le_encode_4:
  "le_encode 4 n =
     [n mod 256, n div 256 mod 256, n div 256 div 256 mod 256, n div 256 div 256 div 256 mod 256]"
proof -
  have "le_encode (Suc (Suc (Suc (Suc 0)))) n =
     [n mod 256, n div 256 mod 256, n div 256 div 256 mod 256, n div 256 div 256 div 256 mod 256]"
    by simp
  moreover have "(4::nat) = Suc (Suc (Suc (Suc 0)))" by simp
  ultimately show ?thesis by metis
qed

lemma reserved_material_save:
  "Material_save reserved_material
     = Inr [1, 0, 0, 0, 97, 1, 0, 0, 0, 98, 0, 0, 0, 0, 0, 0, 0, 0, 0, 0, 0, 0,
            0, 0, 0, 0, 0, 0, 0, 0, 0, 0, 0, 0, 0, 0, 0, 0]"
  by (simp add: Material_save_def reserved_material_def Material_init_def write_string_def
      write_dword_def write_uint_def write_raw_def le_encode_4)


lemma char_of_97: "char_of (97::nat) = CHR ''a''"
proof -
  have "of_char CHR ''a'' = (97::nat)" by simp
  then show ?thesis by (metis char_of_char)
qed

lemma char_of_98: "char_of (98::nat) = CHR ''b''"
proof -
  have "of_char CHR ''b'' = (98::nat)" by simp
  then show ?thesis by (metis char_of_char)
qed

lemma reserved_material_load:
  "Material_load Material_class
       [1, 0, 0, 0, 97, 1, 0, 0, 0, 98, 0, 0, 0, 0, 0, 0, 0, 0, 0, 0, 0, 0,
        0, 0, 0, 0, 0, 0, 0, 0, 7, 0, 0, 0, 9, 0, 0, 0]
     = Inr (reserved_material, [])"
  by (simp add: Material_load_def reserved_material_def Material_init_def read_string_def
      read_dword_def read_uint_def read_raw_def char_of_97 char_of_98)

text \<open>
  C3 (as amended). \<open>Material.load\<close> stores the two reserved dwords in \<open>_u4\<close> and
  \<open>_u5\<close>; \<open>Material.save\<close> does not write them back: the record it writes ends with two
  zero dwords, and loading it gives \<open>_u4 = 0\<close> and \<open>_u5 = 0\<close>.
\<close>

theorem reserved_dwords_saved_as_zero:
  assumes "Material_save self = Inr bs"
  shows "(\<exists>pre. bs = pre @ le_encode 4 0 @ le_encode 4 0)
       \<and> (\<exists>m. Material_load cls (bs @ rest) = Inr (m, rest) \<and> m_u4 m = Some 0 \<and> m_u5 m = Some 0)"
  using Material_save_load [OF assms, of cls rest] by simp

theorem reserved_dwords_saved_as_zero_witness:
  "(\<exists>pre. [1, 0, 0, 0, 97, 1, 0, 0, 0, 98, 0, 0, 0, 0, 0, 0, 0, 0, 0, 0, 0, 0,
            0, 0, 0, 0, 0, 0, 0, 0, 0, 0, 0, 0, 0, 0, 0, 0] = pre @ le_encode 4 0 @ le_encode 4 0)
   \<and> (\<exists>m. Material_load Material_class
            ([1, 0, 0, 0, 97, 1, 0, 0, 0, 98, 0, 0, 0, 0, 0, 0, 0, 0, 0, 0, 0, 0,
              0, 0, 0, 0, 0, 0, 0, 0, 0, 0, 0, 0, 0, 0, 0, 0] @ []) = Inr (m, [])
          \<and> m_u4 m = Some 0 \<and> m_u5 m = Some 0)"
  using reserved_dwords_saved_as_zero [OF reserved_material_save, of Material_class "[]"] .

text \<open>
  C3, the claim as stated, fails: a record with the reserved dwords 7 and 9 loads with
  \<open>_u4 = 7\<close> and \<open>_u5 = 9\<close>; saved, the record ends in zeros, and loaded again it has
  \<open>_u4 = 0\<close> and \<open>_u5 = 0\<close>.
\<close>

theorem reserved_dwords_not_preserved:
  "Material_load Material_class
       [1, 0, 0, 0, 97, 1, 0, 0, 0, 98, 0, 0, 0, 0, 0, 0, 0, 0, 0, 0, 0, 0,
        0, 0, 0, 0, 0, 0, 0, 0, 7, 0, 0, 0, 9, 0, 0, 0]
     = Inr (reserved_material, [])
   \<and> m_u4 reserved_material = Some 7 \<and> m_u5 reserved_material = Some 9
   \<and> Material_save reserved_material
     = Inr [1, 0, 0, 0, 97, 1, 0, 0, 0, 98, 0, 0, 0, 0, 0, 0, 0, 0, 0, 0, 0, 0,
            0, 0, 0, 0, 0, 0, 0, 0, 0, 0, 0, 0, 0, 0, 0, 0]
   \<and> Material_load Material_class
       [1, 0, 0, 0, 97, 1, 0, 0, 0, 98, 0, 0, 0, 0, 0, 0, 0, 0, 0, 0, 0, 0,
        0, 0, 0, 0, 0, 0, 0, 0, 0, 0, 0, 0, 0, 0, 0, 0]
     = Inr (reserved_material\<lparr>m_u4 := Some 0, m_u5 := Some 0\<rparr>, [])"
proof -
  have "Material_load Material_class
       ([1, 0, 0, 0, 97, 1, 0, 0, 0, 98, 0, 0, 0, 0, 0, 0, 0, 0, 0, 0, 0, 0,
        0, 0, 0, 0, 0, 0, 0, 0, 0, 0, 0, 0, 0, 0, 0, 0] @ [])
     = Inr (reserved_material\<lparr>m_u4 := Some 0, m_u5 := Some 0\<rparr>, [])"
    using Material_save_load [OF reserved_material_save, of Material_class "[]"]
    by (simp add: reserved_material_def Material_init_def)
  then show ?thesis
    using reserved_material_load reserved_material_save
    by (simp add: reserved_material_def Material_init_def)
qed

subsection \<open>The bounds record of a Lod\<close>

lemma read_float_append:
  "4 \<le> length bs \<Longrightarrow> read_float fc (bs @ rest) = Inr (float_of_bytes fc (take 4 bs), drop 4 bs @ rest)"
  by (simp add: read_float_def read_raw_def)

lemma Vec3_load_append:
  assumes "12 \<le> length bs"
  shows "Vec3_load fc (bs @ rest) = Inr (unpack_vec3 fc bs, drop 12 bs @ rest)"
proof -
  have 1: "read_float fc (bs @ rest) = Inr (float_of_bytes fc (take 4 bs), drop 4 bs @ rest)"
    using assms by (simp add: read_float_append)
  have 2: "read_float fc (drop 4 bs @ rest)
      = Inr (float_of_bytes fc (take 4 (drop 4 bs)), drop 4 (drop 4 bs) @ rest)"
    using assms by (simp add: read_float_append)
  have 3: "read_float fc (drop 8 bs @ rest)
      = Inr (float_of_bytes fc (take 4 (drop 8 bs)), drop 12 bs @ rest)"
    using assms read_float_append [of "drop 8 bs" fc rest] by simp
  show ?thesis
    by (simp add: Vec3_load_def 1 2 3 unpack_vec3_def)
qed

lemma load_parts_rigs_append:
  assumes "length bs = (if version \<le> 6 then 36 else 24)"
  shows "load_parts_rigs fc lod (bs @ rest) version =
     Inr (lod\<lparr>l_min := Some (unpack_vec3 fc bs), l_max := Some (unpack_vec3 fc (drop 12 bs))\<rparr>, rest)"
proof -
  have 1: "Vec3_load fc (bs @ rest) = Inr (unpack_vec3 fc bs, drop 12 bs @ rest)"
    using assms by (intro Vec3_load_append) (simp split: if_splits)
  have 2: "Vec3_load fc (drop 12 bs @ rest) = Inr (unpack_vec3 fc (drop 12 bs), drop 12 (drop 12 bs) @ rest)"
    using assms by (intro Vec3_load_append) (simp split: if_splits)
  show ?thesis
  proof (cases "version \<le> 6")
    case True
    then have "Vec3_load fc (drop 24 bs @ rest)
       = Inr (unpack_vec3 fc (drop 24 bs), drop 36 bs @ rest)"
      using assms Vec3_load_append [of "drop 24 bs" fc rest] by simp
    then show ?thesis using True assms by (simp add: load_parts_rigs_def 1 2 Let_def)
  next
    case False
    then show ?thesis using assms by (simp add: load_parts_rigs_def 1 2 Let_def)
  qed
qed

lemma length_write_float:
  "\<forall>x. length (pack_f fc x) = 4 \<Longrightarrow> write_float fc v = Inr bs \<Longrightarrow> length bs = 4"
  by (cases v) auto

lemma length_Vec3_save:
  assumes "\<forall>x. length (pack_f fc x) = 4" and "Vec3_save fc v = Inr bs"
  shows "length bs = 12"
proof -
  obtain a b c where v: "v = (a, b, c)" by (cases v) auto
  from assms(2) obtain b1 b2 b3 where w: "write_float fc a = Inr b1" "write_float fc b = Inr b2"
    "write_float fc c = Inr b3" and bs: "bs = b1 @ b2 @ b3"
    by (auto simp: Vec3_save_def v seq_out_Cons_Inr simp del: seq_out.simps(2))
  from w assms(1) have "length b1 = 4" "length b2 = 4" "length b3 = 4"
    by (auto dest: length_write_float)
  then show ?thesis by (simp add: bs)
qed

lemma save_parts_rigs_content:
  assumes "save_parts_rigs fc lod = Inr (lod', out)"
  shows "\<exists>lmin lmax bmin bmax. l_min lod' = Some lmin \<and> l_max lod' = Some lmax
           \<and> Vec3_save fc lmin = Inr bmin \<and> Vec3_save fc lmax = Inr bmax \<and> out = bmin @ bmax"
proof -
  from assms obtain mats lmin lmax bs where
    l: "lod' = lod\<lparr>l_min := Some lmin, l_max := Some lmax, materials := mats\<rparr>"
    and w: "seq_out [Vec3_save fc lmin, Vec3_save fc lmax] = Inr bs" and o: "out = bs"
    unfolding save_parts_rigs_def by (auto simp: ebind_eq_Inr simp del: seq_out.simps(2))
  from w obtain bmin bmax where "Vec3_save fc lmin = Inr bmin" "Vec3_save fc lmax = Inr bmax"
    "bs = bmin @ bmax"
    by (auto simp: seq_out_Cons_Inr simp del: seq_out.simps(2))
  with l o show ?thesis by simp
qed

lemma length_save_parts_rigs:
  assumes "\<forall>x. length (pack_f fc x) = 4" and "save_parts_rigs fc lod = Inr (lod', out)"
  shows "length out = 24"
proof -
  from save_parts_rigs_content [OF assms(2)] obtain lmin lmax bmin bmax where
    "Vec3_save fc lmin = Inr bmin" "Vec3_save fc lmax = Inr bmax" "out = bmin @ bmax"
    by blast
  then show ?thesis using length_Vec3_save [OF assms(1)] by auto
qed

text \<open>
  C5 (as amended). On load, the bounds record of a Lod is 36 bytes when the version of the
  file is at most 6 (minimum, maximum and one more vector, which is read and dropped) and
  24 bytes otherwise; the bounds loaded are the first two vectors of the record. On save
  the record is the minimum and the maximum that the saved Lod holds, each written by
  \<open>Vec3.save\<close>, and nothing else, 24 bytes: \<open>save_parts_rigs\<close> takes no version and writes
  no third vector.
\<close>

theorem parts_rigs_extra_vector:
  "(length bs = (if version \<le> 6 then 36 else 24) \<longrightarrow>
      load_parts_rigs fc lod (bs @ rest) version =
        Inr (lod\<lparr>l_min := Some (unpack_vec3 fc bs), l_max := Some (unpack_vec3 fc (drop 12 bs))\<rparr>, rest))
   \<and> (save_parts_rigs fc saved = Inr (lod', out) \<longrightarrow>
        (\<exists>lmin lmax bmin bmax. l_min lod' = Some lmin \<and> l_max lod' = Some lmax
           \<and> Vec3_save fc lmin = Inr bmin \<and> Vec3_save fc lmax = Inr bmax \<and> out = bmin @ bmax)
        \<and> ((\<forall>x. length (pack_f fc x) = 4) \<longrightarrow> length out = 24))"
  using load_parts_rigs_append save_parts_rigs_content length_save_parts_rigs by blast

lemma example_format_length: "\<forall>x. length (pack_f example_format x) = 4"
  by (simp add: example_format_def)

lemma empty_lod_save:
  "save_parts_rigs example_format Lod_init =
     Inr (Lod_init\<lparr>l_min := Some (PosInf, PosInf, PosInf), l_max := Some (Fin 0, Fin 0, Fin 0)\<rparr>,
          [0, 0, 128, 127, 0, 0, 128, 127, 0, 0, 128, 127, 0, 0, 0, 0, 0, 0, 0, 0, 0, 0, 0, 0])"
  by (simp add: save_parts_rigs_def Lod_init_def Vec3_save_def example_format_def le_encode_4)

lemma triangle_bounds:
  "Material_calc_bounds triangle_material =
     Inr (triangle_material\<lparr>m_min := Some (0, 0, 0), m_max := Some (1, 1, 0)\<rparr>, (0, 0, 0), (1, 1, 0))"
  by (simp add: Material_calc_bounds_def triangle_material_def Material_init_def vertex_at_def
      Vertex_init_def Vec3_of_def calc_bounds_def)

lemma widen_triangle:
  "widen_bounds ((PosInf, PosInf, PosInf), (Fin 0, Fin 0, Fin 0)) ((0, 0, 0), (1, 1, 0))
     = ((Fin 0, Fin 0, Fin 0), (Fin 1, Fin 1, Fin 0))"
  by (simp add: widen_bounds_def upt_0_3 Vec3_index_def PyVec3_index_def PyVec3_set_def)

lemma example_vectors:
  "Vec3_save example_format (Fin 0, Fin 0, Fin 0) = Inr [0, 0, 0, 0, 0, 0, 0, 0, 0, 0, 0, 0]"
  "Vec3_save example_format (Fin 1, Fin 1, Fin 0) = Inr [1, 0, 0, 0, 1, 0, 0, 0, 0, 0, 0, 0]"
  by (simp_all add: Vec3_save_def example_format_def le_encode_4)

lemma triangle_lod_save:
  "save_parts_rigs example_format triangle_lod =
     Inr (triangle_lod
            \<lparr>l_min := Some (Fin 0, Fin 0, Fin 0), l_max := Some (Fin 1, Fin 1, Fin 0),
             materials := [triangle_material\<lparr>m_min := Some (0, 0, 0), m_max := Some (1, 1, 0)\<rparr>]\<rparr>,
          [0, 0, 0, 0, 0, 0, 0, 0, 0, 0, 0, 0, 1, 0, 0, 0, 1, 0, 0, 0, 0, 0, 0, 0])"
  by (simp add: save_parts_rigs_def triangle_lod_def Lod_init_def lod_bounds_step_def
      triangle_bounds widen_triangle example_vectors)

lemma example_floats:
  "float_of_bytes example_format [0, 0, 128, 127] = PosInf"
  "float_of_bytes example_format [0, 0, 0, 0] = Fin 0"
  "float_of_bytes example_format [1, 0, 0, 0] = Fin 1"
  "float_of_bytes example_format [Suc 0, 0, 0, 0] = Fin 1"
  "float_of_bytes example_format [2, 0, 0, 0] = Fin 2"
  unfolding float_of_bytes_def is_nan_bytes_def example_format_def by simp_all

theorem parts_rigs_extra_vector_witness:
  "load_parts_rigs example_format Lod_init
     ([1, 0, 0, 0, 1, 0, 0, 0, 1, 0, 0, 0, 2, 0, 0, 0, 2, 0, 0, 0, 2, 0, 0, 0,
       0, 0, 128, 127, 0, 0, 128, 127, 0, 0, 128, 127] @ []) 6 =
        Inr (Lod_init\<lparr>l_min := Some (Fin 1, Fin 1, Fin 1), l_max := Some (Fin 2, Fin 2, Fin 2)\<rparr>, [])
   \<and> load_parts_rigs example_format Lod_init
       ([0, 0, 128, 127, 0, 0, 128, 127, 0, 0, 128, 127, 0, 0, 0, 0, 0, 0, 0, 0, 0, 0, 0, 0] @ []) 7 =
        Inr (Lod_init\<lparr>l_min := Some (PosInf, PosInf, PosInf), l_max := Some (Fin 0, Fin 0, Fin 0)\<rparr>, [])
   \<and> save_parts_rigs example_format triangle_lod =
        Inr (triangle_lod
               \<lparr>l_min := Some (Fin 0, Fin 0, Fin 0), l_max := Some (Fin 1, Fin 1, Fin 0),
                materials := [triangle_material\<lparr>m_min := Some (0, 0, 0), m_max := Some (1, 1, 0)\<rparr>]\<rparr>,
             [0, 0, 0, 0, 0, 0, 0, 0, 0, 0, 0, 0, 1, 0, 0, 0, 1, 0, 0, 0, 0, 0, 0, 0])
   \<and> (\<exists>lmin lmax bmin bmax.
          l_min (triangle_lod
               \<lparr>l_min := Some (Fin 0, Fin 0, Fin 0), l_max := Some (Fin 1, Fin 1, Fin 0),
                materials := [triangle_material\<lparr>m_min := Some (0, 0, 0), m_max := Some (1, 1, 0)\<rparr>]\<rparr>)
            = Some lmin
          \<and> l_max (triangle_lod
               \<lparr>l_min := Some (Fin 0, Fin 0, Fin 0), l_max := Some (Fin 1, Fin 1, Fin 0),
                materials := [triangle_material\<lparr>m_min := Some (0, 0, 0), m_max := Some (1, 1, 0)\<rparr>]\<rparr>)
            = Some lmax
          \<and> Vec3_save example_format lmin = Inr bmin \<and> Vec3_save example_format lmax = Inr bmax
          \<and> [0, 0, 0, 0, 0, 0, 0, 0, 0, 0, 0, 0, 1, 0, 0, 0, 1, 0, 0, 0, 0, 0, 0, 0] = bmin @ bmax)
   \<and> Vec3_save example_format (Fin 0, Fin 0, Fin 0) = Inr [0, 0, 0, 0, 0, 0, 0, 0, 0, 0, 0, 0]
   \<and> Vec3_save example_format (Fin 1, Fin 1, Fin 0) = Inr [1, 0, 0, 0, 1, 0, 0, 0, 0, 0, 0, 0]
   \<and> length [0, 0, 0, 0, 0, 0, 0, 0, 0, 0, 0, 0, 1, 0, 0, 0, 1, 0, 0, 0, 0, 0, 0, 0 :: nat] = 24"
proof -
  let ?old = "[1, 0, 0, 0, 1, 0, 0, 0, 1, 0, 0, 0, 2, 0, 0, 0, 2, 0, 0, 0, 2, 0, 0, 0,
       0, 0, 128, 127, 0, 0, 128, 127, 0, 0, 128, 127] :: nat list"
  let ?new = "[0, 0, 128, 127, 0, 0, 128, 127, 0, 0, 128, 127, 0, 0, 0, 0, 0, 0, 0, 0, 0, 0, 0, 0] :: nat list"
  let ?lod = "triangle_lod
               \<lparr>l_min := Some (Fin 0, Fin 0, Fin 0), l_max := Some (Fin 1, Fin 1, Fin 0),
                materials := [triangle_material\<lparr>m_min := Some (0, 0, 0), m_max := Some (1, 1, 0)\<rparr>]\<rparr>"
  let ?out = "[0, 0, 0, 0, 0, 0, 0, 0, 0, 0, 0, 0, 1, 0, 0, 0, 1, 0, 0, 0, 0, 0, 0, 0] :: nat list"
  have a: "length ?old = (if (6::nat) \<le> 6 then 36 else 24)" by simp
  have b: "length ?new = (if (7::nat) \<le> 6 then 36 else 24)" by simp
  have u: "unpack_vec3 example_format ?old = (Fin 1, Fin 1, Fin 1)"
    "unpack_vec3 example_format (drop 12 ?old) = (Fin 2, Fin 2, Fin 2)"
    "unpack_vec3 example_format ?new = (PosInf, PosInf, PosInf)"
    "unpack_vec3 example_format (drop 12 ?new) = (Fin 0, Fin 0, Fin 0)"
    by (simp_all add: unpack_vec3_def example_floats)
  note t1 = parts_rigs_extra_vector [where bs = ?old and version = 6
      and fc = example_format and lod = Lod_init and rest = "[]"
      and saved = triangle_lod and lod' = ?lod and out = ?out]
  note t2 = parts_rigs_extra_vector [where bs = ?new and version = 7
      and fc = example_format and lod = Lod_init and rest = "[]"]
  from t1 a have 1: "load_parts_rigs example_format Lod_init (?old @ []) 6 =
        Inr (Lod_init\<lparr>l_min := Some (Fin 1, Fin 1, Fin 1), l_max := Some (Fin 2, Fin 2, Fin 2)\<rparr>, [])"
    unfolding u by blast
  from t2 b have 2: "load_parts_rigs example_format Lod_init (?new @ []) 7 =
        Inr (Lod_init\<lparr>l_min := Some (PosInf, PosInf, PosInf), l_max := Some (Fin 0, Fin 0, Fin 0)\<rparr>, [])"
    unfolding u by blast
  from t1 triangle_lod_save have 3: "\<exists>lmin lmax bmin bmax. l_min ?lod = Some lmin \<and> l_max ?lod = Some lmax
           \<and> Vec3_save example_format lmin = Inr bmin \<and> Vec3_save example_format lmax = Inr bmax
           \<and> ?out = bmin @ bmax"
    by blast
  from t1 triangle_lod_save example_format_length have 4: "length ?out = 24" by blast
  from 1 2 3 4 triangle_lod_save example_vectors show ?thesis by blast
qed

text \<open>
  C5, the claim as stated, fails on save: the record written for a Lod is 24 bytes, and
  loading it as a record of version 6 runs past its end.
\<close>

theorem no_extra_vector_is_written:
  "save_parts_rigs example_format Lod_init =
     Inr (Lod_init\<lparr>l_min := Some (PosInf, PosInf, PosInf), l_max := Some (Fin 0, Fin 0, Fin 0)\<rparr>,
          [0, 0, 128, 127, 0, 0, 128, 127, 0, 0, 128, 127, 0, 0, 0, 0, 0, 0, 0, 0, 0, 0, 0, 0])
   \<and> load_parts_rigs example_format Lod_init
        [0, 0, 128, 127, 0, 0, 128, 127, 0, 0, 128, 127, 0, 0, 0, 0, 0, 0, 0, 0, 0, 0, 0, 0] 6
      = Inl StructError"
  by (simp add: empty_lod_save load_parts_rigs_def Vec3_load_def read_float_def read_raw_def)

subsection \<open>The primitive type\<close>

lemma D3DPRIMITIVETYPE_of_cases:
  "D3DPRIMITIVETYPE_of p =
     (if p = 1 then Inr POINTLIST else if p = 2 then Inr LINELIST else if p = 3 then Inr LINESTRIP
      else if p = 4 then Inr TRIANGLELIST else if p = 5 then Inr TRIANGLESTRIP
      else if p = 6 then Inr TRIANGLEFAN else Inl ValueError)"
  by (simp add: D3DPRIMITIVETYPE_of_def D3DPRIMITIVETYPE_members_def)

lemma header_of_example:
  "MeshHeader_load (file_up_to_primitive_type @ rest)
     = Inr (11, [0, 0, 0, 0, 1, 0, 0, 0, 255, 0, 0, 0, 17, 0, 0, 0] @ rest)"
  by (simp add: file_up_to_primitive_type_def MeshHeader_load_def read_dword_def read_byte_def
      read_uint_def read_raw_def)

lemma geoms_of_example:
  "read_dword ([0, 0, 0, 0, 1, 0, 0, 0, 255, 0, 0, 0, 17, 0, 0, 0] @ rest)
     = Inr (0, [1, 0, 0, 0, 255, 0, 0, 0, 17, 0, 0, 0] @ rest)"
  by (simp add: read_dword_def read_uint_def read_raw_def)

lemma D3DDECLTYPE_of_17: "D3DDECLTYPE_of 17 = Inr UNUSED"
  by (simp add: D3DDECLTYPE_of_def D3DDECLTYPE_members_def)

lemma D3DDECLUSAGE_of_0: "D3DDECLUSAGE_of 0 = Inr POSITION"
  by (simp add: D3DDECLUSAGE_of_def D3DDECLUSAGE_members_def)

lemma attrs_of_example:
  "load_vertex_attributes ([1, 0, 0, 0, 255, 0, 0, 0, 17, 0, 0, 0] @ rest) = Inr ([], rest)"
proof -
  have "VertexAttribute_load ([255, 0, 0, 0, 17, 0, 0, 0] @ rest)
      = Inr (unused_attr, rest)"
    by (simp add: VertexAttribute_load_def read_word_def read_uint_def read_raw_def
        D3DDECLTYPE_of_17 D3DDECLUSAGE_of_0 unused_attr_def VertexAttribute_UNUSED_def)
  then have "load_n_elems VertexAttribute_load (Suc 0) ([255, 0, 0, 0, 17, 0, 0, 0] @ rest)
      = Inr ([unused_attr], rest)"
    by simp
  moreover have "read_dword ([1, 0, 0, 0, 255, 0, 0, 0, 17, 0, 0, 0] @ rest)
      = Inr (Suc 0, [255, 0, 0, 0, 17, 0, 0, 0] @ rest)"
    by (simp add: read_dword_def read_uint_def read_raw_def)
  ultimately show ?thesis
    by (simp add: load_vertex_attributes_def unused_attr_def VertexAttribute_init_def
        del: load_n_elems.simps)
qed

text \<open>
  C9 (as amended). When the file parses up to the primitive type and its dword is not the
  value of \<open>TRIANGLELIST\<close>, \<open>load\<close> fails: with the exception for an unsupported
  primitive type when the dword is the value of another member, with \<open>ValueError\<close> when
  it is the value of no member. The vertex and index buffers, which follow the dword, are
  not read: in the witness the file ends with the dword.
\<close>

theorem load_rejects_other_primitive_types:
  assumes "MeshHeader_load f = Inr (version, f1)"
    and "read_dword f1 = Inr (ngeoms, f2)"
    and "load_n_elems Geom_load ngeoms f2 = Inr (gs, f3)"
    and "load_vertex_attributes f3 = Inr (attrs, f4)"
    and "read_dword f4 = Inr (p, f5)"
    and "p \<noteq> D3DPRIMITIVETYPE_int TRIANGLELIST"
  shows "(\<forall>t. D3DPRIMITIVETYPE_int t = p \<longrightarrow>
            load cls fc f = Inl (BF2MeshException (''Unsupported primitive type: '' @ D3DPRIMITIVETYPE_name t)))
       \<and> ((\<forall>t. D3DPRIMITIVETYPE_int t \<noteq> p) \<longrightarrow> load cls fc f = Inl ValueError)"
proof -
  have h: "load cls fc f = ebind (load_primitive_type f4) (\<lambda>x. Inl ValueError)"
  proof (cases "load_primitive_type f4")
    case (Inl e)
    then show ?thesis by (simp add: load_def load_head_def assms)
  next
    case (Inr r)
    then show ?thesis using assms(5,6)
      by (auto simp: load_primitive_type_def ebind_eq_Inr D3DPRIMITIVETYPE_of_cases split: if_splits)
  qed
  have 1: "\<forall>t. D3DPRIMITIVETYPE_int t = p \<longrightarrow>
            load cls fc f = Inl (BF2MeshException (''Unsupported primitive type: '' @ D3DPRIMITIVETYPE_name t))"
  proof (intro allI impI)
    fix t assume "D3DPRIMITIVETYPE_int t = p"
    then show "load cls fc f = Inl (BF2MeshException (''Unsupported primitive type: '' @ D3DPRIMITIVETYPE_name t))"
      using assms(5,6) unfolding h
      by (cases t) (simp_all add: load_primitive_type_def D3DPRIMITIVETYPE_of_cases)
  qed
  have 2: "(\<forall>t. D3DPRIMITIVETYPE_int t \<noteq> p) \<longrightarrow> load cls fc f = Inl ValueError"
  proof
    assume a: "\<forall>t. D3DPRIMITIVETYPE_int t \<noteq> p"
    have "p \<noteq> 1" "p \<noteq> 2" "p \<noteq> 3" "p \<noteq> 4" "p \<noteq> 5" "p \<noteq> 6"
      using a [rule_format, of POINTLIST] a [rule_format, of LINELIST] a [rule_format, of LINESTRIP]
        a [rule_format, of TRIANGLELIST] a [rule_format, of TRIANGLESTRIP] a [rule_format, of TRIANGLEFAN]
      by simp_all
    then show "load cls fc f = Inl ValueError"
      unfolding h using assms(5)
      by (simp add: load_primitive_type_def D3DPRIMITIVETYPE_of_cases)
  qed
  from 1 2 show ?thesis by blast
qed

theorem load_rejects_other_primitive_types_witness:
  "load opaque_mesh_class example_format (file_up_to_primitive_type @ [5, 0, 0, 0] @ [])
     = Inl (BF2MeshException (''Unsupported primitive type: '' @ D3DPRIMITIVETYPE_name TRIANGLESTRIP))"
proof -
  have p: "read_dword ([5, 0, 0, 0] @ []) = Inr (5, [])"
    by (simp add: read_dword_def read_uint_def read_raw_def)
  have n: "load_n_elems Geom_load 0 ([1, 0, 0, 0, 255, 0, 0, 0, 17, 0, 0, 0] @ [5, 0, 0, 0] @ [])
     = Inr ([], [1, 0, 0, 0, 255, 0, 0, 0, 17, 0, 0, 0] @ [5, 0, 0, 0] @ [])"
    by simp
  have ne: "(5::nat) \<noteq> D3DPRIMITIVETYPE_int TRIANGLELIST" by simp
  note t = load_rejects_other_primitive_types [OF header_of_example geoms_of_example n
      attrs_of_example p ne, of opaque_mesh_class example_format]
  from t [THEN conjunct1, rule_format, of TRIANGLESTRIP] show ?thesis by simp
qed

text \<open>
  C9, the claim as stated, fails for a dword that is no member of the enumeration: the
  exception is the \<open>ValueError\<close> of the enumeration, not the one for an unsupported
  primitive type.
\<close>

theorem unknown_primitive_code_is_a_ValueError:
  "load opaque_mesh_class example_format (file_up_to_primitive_type @ [7, 0, 0, 0])
     = Inl ValueError"
proof -
  have p: "load_primitive_type ([7, 0, 0, 0]) = Inl ValueError"
    by (simp add: load_primitive_type_def read_dword_def read_uint_def read_raw_def
        D3DPRIMITIVETYPE_of_cases)
  show ?thesis
    using header_of_example [of "[7, 0, 0, 0]"] geoms_of_example [of "[7, 0, 0, 0]"]
      attrs_of_example [of "[7, 0, 0, 0]"]
    by (simp add: load_def load_head_def p)
qed

section \<open>The file up to the face set count\<close>

lemma seq_out_append:
  "seq_out (xs @ ys) = ebind (seq_out xs) (\<lambda>a. ebind (seq_out ys) (\<lambda>b. Inr (a @ b)))"
  by (induction xs) (auto simp: ebind_def split: sum.splits)

lemma seq_out_map_Inr [simp]: "seq_out (map (\<lambda>x. Inr (g x)) xs) = Inr (concat (map g xs))"
  by (induction xs) simp_all

lemma MeshHeader_save_load:
  assumes "MeshHeader_save v = Inr h"
  shows "\<exists>version. v = Some version \<and> (\<forall>rest. MeshHeader_load (h @ rest) = Inr (version, rest))"
proof -
  from assms obtain b1 b2 b3 b4 b5 b6 where
    w: "write_dword (Some 0) = Inr b1" "write_dword v = Inr b2" "write_dword (Some 0) = Inr b3"
       "write_dword (Some 0) = Inr b4" "write_dword (Some 0) = Inr b5" "write_byte (Some 0) = Inr b6"
    and h: "h = b1 @ b2 @ b3 @ b4 @ b5 @ b6"
    by (auto simp: MeshHeader_save_def seq_out_Cons_Inr simp del: seq_out.simps(2))
  from w(1) obtain n1 where r1: "\<And>rest. read_dword (b1 @ rest) = Inr (n1, rest)"
    by (rule write_dword_read) blast
  from w(2) obtain version where v: "v = Some version"
    and r2: "\<And>rest. read_dword (b2 @ rest) = Inr (version, rest)"
    by (rule write_dword_read) blast
  from w(3) obtain n3 where r3: "\<And>rest. read_dword (b3 @ rest) = Inr (n3, rest)"
    by (rule write_dword_read) blast
  from w(4) obtain n4 where r4: "\<And>rest. read_dword (b4 @ rest) = Inr (n4, rest)"
    by (rule write_dword_read) blast
  from w(5) obtain n5 where r5: "\<And>rest. read_dword (b5 @ rest) = Inr (n5, rest)"
    by (rule write_dword_read) blast
  from w(6) obtain n6 where r6: "\<And>rest. read_byte (b6 @ rest) = Inr (n6, rest)"
    by (rule write_byte_read) blast
  have "\<forall>rest. MeshHeader_load (h @ rest) = Inr (version, rest)"
    by (simp add: MeshHeader_load_def h r1 r2 r3 r4 r5 r6)
  with v show ?thesis by blast
qed

lemma load_n_elems_Lod_load [simp]:
  "load_n_elems Lod_load n f = Inr (replicate n Lod_init, f)"
  by (induction n) (simp_all add: Lod_load_def)

lemma Geom_save_load:
  assumes "Geom_save g = Inr b"
  shows "Geom_load (b @ rest) = Inr (skeleton g, rest)"
proof -
  have "seq_out (map Lod_save (lods g)) = Inr []"
    by (induction "lods g") (simp_all add: Lod_save_def comp_def)
  with assms have w: "write_dword (Some (length (lods g))) = Inr b"
    by (auto simp: Geom_save_def seq_out_Cons_Inr simp del: seq_out.simps(2))
  from w obtain n where "Some (length (lods g)) = Some n"
    and r: "\<And>rest. read_dword (b @ rest) = Inr (n, rest)"
    by (rule write_dword_read) blast
  then show ?thesis by (simp add: Geom_load_def skeleton_def)
qed

lemma skeleton_save_load:
  assumes "seq_out (write_dword (Some (length gs)) # map Geom_save gs) = Inr sk"
  shows "\<exists>sk1 sk2. sk = sk1 @ sk2 \<and> (\<forall>rest. read_dword (sk1 @ rest) = Inr (length gs, rest))
       \<and> (\<forall>rest. load_n_elems Geom_load (length gs) (sk2 @ rest) = Inr (map skeleton gs, rest))"
proof -
  from assms obtain sk1 sk2 where w: "write_dword (Some (length gs)) = Inr sk1"
    and s: "seq_out (map Geom_save gs) = Inr sk2" and sk: "sk = sk1 @ sk2"
    by (auto simp: seq_out_Cons_Inr simp del: seq_out.simps(2))
  from w obtain n where "Some (length gs) = Some n"
    and r: "\<And>rest. read_dword (sk1 @ rest) = Inr (n, rest)"
    by (rule write_dword_read) blast
  then have r': "\<forall>rest. read_dword (sk1 @ rest) = Inr (length gs, rest)" by simp
  have "\<forall>rest. load_n_elems Geom_load (length gs) (sk2 @ rest) = Inr (map skeleton gs, rest)"
    using load_n_elems_seq_out [OF s, of Geom_load skeleton] Geom_save_load by blast
  with sk r' show ?thesis by blast
qed

subsection \<open>Packed values\<close>

lemma value_ok_Cons:
  "value_ok fc (c # cs) (x # xs) \<longleftrightarrow>
     (c = CHR ''f'' \<longrightarrow> (\<exists>y. x = F y \<and> unpack_f fc (pack_f fc y) = y)) \<and> value_ok fc cs xs"
  by (auto simp: value_ok_def)

lemma pack_item_roundtrip:
  assumes "\<forall>x. length (pack_f fc x) = 4"
    and "c = CHR ''f'' \<longrightarrow> (\<exists>y. x = F y \<and> unpack_f fc (pack_f fc y) = y)"
    and "pack_item fc c x = Inr b"
  shows "unpack_items fc (c # cs) (b @ rest) = x # unpack_items fc cs rest \<and> length b = item_size c"
proof (cases "c = CHR ''f''")
  case True
  with assms(2) obtain y where x: "x = F y" and u: "unpack_f fc (pack_f fc y) = y" by blast
  from assms(3) True x have b: "b = pack_f fc y" by simp
  then have "length b = 4" using assms(1) by simp
  then show ?thesis using True x u b by (simp add: item_size_def)
next
  case False
  with assms(3) obtain n where x: "x = I n" and "0 \<le> n" and b: "b = [nat n]"
    by (cases x) (auto split: if_splits)
  then show ?thesis using False by (simp add: item_size_def)
qed

lemma pack_items_roundtrip:
  assumes "\<forall>x. length (pack_f fc x) = 4"
  shows "length xs = length cs \<Longrightarrow> value_ok fc cs xs \<Longrightarrow>
     seq_out (map (\<lambda>(c, v). pack_item fc c v) (zip cs xs)) = Inr bs \<Longrightarrow>
     unpack_items fc cs bs = xs \<and> length bs = sum_list (map item_size cs)"
proof (induction cs arbitrary: xs bs)
  case Nil
  then show ?case by simp
next
  case (Cons c cs)
  from Cons.prems(1) obtain x xs' where xs: "xs = x # xs'" and len: "length xs' = length cs"
    by (cases xs) auto
  from Cons.prems(3) xs obtain b bs' where b: "pack_item fc c x = Inr b"
    and s: "seq_out (map (\<lambda>(c, v). pack_item fc c v) (zip cs xs')) = Inr bs'" and bs: "bs = b @ bs'"
    by (auto simp: seq_out_Cons_Inr simp del: seq_out.simps(2) pack_item.simps)
  from Cons.prems(2) xs have ok: "c = CHR ''f'' \<longrightarrow> (\<exists>y. x = F y \<and> unpack_f fc (pack_f fc y) = y)"
    and ok': "value_ok fc cs xs'"
    by (simp_all add: value_ok_Cons)
  from Cons.IH [OF len ok' s] have ih: "unpack_items fc cs bs' = xs'"
    "length bs' = sum_list (map item_size cs)" by simp_all
  from pack_item_roundtrip [OF assms ok b, of cs bs'] ih show ?case
    by (simp add: xs bs del: unpack_items.simps)
qed

lemma struct_pack_roundtrip:
  assumes "\<forall>x. length (pack_f fc x) = 4" and "value_ok fc (struct_items fmt) xs"
    and "struct_pack fc fmt xs = Inr bs"
  shows "struct_unpack fc fmt bs = Inr xs \<and> length bs = struct_calcsize fmt"
proof -
  from assms(3) have len: "length xs = length (struct_items fmt)"
    and s: "seq_out (map (\<lambda>(c, v). pack_item fc c v) (zip (struct_items fmt) xs)) = Inr bs"
    by (auto simp: struct_pack_def split: if_splits)
  from pack_items_roundtrip [OF assms(1) len assms(2) s] show ?thesis
    by (simp add: struct_unpack_def struct_calcsize_def)
qed

subsection \<open>The attribute table\<close>

lemma D3DDECLTYPE_of_int [simp]: "D3DDECLTYPE_of (D3DDECLTYPE_int t) = Inr t"
  by (cases t) (simp_all add: D3DDECLTYPE_of_def D3DDECLTYPE_members_def)

lemma D3DDECLUSAGE_of_int [simp]: "D3DDECLUSAGE_of (D3DDECLUSAGE_int u) = Inr u"
  by (cases u) (simp_all add: D3DDECLUSAGE_of_def D3DDECLUSAGE_members_def)

lemma AlphaMode_of_int [simp]: "AlphaMode_of (AlphaMode_int a) = Inr a"
  by (cases a) (simp_all add: AlphaMode_of_def)

lemma VertexAttribute_save_load:
  assumes "VertexAttribute_save a = Inr b"
  shows "VertexAttribute_load (b @ rest) = Inr (a, rest)"
proof -
  from assms obtain b1 b2 b3 b4 where
    w: "write_word (a_flag a) = Inr b1" "write_word (a_offset a) = Inr b2"
       "write_word (Some (D3DDECLTYPE_int (decl_type a))) = Inr b3"
       "write_word (Some (D3DDECLUSAGE_int (decl_usage a))) = Inr b4"
    and b: "b = b1 @ b2 @ b3 @ b4"
    by (auto simp: VertexAttribute_save_def seq_out_Cons_Inr simp del: seq_out.simps(2))
  from w(1) obtain fl where fl: "a_flag a = Some fl"
    and r1: "\<And>rest. read_word (b1 @ rest) = Inr (fl, rest)" by (rule write_word_read) blast
  from w(2) obtain off where off: "a_offset a = Some off"
    and r2: "\<And>rest. read_word (b2 @ rest) = Inr (off, rest)" by (rule write_word_read) blast
  from w(3) obtain t where "Some (D3DDECLTYPE_int (decl_type a)) = Some t"
    and r3: "\<And>rest. read_word (b3 @ rest) = Inr (t, rest)" by (rule write_word_read) blast
  then have t: "t = D3DDECLTYPE_int (decl_type a)" by simp
  from w(4) obtain u where "Some (D3DDECLUSAGE_int (decl_usage a)) = Some u"
    and r4: "\<And>rest. read_word (b4 @ rest) = Inr (u, rest)" by (rule write_word_read) blast
  then have u: "u = D3DDECLUSAGE_int (decl_usage a)" by simp
  show ?thesis
    by (cases a) (use fl off in \<open>simp add: VertexAttribute_load_def b r1 r2 r3 r4 t u
        VertexAttribute_init_def\<close>)
qed

lemma export_rows:
  assumes "\<forall>a \<in> set attrs. a_flag a \<noteq> Some VertexAttribute_UNUSED"
  shows "emap_st export_vertex_attr attrs off = Inr (rows, vds) \<Longrightarrow>
     laid_out off (map fst rows) \<and> vds = off + table_size (map fst rows)
     \<and> map decl_type (map fst rows) = map decl_type attrs
     \<and> map decl_usage (map fst rows) = map decl_usage attrs
     \<and> (\<forall>(a', b) \<in> set rows. VertexAttribute_save a' = Inr b)"
  using assms
proof (induction attrs arbitrary: off rows vds)
  case Nil
  then show ?case by simp
next
  case (Cons a attrs)
  from Cons.prems(2) have nu: "a_flag a \<noteq> Some VertexAttribute_UNUSED"
    and nus: "\<forall>a \<in> set attrs. a_flag a \<noteq> Some VertexAttribute_UNUSED" by simp_all
  from Cons.prems(1) obtain row off1 rows1 where
    e: "export_vertex_attr a off = Inr (row, off1)"
    and r: "emap_st export_vertex_attr attrs off1 = Inr (rows1, vds)"
    and rows: "rows = row # rows1"
    by (auto simp: ebind_eq_Inr)
  let ?a' = "a\<lparr>a_offset := Some off, a_flag := Some VertexAttribute_USED\<rparr>"
  from e nu obtain bs fmt where s: "VertexAttribute_save ?a' = Inr bs"
    and f: "get_struct_fmt (decl_type a) = Inr fmt"
    and row: "row = (?a', bs)" and off1: "off1 = off + struct_calcsize fmt"
    by (auto simp: export_vertex_attr_def Let_def ebind_eq_Inr)
  from Cons.IH [OF r nus] show ?case
    by (simp add: rows row off1 f s)
qed

lemma load_n_elems_rows:
  assumes "\<forall>(x, b) \<in> set rows. \<forall>rest. ld (b @ rest) = Inr (x, rest)"
  shows "load_n_elems ld (length rows) (concat (map snd rows) @ rest) = Inr (map fst rows, rest)"
  using assms
proof (induction rows)
  case Nil
  then show ?case by simp
next
  case (Cons r rows)
  obtain x b where r: "r = (x, b)" by (cases r)
  from Cons.prems r have 1: "\<And>rest. ld (b @ rest) = Inr (x, rest)" by simp
  from Cons.prems have
    "load_n_elems ld (length rows) (concat (map snd rows) @ rest) = Inr (map fst rows, rest)"
    by (intro Cons.IH) simp
  then show ?case by (simp add: r 1)
qed

lemma laid_out_flags:
  "laid_out off attrs \<Longrightarrow> a \<in> set attrs \<Longrightarrow> a_flag a = Some VertexAttribute_USED"
  by (induction attrs arbitrary: off) (auto split: sum.splits)

lemma export_vertex_attributes_load:
  assumes "export_vertex_attributes attrs = Inr (attrs', vds, table)"
    and "\<forall>a \<in> set attrs. a_flag a \<noteq> Some VertexAttribute_UNUSED"
  shows "(\<forall>rest. load_vertex_attributes (table @ rest) = Inr (attrs', rest))
       \<and> laid_out 0 attrs' \<and> vds = table_size attrs'
       \<and> map decl_type attrs' = map decl_type attrs
       \<and> map decl_usage attrs' = map decl_usage attrs"
proof -
  from assms(1) obtain cb rows lb where
    c: "write_dword (Some (length attrs + 1)) = Inr cb"
    and e: "emap_st export_vertex_attr attrs 0 = Inr (rows, vds)"
    and l: "VertexAttribute_save unused_attr = Inr lb"
    and a': "attrs' = map fst rows" and t: "table = cb @ concat (map snd rows) @ lb"
    by (auto simp: export_vertex_attributes_def ebind_eq_Inr)
  note x = export_rows [OF assms(2) e]
  from x have len: "length rows = length attrs"
    by (metis length_map)
  from c obtain n where "Some (length attrs + 1) = Some n"
    and rc: "\<And>rest. read_dword (cb @ rest) = Inr (n, rest)" by (rule write_dword_read) blast
  then have n: "n = length (rows @ [(unused_attr, lb)])" using len by simp
  have "\<forall>(x, b) \<in> set (rows @ [(unused_attr, lb)]). \<forall>rest. VertexAttribute_load (b @ rest) = Inr (x, rest)"
    using x l by (auto simp: VertexAttribute_save_load)
  from load_n_elems_rows [OF this]
  have rr: "\<And>rest. load_n_elems VertexAttribute_load n (concat (map snd rows) @ lb @ rest)
       = Inr (map fst rows @ [unused_attr], rest)"
    unfolding n by simp
  have "\<forall>rest. load_vertex_attributes (table @ rest) = Inr (attrs', rest)"
    by (simp add: load_vertex_attributes_def t rc rr a' unused_attr_def VertexAttribute_init_def)
  with x a' show ?thesis by simp
qed

subsection \<open>Buffers\<close>

lemma write_words_read:
  assumes "write_words ws = Inr wb"
  shows "read_words (length ws) (wb @ rest) = Inr (ws, rest)"
proof -
  have "load_n_elems read_word (length ws) (wb @ rest) = Inr (map (\<lambda>x. x) ws, rest)"
  proof (rule load_n_elems_seq_out)
    show "seq_out (map (\<lambda>w. write_word (Some w)) ws) = Inr wb"
      using assms by (simp add: write_words_def)
  next
    fix x b rest
    assume "write_word (Some x) = Inr b"
    then show "read_word (b @ rest) = Inr (x, rest)"
      by (elim write_word_read) simp
  qed
  then show ?thesis by (simp add: read_words_def)
qed

lemma primitive_type_save_load:
  assumes "seq_out [write_dword (Some (D3DPRIMITIVETYPE_int TRIANGLELIST)), write_dword (Some vds)] = Inr prim"
  shows "\<exists>p1 pv. prim = p1 @ pv \<and> (\<forall>rest. load_primitive_type (p1 @ rest) = Inr ((), rest))
           \<and> (\<forall>rest. read_dword (pv @ rest) = Inr (vds, rest))"
proof -
  from assms obtain p1 pv where w: "write_dword (Some (D3DPRIMITIVETYPE_int TRIANGLELIST)) = Inr p1"
    "write_dword (Some vds) = Inr pv" and p: "prim = p1 @ pv"
    by (auto simp: seq_out_Cons_Inr simp del: seq_out.simps(2) D3DPRIMITIVETYPE_int.simps)
  from w(1) obtain n where "Some (D3DPRIMITIVETYPE_int TRIANGLELIST) = Some n"
    and r1: "\<And>rest. read_dword (p1 @ rest) = Inr (n, rest)" by (rule write_dword_read) blast
  then have n: "n = 4" by simp
  from w(2) obtain m where "Some vds = Some m"
    and r2: "\<And>rest. read_dword (pv @ rest) = Inr (m, rest)" by (rule write_dword_read) blast
  then have m: "m = vds" by simp
  have "\<forall>rest. load_primitive_type (p1 @ rest) = Inr ((), rest)"
    by (simp add: load_primitive_type_def r1 n D3DPRIMITIVETYPE_of_cases)
  with p r2 m show ?thesis by blast
qed

lemma save_buffers_load:
  assumes "save_buffers vds vb ib = Inr buffers" and "length vb = vds * k"
    and "\<And>rest. read_dword (pv @ rest) = Inr (vds, rest)"
  shows "load_buffers (pv @ buffers @ rest) = Inr ((vds, vb, ib), rest)"
proof -
  from assms(1) have pos: "vds \<noteq> 0" by (auto simp: save_buffers_def split: if_splits)
  from assms(1) pos obtain b1 b2 b3 b4 where
    w: "write_dword (Some (length vb div vds)) = Inr b1" "write_raw vb = Inr b2"
       "write_dword (Some (length ib)) = Inr b3" "write_words ib = Inr b4"
    and b: "buffers = b1 @ b2 @ b3 @ b4"
    by (auto simp: save_buffers_def seq_out_Cons_Inr simp del: seq_out.simps(2))
  from w(1) obtain n where "Some (length vb div vds) = Some n"
    and r1: "\<And>rest. read_dword (b1 @ rest) = Inr (n, rest)" by (rule write_dword_read) blast
  then have n: "n = k" using assms(2) pos by simp
  from w(2) have b2: "b2 = vb" by (simp add: write_raw_def)
  have r2: "\<And>rest. read_raw (vds * k) (vb @ rest) = Inr (vb, rest)"
    using read_raw_append [of vb] assms(2) by simp
  from w(3) obtain m where "Some (length ib) = Some m"
    and r3: "\<And>rest. read_dword (b3 @ rest) = Inr (m, rest)" by (rule write_dword_read) blast
  then have m: "m = length ib" by simp
  note r4 = write_words_read [OF w(4)]
  show ?thesis
    by (simp add: load_buffers_def b assms(3) r1 n b2 r2 r3 m r4)
qed

lemma save_alpha_blend_indexnum_load:
  assumes "save_alpha_blend_indexnum cls ha = Inr fsc"
  shows "load_alpha_blend_indexnum cls (fsc @ rest) =
     Inr (if MATERIAL_TYPE cls = MaterialWithTransparency_class
          then Some (if ha then ALPHA_BLEND_FACE_SET_COUNT else 0) else None, rest)"
proof (cases "MATERIAL_TYPE cls = MaterialWithTransparency_class")
  case True
  with assms have "write_dword (Some (if ha then ALPHA_BLEND_FACE_SET_COUNT else 0)) = Inr fsc"
    by (auto simp: save_alpha_blend_indexnum_def split: if_splits)
  then obtain n where "Some (if ha then ALPHA_BLEND_FACE_SET_COUNT else 0) = Some n"
    and r: "\<And>rest. read_dword (fsc @ rest) = Inr (n, rest)" by (rule write_dword_read) blast
  then show ?thesis using True by (auto simp: load_alpha_blend_indexnum_def)
next
  case False
  with assms show ?thesis by (simp add: load_alpha_blend_indexnum_def save_alpha_blend_indexnum_def)
qed

lemma load_head_of_export:
  assumes "MeshHeader_save (VERSION cls) = Inr header"
    and "seq_out (write_dword (Some (length gs)) # map Geom_save gs) = Inr sk"
    and "export_vertex_attributes attrs = Inr (attrs', vds, table)"
    and "\<forall>a \<in> set attrs. a_flag a \<noteq> Some VertexAttribute_UNUSED"
    and "seq_out [write_dword (Some (D3DPRIMITIVETYPE_int TRIANGLELIST)), write_dword (Some vds)] = Inr prim"
    and "save_buffers vds vb ib = Inr buffers" and "length vb = vds * k"
    and "save_alpha_blend_indexnum cls ha = Inr fsc"
  shows "\<exists>v. VERSION cls = Some v \<and>
     load_head cls (header @ sk @ table @ prim @ buffers @ fsc @ rest) =
       Inr ((v, map skeleton gs, attrs', vds, vb, ib,
             if MATERIAL_TYPE cls = MaterialWithTransparency_class
             then Some (if ha then ALPHA_BLEND_FACE_SET_COUNT else 0) else None), rest)"
proof -
  from MeshHeader_save_load [OF assms(1)] obtain v where v: "VERSION cls = Some v"
    and r1: "\<And>rest. MeshHeader_load (header @ rest) = Inr (v, rest)" by blast
  from skeleton_save_load [OF assms(2)] obtain sk1 sk2 where sk: "sk = sk1 @ sk2"
    and r2: "\<And>rest. read_dword (sk1 @ rest) = Inr (length gs, rest)"
    and r3: "\<And>rest. load_n_elems Geom_load (length gs) (sk2 @ rest) = Inr (map skeleton gs, rest)"
    by blast
  from export_vertex_attributes_load [OF assms(3,4)]
  have r4: "\<And>rest. load_vertex_attributes (table @ rest) = Inr (attrs', rest)" by blast
  from primitive_type_save_load [OF assms(5)] obtain p1 pv where p: "prim = p1 @ pv"
    and r5: "\<And>rest. load_primitive_type (p1 @ rest) = Inr ((), rest)"
    and r6: "\<And>rest. read_dword (pv @ rest) = Inr (vds, rest)" by blast
  have r7: "\<And>rest. load_buffers (pv @ buffers @ rest) = Inr ((vds, vb, ib), rest)"
    using save_buffers_load [OF assms(6,7)] r6 by blast
  note r8 = save_alpha_blend_indexnum_load [OF assms(8)]
  have "load_head cls (header @ sk @ table @ prim @ buffers @ fsc @ rest) =
       Inr ((v, map skeleton gs, attrs', vds, vb, ib,
             if MATERIAL_TYPE cls = MaterialWithTransparency_class
             then Some (if ha then ALPHA_BLEND_FACE_SET_COUNT else 0) else None), rest)"
    by (simp add: load_head_def r1 sk r2 r3 r4 p r5 r7 r8 del: load_n_elems.simps)
  with v show ?thesis by blast
qed

subsection \<open>A table with a row flagged unused\<close>

lemma le_encode_2: "le_encode 2 n = [n mod 256, n div 256 mod 256]"
proof -
  have "le_encode (Suc (Suc 0)) n = [n mod 256, n div 256 mod 256]" by simp
  moreover have "(2::nat) = Suc (Suc 0)" by simp
  ultimately show ?thesis by metis
qed

lemma load_n_elems_numeral:
  "load_n_elems ld (numeral k) f =
     ebind (ld f) (\<lambda>(x, f'). ebind (load_n_elems ld (pred_numeral k) f') (\<lambda>(xs, f''). Inr (x # xs, f'')))"
proof -
  have "load_n_elems ld (Suc (pred_numeral k)) f =
     ebind (ld f) (\<lambda>(x, f'). ebind (load_n_elems ld (pred_numeral k) f') (\<lambda>(xs, f''). Inr (x # xs, f'')))"
    by (rule load_n_elems.simps)
  then show ?thesis by (simp only: numeral_eq_Suc)
qed

lemma struct_items_values:
  "struct_items ''1f'' = [CHR ''f'']" "struct_items ''2f'' = [CHR ''f'', CHR ''f'']"
  "struct_items ''3f'' = [CHR ''f'', CHR ''f'', CHR ''f'']"
  "struct_items ''4f'' = [CHR ''f'', CHR ''f'', CHR ''f'', CHR ''f'']"
  "struct_items ''4B'' = [CHR ''B'', CHR ''B'', CHR ''B'', CHR ''B'']"
  "struct_items '''' = []"
proof -
  have r: "replicate 1 x = [x]" "replicate 2 x = [x, x]" "replicate 3 x = [x, x, x]"
    "replicate 4 x = [x, x, x, x]" for x :: char
    by (simp_all add: numeral_Bit0 numeral_3_eq_3)
  show "struct_items ''1f'' = [CHR ''f'']" "struct_items ''2f'' = [CHR ''f'', CHR ''f'']"
  "struct_items ''3f'' = [CHR ''f'', CHR ''f'', CHR ''f'']"
  "struct_items ''4f'' = [CHR ''f'', CHR ''f'', CHR ''f'', CHR ''f'']"
  "struct_items ''4B'' = [CHR ''B'', CHR ''B'', CHR ''B'', CHR ''B'']"
  "struct_items '''' = []"
    by (simp_all add: struct_items_def r)
qed

lemma struct_calcsize_values [simp]:
  "struct_calcsize ''1f'' = 4" "struct_calcsize ''2f'' = 8" "struct_calcsize ''3f'' = 12"
  "struct_calcsize ''4f'' = 16" "struct_calcsize ''4B'' = 4" "struct_calcsize '''' = 0"
  by (simp_all add: struct_calcsize_def struct_items_values item_size_def)

lemma D3DDECLTYPE_of_2: "D3DDECLTYPE_of 2 = Inr FLOAT3"
  by (simp add: D3DDECLTYPE_of_def D3DDECLTYPE_members_def)

lemma D3DDECLUSAGE_of_3: "D3DDECLUSAGE_of 3 = Inr NORMAL"
  by (simp add: D3DDECLUSAGE_of_def D3DDECLUSAGE_members_def)

lemma position_row_bytes: "VertexAttribute_save position_row = Inr [0, 0, 0, 0, 2, 0, 0, 0]"
  by (simp add: VertexAttribute_save_def position_row_def VertexAttribute_init_def write_word_def
      write_uint_def le_encode_2)

lemma unused_attr_bytes: "VertexAttribute_save unused_attr = Inr [255, 0, 0, 0, 17, 0, 0, 0]"
  by (simp add: VertexAttribute_save_def unused_attr_def VertexAttribute_init_def write_word_def
      write_uint_def le_encode_2 VertexAttribute_UNUSED_def)

lemma three_rows_loaded:
  "load_vertex_attributes
     [3, 0, 0, 0, 0, 0, 0, 0, 2, 0, 0, 0, 255, 0, 12, 0, 2, 0, 3, 0, 255, 0, 0, 0, 17, 0, 0, 0]
     = Inr ([position_row, unused_normal_row], [])"
proof -
  have 1: "VertexAttribute_load [0, 0, 0, 0, 2, 0, 0, 0, 255, 0, 12, 0, 2, 0, 3, 0, 255, 0, 0, 0, 17, 0, 0, 0]
     = Inr (position_row, [255, 0, 12, 0, 2, 0, 3, 0, 255, 0, 0, 0, 17, 0, 0, 0])"
    by (simp add: VertexAttribute_load_def read_word_def read_uint_def read_raw_def
        D3DDECLTYPE_of_2 D3DDECLUSAGE_of_0 position_row_def)
  have 2: "VertexAttribute_load [255, 0, 12, 0, 2, 0, 3, 0, 255, 0, 0, 0, 17, 0, 0, 0]
     = Inr (unused_normal_row, [255, 0, 0, 0, 17, 0, 0, 0])"
    by (simp add: VertexAttribute_load_def read_word_def read_uint_def read_raw_def
        D3DDECLTYPE_of_2 D3DDECLUSAGE_of_3 unused_normal_row_def)
  have 3: "VertexAttribute_load [255, 0, 0, 0, 17, 0, 0, 0] = Inr (unused_attr, [])"
    by (simp add: VertexAttribute_load_def read_word_def read_uint_def read_raw_def
        D3DDECLTYPE_of_17 D3DDECLUSAGE_of_0 unused_attr_def VertexAttribute_UNUSED_def)
  have "load_n_elems VertexAttribute_load 3
      [0, 0, 0, 0, 2, 0, 0, 0, 255, 0, 12, 0, 2, 0, 3, 0, 255, 0, 0, 0, 17, 0, 0, 0]
     = Inr ([position_row, unused_normal_row, unused_attr], [])"
    by (simp add: load_n_elems_numeral 1 2 3)
  moreover have "read_dword
     [3, 0, 0, 0, 0, 0, 0, 0, 2, 0, 0, 0, 255, 0, 12, 0, 2, 0, 3, 0, 255, 0, 0, 0, 17, 0, 0, 0]
     = Inr (3, [0, 0, 0, 0, 2, 0, 0, 0, 255, 0, 12, 0, 2, 0, 3, 0, 255, 0, 0, 0, 17, 0, 0, 0])"
    by (simp add: read_dword_def read_uint_def read_raw_def)
  ultimately show ?thesis
    by (simp add: load_vertex_attributes_def unused_attr_def VertexAttribute_init_def
        VertexAttribute_UNUSED_def del: load_n_elems.simps)
qed

text \<open>
  C6. A file whose table is a position row, a normal row flagged unused and the dummy row
  loads to a table of two rows: only the last row is dropped. Exporting that table writes
  the count 3 and then two rows, the position row and the dummy row: the row flagged
  unused is counted and not written. (For a table with no row flagged unused the export
  writes every row and the dummy row, and the load gives the rows back: lemma
  \<open>export_vertex_attributes_load\<close>.)
\<close>

theorem skipped_row_is_counted:
  "load_vertex_attributes
     [3, 0, 0, 0, 0, 0, 0, 0, 2, 0, 0, 0, 255, 0, 12, 0, 2, 0, 3, 0, 255, 0, 0, 0, 17, 0, 0, 0]
     = Inr ([position_row, unused_normal_row], [])
   \<and> export_vertex_attributes [position_row, unused_normal_row]
     = Inr ([position_row, unused_normal_row], 12,
            [3, 0, 0, 0, 0, 0, 0, 0, 2, 0, 0, 0, 255, 0, 0, 0, 17, 0, 0, 0])"
proof -
  have 1: "export_vertex_attr position_row 0 = Inr ((position_row, [0, 0, 0, 0, 2, 0, 0, 0]), 12)"
    using position_row_bytes
    by (simp add: export_vertex_attr_def position_row_def VertexAttribute_init_def
        VertexAttribute_UNUSED_def VertexAttribute_USED_def)
  have 2: "export_vertex_attr unused_normal_row 12 = Inr ((unused_normal_row, []), 12)"
    by (simp add: export_vertex_attr_def unused_normal_row_def VertexAttribute_init_def
        VertexAttribute_UNUSED_def)
  show ?thesis
    using three_rows_loaded
    by (simp add: export_vertex_attributes_def 1 2 unused_attr_bytes write_dword_def
        write_uint_def le_encode_4)
qed

section \<open>Vertices in the vertex buffer\<close>

lemma pack_item_length:
  assumes "\<forall>x. length (pack_f fc x) = 4" and "pack_item fc c x = Inr b"
  shows "length b = item_size c"
  using assms by (cases x) (auto simp: item_size_def split: if_splits)

lemma pack_items_length:
  assumes "\<forall>x. length (pack_f fc x) = 4"
  shows "length xs = length cs \<Longrightarrow>
     seq_out (map (\<lambda>(c, v). pack_item fc c v) (zip cs xs)) = Inr bs \<Longrightarrow>
     length bs = sum_list (map item_size cs)"
proof (induction cs arbitrary: xs bs)
  case Nil
  then show ?case by simp
next
  case (Cons c cs)
  from Cons.prems(1) obtain x xs' where xs: "xs = x # xs'" and len: "length xs' = length cs"
    by (cases xs) auto
  from Cons.prems(2) xs obtain b bs' where b: "pack_item fc c x = Inr b"
    and s: "seq_out (map (\<lambda>(c, v). pack_item fc c v) (zip cs xs')) = Inr bs'" and bs: "bs = b @ bs'"
    by (auto simp: seq_out_Cons_Inr simp del: seq_out.simps(2) pack_item.simps)
  from Cons.IH [OF len s] pack_item_length [OF assms b] show ?case by (simp add: bs)
qed

lemma struct_pack_length:
  assumes "\<forall>x. length (pack_f fc x) = 4" and "struct_pack fc fmt xs = Inr bs"
  shows "length bs = struct_calcsize fmt"
proof -
  from assms(2) have len: "length xs = length (struct_items fmt)"
    and s: "seq_out (map (\<lambda>(c, v). pack_item fc c v) (zip (struct_items fmt) xs)) = Inr bs"
    by (auto simp: struct_pack_def split: if_splits)
  from pack_items_length [OF assms(1) len s] show ?thesis by (simp add: struct_calcsize_def)
qed

lemma save_vertex_attr_from_empty:
  "save_vertex_attr fc v vb a = ebind (save_vertex_attr fc v [] a) (\<lambda>bs. Inr (vb @ bs))"
  by (auto simp: save_vertex_attr_def ebind_def split: sum.splits option.splits)

lemma save_vertex_from_empty:
  "efold (save_vertex_attr fc v) vb attrs
     = ebind (efold (save_vertex_attr fc v) [] attrs) (\<lambda>bs. Inr (vb @ bs))"
proof (induction attrs arbitrary: vb)
  case Nil
  then show ?case by simp
next
  case (Cons a attrs)
  show ?case
  proof (cases "save_vertex_attr fc v [] a")
    case (Inl e)
    then show ?thesis using save_vertex_attr_from_empty [of fc v vb a] by simp
  next
    case (Inr bs)
    then have 1: "save_vertex_attr fc v vb a = Inr (vb @ bs)"
      using save_vertex_attr_from_empty [of fc v vb a] by simp
    show ?thesis
      using Cons.IH [of "vb @ bs"] Cons.IH [of bs]
      by (cases "efold (save_vertex_attr fc v) [] attrs") (simp_all add: 1 Inr)
  qed
qed

lemma save_vertices_loop:
  "efold (\<lambda>vb v. efold (save_vertex_attr fc v) vb attrs) vb vs
     = ebind (encode_vertices fc attrs vs) (\<lambda>bs. Inr (vb @ bs))"
proof (induction vs arbitrary: vb)
  case Nil
  then show ?case by (simp add: encode_vertices_def)
next
  case (Cons v vs)
  show ?case
  proof (cases "encode_vertex fc attrs v")
    case (Inl e)
    then show ?thesis
      using save_vertex_from_empty [of fc v vb attrs]
      by (simp add: encode_vertices_def encode_vertex_def)
  next
    case (Inr bs)
    then have 1: "efold (save_vertex_attr fc v) vb attrs = Inr (vb @ bs)"
      using save_vertex_from_empty [of fc v vb attrs] by (simp add: encode_vertex_def)
    show ?thesis
      using Cons.IH [of "vb @ bs"]
      by (cases "encode_vertices fc attrs vs")
        (simp_all add: 1 Inr encode_vertices_def)
  qed
qed

lemma laid_out_Cons:
  "laid_out off (a # as) \<longleftrightarrow>
     a_flag a = Some VertexAttribute_USED \<and> a_offset a = Some off
     \<and> (\<exists>fmt. get_struct_fmt (decl_type a) = Inr fmt \<and> laid_out (off + struct_calcsize fmt) as)"
  by (auto split: sum.splits)

lemma encode_vertex_Cons:
  assumes "encode_vertex fc (a # attrs) v = Inr E" and "a_flag a = Some VertexAttribute_USED"
    and "get_struct_fmt (decl_type a) = Inr fmt"
  shows "\<exists>xs bs E'. v (decl_usage a) = Some xs \<and> struct_pack fc fmt xs = Inr bs
           \<and> encode_vertex fc attrs v = Inr E' \<and> E = bs @ E'"
proof -
  from assms(1) obtain s where s: "save_vertex_attr fc v [] a = Inr s"
    and r: "efold (save_vertex_attr fc v) s attrs = Inr E"
    by (auto simp: encode_vertex_def ebind_eq_Inr)
  from s assms(2,3) obtain xs where xs: "v (decl_usage a) = Some xs"
    and p: "struct_pack fc fmt xs = Inr s"
    by (auto simp: save_vertex_attr_def VertexAttribute_USED_def VertexAttribute_UNUSED_def
        ebind_eq_Inr split: option.splits)
  from r obtain E' where "efold (save_vertex_attr fc v) [] attrs = Inr E'" and "E = s @ E'"
    using save_vertex_from_empty [of fc v s attrs] by (auto simp: ebind_eq_Inr)
  with xs p show ?thesis by (auto simp: encode_vertex_def)
qed

lemma encode_vertex_length:
  assumes "\<forall>x. length (pack_f fc x) = 4"
  shows "laid_out off attrs \<Longrightarrow> encode_vertex fc attrs v = Inr E \<Longrightarrow> length E = table_size attrs"
proof (induction attrs arbitrary: off E)
  case Nil
  then show ?case by (simp add: encode_vertex_def)
next
  case (Cons a attrs)
  from Cons.prems(1) obtain fmt where fl: "a_flag a = Some VertexAttribute_USED"
    and f: "get_struct_fmt (decl_type a) = Inr fmt"
    and l: "laid_out (off + struct_calcsize fmt) attrs"
    by (auto simp: laid_out_Cons simp del: laid_out.simps)
  from encode_vertex_Cons [OF Cons.prems(2) fl f] obtain xs bs E' where
    p: "struct_pack fc fmt xs = Inr bs" and e: "encode_vertex fc attrs v = Inr E'" and E: "E = bs @ E'"
    by blast
  from Cons.IH [OF l e] struct_pack_length [OF assms p] show ?case by (simp add: E f)
qed

lemma decode_vertex:
  assumes "\<forall>x. length (pack_f fc x) = 4"
  shows "laid_out off attrs \<Longrightarrow> encode_vertex fc attrs v = Inr E \<Longrightarrow>
     (\<forall>a \<in> set attrs. \<forall>fmt xs. get_struct_fmt (decl_type a) = Inr fmt
            \<longrightarrow> v (decl_usage a) = Some xs \<longrightarrow> value_ok fc (struct_items fmt) xs) \<Longrightarrow>
     length X = i * vds + off \<Longrightarrow>
     efold (load_vertex_attr fc vds (X @ E @ Y) i) vtx attrs
       = Inr (\<lambda>u. if u \<in> decl_usage ` set attrs then v u else vtx u)"
proof (induction attrs arbitrary: off E X vtx)
  case Nil
  then show ?case by simp
next
  case (Cons a attrs)
  from Cons.prems(1) obtain fmt where fl: "a_flag a = Some VertexAttribute_USED"
    and o: "a_offset a = Some off"
    and f: "get_struct_fmt (decl_type a) = Inr fmt"
    and l: "laid_out (off + struct_calcsize fmt) attrs"
    by (auto simp: laid_out_Cons simp del: laid_out.simps)
  from encode_vertex_Cons [OF Cons.prems(2) fl f] obtain xs bs E' where
    xs: "v (decl_usage a) = Some xs" and p: "struct_pack fc fmt xs = Inr bs"
    and e: "encode_vertex fc attrs v = Inr E'" and E: "E = bs @ E'"
    by blast
  from Cons.prems(3) f xs have ok: "value_ok fc (struct_items fmt) xs" by simp
  from struct_pack_roundtrip [OF assms ok p] have u: "struct_unpack fc fmt bs = Inr xs"
    and len: "length bs = struct_calcsize fmt" by simp_all
  have slice: "take (struct_calcsize fmt) (drop (i * vds + off) (X @ E @ Y)) = bs"
    using Cons.prems(4) len by (simp add: E)
  have step: "load_vertex_attr fc vds (X @ E @ Y) i vtx a = Inr (vtx(decl_usage a := Some xs))"
    using fl o f slice u
    by (simp add: load_vertex_attr_def VertexAttribute_USED_def VertexAttribute_UNUSED_def Let_def)
  have rest: "efold (load_vertex_attr fc vds ((X @ bs) @ E' @ Y) i) (vtx(decl_usage a := Some xs)) attrs
       = Inr (\<lambda>u. if u \<in> decl_usage ` set attrs then v u else (vtx(decl_usage a := Some xs)) u)"
  proof (rule Cons.IH [OF l e])
    show "\<forall>a \<in> set attrs. \<forall>fmt xs. get_struct_fmt (decl_type a) = Inr fmt
            \<longrightarrow> v (decl_usage a) = Some xs \<longrightarrow> value_ok fc (struct_items fmt) xs"
      using Cons.prems(3) by simp
    show "length (X @ bs) = i * vds + (off + struct_calcsize fmt)"
      using Cons.prems(4) len by simp
  qed
  have eq: "(\<lambda>u. if u \<in> decl_usage ` set attrs then v u else (vtx(decl_usage a := Some xs)) u)
     = (\<lambda>u. if u \<in> decl_usage ` set (a # attrs) then v u else vtx u)"
    using xs by (auto simp: fun_eq_iff)
  have rest': "efold (load_vertex_attr fc vds (X @ E @ Y) i) (vtx(decl_usage a := Some xs)) attrs
       = Inr (\<lambda>u. if u \<in> decl_usage ` set (a # attrs) then v u else vtx u)"
    using rest unfolding eq by (simp add: E)
  show ?case using step rest' by simp
qed

lemma decode_vertices:
  assumes "\<forall>x. length (pack_f fc x) = 4" and "laid_out 0 attrs" and "vds = table_size attrs"
  shows "encode_vertices fc attrs vs = Inr E \<Longrightarrow> \<forall>v \<in> set vs. vertex_ok fc attrs v \<Longrightarrow>
     length X = k * vds \<Longrightarrow>
     emap (\<lambda>i. efold (load_vertex_attr fc vds (X @ E @ Y) i) Vertex_init attrs)
       [k ..< k + length vs] = Inr vs"
proof (induction vs arbitrary: E X k)
  case Nil
  then show ?case by simp
next
  case (Cons v vs)
  from Cons.prems(1) obtain Ev E' where ev: "encode_vertex fc attrs v = Inr Ev"
    and es: "encode_vertices fc attrs vs = Inr E'" and E: "E = Ev @ E'"
    by (auto simp: encode_vertices_def seq_out_Cons_Inr simp del: seq_out.simps(2))
  from Cons.prems(2) have ok: "vertex_ok fc attrs v" and oks: "\<forall>v \<in> set vs. vertex_ok fc attrs v"
    by simp_all
  have lev: "length Ev = vds"
    using encode_vertex_length [OF assms(1,2) ev] assms(3) by simp
  have "efold (load_vertex_attr fc vds (X @ Ev @ (E' @ Y)) k) Vertex_init attrs
      = Inr (\<lambda>u. if u \<in> decl_usage ` set attrs then v u else Vertex_init u)"
  proof (rule decode_vertex [OF assms(1,2) ev])
    show "\<forall>a \<in> set attrs. \<forall>fmt xs. get_struct_fmt (decl_type a) = Inr fmt
            \<longrightarrow> v (decl_usage a) = Some xs \<longrightarrow> value_ok fc (struct_items fmt) xs"
      using ok by (simp add: vertex_ok_def)
    show "length X = k * vds + 0" using Cons.prems(3) by simp
  qed
  moreover have "(\<lambda>u. if u \<in> decl_usage ` set attrs then v u else Vertex_init u) = v"
  proof (rule ext)
    fix u
    from ok have "v u \<noteq> None \<longrightarrow> u \<in> decl_usage ` set attrs" by (simp add: vertex_ok_def)
    then show "(if u \<in> decl_usage ` set attrs then v u else Vertex_init u) = v u"
      by (cases "v u") (auto simp: Vertex_init_def)
  qed
  ultimately have first: "efold (load_vertex_attr fc vds (X @ E @ Y) k) Vertex_init attrs = Inr v"
    by (simp add: E)
  have "emap (\<lambda>i. efold (load_vertex_attr fc vds ((X @ Ev) @ E' @ Y) i) Vertex_init attrs)
       [Suc k ..< Suc k + length vs] = Inr vs"
  proof (rule Cons.IH [OF es oks])
    show "length (X @ Ev) = Suc k * vds" using Cons.prems(3) lev by simp
  qed
  then have rest: "emap (\<lambda>i. efold (load_vertex_attr fc vds (X @ E @ Y) i) Vertex_init attrs)
       [Suc k ..< Suc k + length vs] = Inr vs"
    by (simp add: E)
  have "[k ..< k + length (v # vs)] = k # [Suc k ..< Suc k + length vs]"
    by (simp add: upt_rec)
  then show ?case using first rest by simp
qed

lemma encode_vertices_length:
  assumes "\<forall>x. length (pack_f fc x) = 4" and "laid_out 0 attrs"
  shows "encode_vertices fc attrs vs = Inr E \<Longrightarrow> length E = table_size attrs * length vs"
proof (induction vs arbitrary: E)
  case Nil
  then show ?case by (simp add: encode_vertices_def)
next
  case (Cons v vs)
  from Cons.prems obtain Ev E' where ev: "encode_vertex fc attrs v = Inr Ev"
    and es: "encode_vertices fc attrs vs = Inr E'" and E: "E = Ev @ E'"
    by (auto simp: encode_vertices_def seq_out_Cons_Inr simp del: seq_out.simps(2))
  from Cons.IH [OF es] encode_vertex_length [OF assms ev] show ?case by (simp add: E)
qed

section \<open>The buffers of an export\<close>

lemma emap_st_rel:
  assumes "\<And>x s y t. x \<in> set xs \<Longrightarrow> Inv s \<Longrightarrow> g x s = Inr (y, t) \<Longrightarrow> Inv t \<and> ext s t \<and> P x y t"
    and "\<And>x y s t. P x y s \<Longrightarrow> ext s t \<Longrightarrow> P x y t"
    and "\<And>s. ext s s" and "\<And>s t u. ext s t \<Longrightarrow> ext t u \<Longrightarrow> ext s u"
  shows "emap_st g xs s = Inr (ys, t) \<Longrightarrow> Inv s \<Longrightarrow>
     Inv t \<and> ext s t \<and> list_all2 (\<lambda>x y. P x y t) xs ys"
  using assms(1)
proof (induction xs arbitrary: s ys)
  case Nil
  then show ?case using assms(3) by simp
next
  case (Cons x xs)
  from Cons.prems(1) obtain y s1 ys' where g: "g x s = Inr (y, s1)"
    and r: "emap_st g xs s1 = Inr (ys', t)" and ys: "ys = y # ys'"
    by (auto simp: ebind_eq_Inr)
  from Cons.prems(3) [OF _ Cons.prems(2) g] have 1: "Inv s1" "ext s s1" "P x y s1" by simp_all
  have "Inv t \<and> ext s1 t \<and> list_all2 (\<lambda>x y. P x y t) xs ys'"
  proof (rule Cons.IH [OF r 1(1)])
    fix x' s' y' t'
    assume "x' \<in> set xs" "Inv s'" "g x' s' = Inr (y', t')"
    then show "Inv t' \<and> ext s' t' \<and> P x' y' t'"
      using Cons.prems(3) [of x' s' y' t'] by simp
  qed
  then show ?case using 1 assms(2,4) ys by blast
qed

lemma emap_st_any:
  assumes "\<And>x s y t. x \<in> set xs \<Longrightarrow> g x s = Inr (y, t) \<Longrightarrow> h t = (h s \<or> b x)"
  shows "emap_st g xs s = Inr (ys, t) \<Longrightarrow> h t = (h s \<or> (\<exists>x \<in> set xs. b x))"
  using assms
proof (induction xs arbitrary: s ys)
  case Nil
  then show ?case by simp
next
  case (Cons x xs)
  from Cons.prems(1) obtain y s1 ys' where g: "g x s = Inr (y, s1)"
    and r: "emap_st g xs s1 = Inr (ys', t)"
    by (auto simp: ebind_eq_Inr)
  have 1: "h s1 = (h s \<or> b x)" using Cons.prems(2) [of x s y s1] g by simp
  have "h t = (h s1 \<or> (\<exists>x \<in> set xs. b x))"
  proof (rule Cons.IH [OF r])
    fix x' s' y' t'
    assume "x' \<in> set xs" "g x' s' = Inr (y', t')"
    then show "h t' = (h s' \<or> b x')" using Cons.prems(2) [of x' s' y' t'] by simp
  qed
  with 1 show ?case by auto
qed

lemma emap_st_sum:
  fixes mu :: "'s \<Rightarrow> nat"
  assumes "\<And>x s y t. x \<in> set xs \<Longrightarrow> g x s = Inr (y, t) \<Longrightarrow> mu t = mu s + w x"
  shows "emap_st g xs s = Inr (ys, t) \<Longrightarrow> mu t = mu s + sum_list (map w xs)"
  using assms
proof (induction xs arbitrary: s ys)
  case Nil
  then show ?case by simp
next
  case (Cons x xs)
  from Cons.prems(1) obtain y s1 ys' where g: "g x s = Inr (y, s1)"
    and r: "emap_st g xs s1 = Inr (ys', t)"
    by (auto simp: ebind_eq_Inr)
  have 1: "mu s1 = mu s + w x" using Cons.prems(2) [of x s y s1] g by simp
  have "mu t = mu s1 + sum_list (map w xs)"
  proof (rule Cons.IH [OF r])
    fix x' s' y' t'
    assume "x' \<in> set xs" "g x' s' = Inr (y', t')"
    then show "mu t' = mu s' + w x'" using Cons.prems(2) [of x' s' y' t'] by simp
  qed
  with 1 show ?case by simp
qed

lemma buffers_extend_refl: "buffers_extend s s"
  by (cases s) (auto simp: buffers_extend_def)

lemma buffers_extend_trans: "buffers_extend s t \<Longrightarrow> buffers_extend t u \<Longrightarrow> buffers_extend s u"
  by (cases s; cases t; cases u) (auto simp: buffers_extend_def)

lemma placed_append: "placed fc attrs vb ib m \<Longrightarrow> placed fc attrs (vb @ V) (ib @ Y) m"
proof -
  assume "placed fc attrs vb ib m"
  then obtain vs "is" E A B C X D where h:
    "m_vstart m = Some vs" "m_vnum m = Some (length (vertices m))"
    "m_istart m = Some is" "m_inum m = Some (length (faces m) * 3)"
    "encode_vertices fc attrs (vertices m) = Inr E"
    "vb = A @ E @ B" "length A = vs * table_size attrs"
    "ib = C @ X @ D" "length C = is" "indices_of m X"
    unfolding placed_def by blast
  have "vb @ V = A @ E @ (B @ V)" "ib @ Y = C @ X @ (D @ Y)"
    using h by simp_all
  with h show ?thesis unfolding placed_def by blast
qed

lemma placed_in_extend: "placed_in fc attrs s m \<Longrightarrow> buffers_extend s t \<Longrightarrow> placed_in fc attrs t m"
  by (cases s; cases t) (auto simp: placed_in_def buffers_extend_def placed_append)

lemma load_face_at:
  "load_face (C @ v1 # v2 # v3 # R) (length C) = Inr (v1, v2, v3)"
  by (simp add: load_face_def index_at_def nth_append)

lemma range3_faces: "range3 a (a + n * 3) = map (\<lambda>k. a + 3 * k) [0 ..< n]"
proof -
  have "(n * 3 + 2) div 3 = n" by simp
  then show ?thesis by (simp add: range3_def)
qed

lemma decode_faces_from:
  "emap (load_face (C @ concat (map face_indices fs) @ D)) (map (\<lambda>k. length C + 3 * k) [0 ..< length fs])
     = Inr fs"
proof (induction fs arbitrary: C)
  case Nil
  then show ?case by simp
next
  case (Cons f fs)
  obtain v1 v2 v3 where f: "f = (v1, v2, v3)" by (cases f) auto
  have m: "map (\<lambda>k. length C + 3 * k) [0 ..< length (f # fs)]
     = length C # map (\<lambda>k. length (C @ [v1, v2, v3]) + 3 * k) [0 ..< length fs]"
    by (simp add: map_upt_Suc del: upt_Suc)
  have b: "C @ concat (map face_indices (f # fs)) @ D
     = (C @ [v1, v2, v3]) @ concat (map face_indices fs) @ D"
    by (simp add: f face_indices_def)
  have 1: "load_face (C @ concat (map face_indices (f # fs)) @ D) (length C) = Inr f"
    using load_face_at [of C v1 v2 v3 "concat (map face_indices fs) @ D"]
    by (simp add: f face_indices_def)
  show ?case
    unfolding m using 1 Cons.IH [of "C @ [v1, v2, v3]"] unfolding b by simp
qed

lemma placed_load_vertices:
  assumes "\<forall>x. length (pack_f fc x) = 4" and "laid_out 0 attrs"
    and "placed fc attrs vb ib m" and "\<forall>v \<in> set (vertices m). vertex_ok fc attrs v"
    and "m_vstart m' = m_vstart m" and "m_vnum m' = m_vnum m"
  shows "load_vertices fc m' (table_size attrs) attrs vb = Inr (m'\<lparr>vertices := vertices m\<rparr>)"
proof -
  from assms(3) obtain vs E A B where h:
    "m_vstart m = Some vs" "m_vnum m = Some (length (vertices m))"
    "encode_vertices fc attrs (vertices m) = Inr E"
    "vb = A @ E @ B" "length A = vs * table_size attrs"
    unfolding placed_def by blast
  from decode_vertices [OF assms(1,2) refl h(3) assms(4) h(5), of B]
  show ?thesis by (simp add: load_vertices_def assms(5,6) h)
qed

lemma placed_load_faces:
  assumes "placed fc attrs vb ib m" and "\<not> uses_alpha_blend m"
    and "m_istart m' = m_istart m" and "m_inum m' = m_inum m"
  shows "Material_load_faces m' ib = Inr (m'\<lparr>faces := faces m\<rparr>)"
proof -
  from assms(1,2) obtain "is" C D where h:
    "m_istart m = Some is" "m_inum m = Some (length (faces m) * 3)"
    "ib = C @ concat (map face_indices (faces m)) @ D" "length C = is"
    unfolding placed_def indices_of_def by auto
  from decode_faces_from [of C "faces m" D] h
  show ?thesis by (simp add: Material_load_faces_def assms(3,4) range3_faces)
qed

lemma length_face_blocks:
  "length (concat (map face_indices fs)) = length fs * 3"
  by (induction fs) (auto simp: face_indices_def)

lemma plane_block_ordering:
  assumes "length mids = length fs"
  shows "\<exists>fs'. mset fs' = mset fs \<and> plane_block ar fs mids plane = concat (map face_indices fs')"
proof -
  from plane_block_sorted [OF assms, of ar plane] obtain ps where
    1: "plane_block ar fs mids plane = concat (map (\<lambda>(d, face). face_indices face) ps)"
    and 2: "mset ps = mset (zip (map (face_dist ar plane) mids) fs)" by blast
  have "mset (map snd ps) = image_mset snd (mset ps)" by simp
  also have "\<dots> = mset (map snd (zip (map (face_dist ar plane) mids) fs))" by (simp add: 2)
  also have "\<dots> = mset fs" using assms by simp
  finally have a: "mset (map snd ps) = mset fs" .
  have "map (\<lambda>(d, face). face_indices face) ps = map face_indices (map snd ps)"
    by (simp add: case_prod_beta comp_def)
  with 1 a show ?thesis by metis
qed

lemma save_faces_alpha_blend_fields:
  assumes "save_faces_alpha_blend ar self ib istart = Inr (self', ib', n)"
  shows "\<exists>mn mx. self' = self\<lparr>m_min := Some mn, m_max := Some mx,
            m_inum := Some (length (faces self) * 3), m_istart := Some istart\<rparr>"
proof -
  from assms obtain self1 planes where gp: "get_sorting_planes ar self = Inr (self1, planes)"
    and s: "self' = self1\<lparr>m_inum := Some (length (faces self1) * 3), m_istart := Some istart\<rparr>"
    by (auto simp: save_faces_alpha_blend_def Let_def ebind_eq_Inr)
  from gp obtain mn mx where "Material_calc_bounds self = Inr (self1, mn, mx)"
    by (auto simp: get_sorting_planes_def Let_def ebind_eq_Inr)
  from Material_calc_bounds_frame [OF this] have "self1 = self\<lparr>m_min := Some mn, m_max := Some mx\<rparr>" .
  with s have "self' = self\<lparr>m_min := Some mn, m_max := Some mx,
            m_inum := Some (length (faces self) * 3), m_istart := Some istart\<rparr>" by simp
  then show ?thesis by blast
qed

lemma length_concat_const:
  "\<forall>b \<in> set bs. length b = k \<Longrightarrow> length (concat bs) = length bs * k"
  by (induction bs) simp_all

lemma alpha_blend_indices:
  assumes "save_faces_alpha_blend ar self ib istart = Inr (self', ib', n)"
  shows "\<exists>blocks. ib' = ib @ concat blocks \<and> face_set_blocks self blocks
           \<and> length (concat blocks) = length (faces self) * 3 * ALPHA_BLEND_FACE_SET_COUNT
           \<and> n = length (faces self) * 3 * ALPHA_BLEND_FACE_SET_COUNT"
proof -
  from save_faces_alpha_blend_out [OF assms] obtain planes mids where
    len: "length planes = 8"
    and m: "emap (face_center ar (vertices self)) (faces self) = Inr mids"
    and ib': "ib' = ib @ concat (map (plane_block ar (faces self) mids) planes)"
    and n: "n = length (faces self) * 3 * 8" by blast
  from emap_length [OF m] have lm: "length mids = length (faces self)" .
  define blocks where "blocks = map (plane_block ar (faces self) mids) planes"
  have lb: "length blocks = 8" by (simp add: blocks_def len)
  have b: "\<forall>b \<in> set blocks. \<exists>fs. mset fs = mset (faces self) \<and> b = concat (map face_indices fs)"
    unfolding blocks_def using plane_block_ordering [OF lm] by auto
  have "\<forall>b \<in> set blocks. length b = length (faces self) * 3"
  proof
    fix b assume "b \<in> set blocks"
    with b obtain fs where fs: "mset fs = mset (faces self)" and bf: "b = concat (map face_indices fs)"
      by blast
    from fs have "length fs = length (faces self)" by (rule mset_eq_length)
    then show "length b = length (faces self) * 3"
      using length_face_blocks [of fs] bf by simp
  qed
  from length_concat_const [OF this] lb
  have lc: "length (concat blocks) = length (faces self) * 3 * 8" by simp
  have 1: "ib' = ib @ concat blocks" using ib' by (simp add: blocks_def)
  have 2: "face_set_blocks self blocks"
    unfolding face_set_blocks_def ALPHA_BLEND_FACE_SET_COUNT_def using lb b by blast
  from 1 2 lc n show ?thesis
    unfolding ALPHA_BLEND_FACE_SET_COUNT_def by blast
qed

lemma save_vertices_out:
  assumes "save_vertices fc m attrs vb vs = Inr (m1, vb', vnum)"
  shows "\<exists>E. encode_vertices fc attrs (vertices m) = Inr E
     \<and> m1 = m\<lparr>m_vstart := Some vs, m_vnum := Some (length (vertices m))\<rparr>
     \<and> vb' = vb @ E \<and> vnum = length (vertices m)"
proof (cases "encode_vertices fc attrs (vertices m)")
  case (Inl e)
  with assms show ?thesis by (simp add: save_vertices_def Let_def save_vertices_loop)
next
  case (Inr E)
  with assms have "m\<lparr>m_vstart := Some vs, m_vnum := Some (length (vertices m))\<rparr> = m1"
    "vb @ E = vb'" "length (vertices m) = vnum"
    by (auto simp: save_vertices_def Let_def save_vertices_loop)
  with Inr show ?thesis by blast
qed

lemma export_material_Inr:
  assumes "export_material ar fc attrs m (vb, ib, ha, vs, is) = Inr (m2, st')"
  shows "\<exists>m1 vb' vnum ib' inum.
     save_vertices fc m attrs vb vs = Inr (m1, vb', vnum)
     \<and> mat_save_faces ar m1 ib is = Inr (m2, ib', inum)
     \<and> st' = (vb', ib', (ha \<or> uses_alpha_blend m), vs + vnum, is + inum)"
  using assms unfolding export_material_def Let_def uses_alpha_blend_def
  by (simp add: ebind_eq_Inr split: prod.splits if_splits) blast+

lemma export_material_step:
  assumes L: "\<forall>x. length (pack_f fc x) = 4" and lo: "laid_out 0 attrs"
    and ex: "export_material ar fc attrs m (vb, ib, ha, vs, is) = Inr (m2, st')"
  shows "\<exists>E X. st' = (vb @ E, ib @ X, (ha \<or> uses_alpha_blend m), vs + length (vertices m),
                   is + index_count m)
     \<and> encode_vertices fc attrs (vertices m) = Inr E
     \<and> length E = table_size attrs * length (vertices m)
     \<and> length X = index_count m \<and> indices_of m X
     \<and> same_content m2 m \<and> m_vstart m2 = Some vs \<and> m_vnum m2 = Some (length (vertices m))
     \<and> m_istart m2 = Some is \<and> m_inum m2 = Some (length (faces m) * 3)"
proof -
  let ?m1 = "m\<lparr>m_vstart := Some vs, m_vnum := Some (length (vertices m))\<rparr>"
  from export_material_Inr [OF ex] obtain m1 vb' vnum ib' inum where
    sv: "save_vertices fc m attrs vb vs = Inr (m1, vb', vnum)"
    and sf: "mat_save_faces ar m1 ib is = Inr (m2, ib', inum)"
    and st': "st' = (vb', ib', (ha \<or> uses_alpha_blend m), vs + vnum, is + inum)"
    by blast
  from save_vertices_out [OF sv] obtain E where E: "encode_vertices fc attrs (vertices m) = Inr E"
    and m1: "m1 = ?m1" and vb': "vb' = vb @ E" and vnum: "vnum = length (vertices m)"
    by blast
  note lE = encode_vertices_length [OF L lo E]
  show ?thesis
  proof (cases "uses_alpha_blend m")
    case True
    then have sfa: "save_faces_alpha_blend ar ?m1 ib is = Inr (m2, ib', inum)"
      using sf by (simp add: m1 mat_save_faces_def MaterialWithTransparency_save_faces_def
          uses_alpha_blend_def)
    from alpha_blend_indices [OF sfa]
    obtain blocks where ib': "ib' = ib @ concat blocks"
      and fb: "face_set_blocks ?m1 blocks"
      and lb0: "length (concat blocks) = length (faces ?m1) * 3 * ALPHA_BLEND_FACE_SET_COUNT"
      and n0: "inum = length (faces ?m1) * 3 * ALPHA_BLEND_FACE_SET_COUNT"
      by blast
    from save_faces_alpha_blend_fields [OF sfa]
    obtain mn mx where m2: "m2 = ?m1\<lparr>m_min := Some mn, m_max := Some mx,
            m_inum := Some (length (faces ?m1) * 3), m_istart := Some is\<rparr>"
      by blast
    from lb0 n0 have lb: "length (concat blocks) = length (faces m) * 3 * ALPHA_BLEND_FACE_SET_COUNT"
      and n: "inum = length (faces m) * 3 * ALPHA_BLEND_FACE_SET_COUNT" by simp_all
    have "indices_of m (concat blocks)"
      using fb True by (auto simp: indices_of_def face_set_blocks_def)
    then show ?thesis
      using True E lE lb
      by (intro exI [of _ E] exI [of _ "concat blocks"])
        (simp add: st' vb' ib' vnum n index_count_def m2 same_content_def)
  next
    case False
    then have "Material_save_faces ?m1 ib is = (m2, ib', inum)"
      using sf
      by (cases "mat_class m")
        (simp_all add: m1 mat_save_faces_def MaterialWithTransparency_save_faces_def
          uses_alpha_blend_def)
    moreover have "Material_save_faces ?m1 ib is =
       (?m1\<lparr>m_inum := Some (length (faces m) * 3), m_istart := Some is\<rparr>,
        ib @ concat (map face_indices (faces m)), length (faces m) * 3)"
      by (simp add: Material_save_faces_def Let_def)
    ultimately have "(m2, ib', inum) =
       (?m1\<lparr>m_inum := Some (length (faces m) * 3), m_istart := Some is\<rparr>,
        ib @ concat (map face_indices (faces m)), length (faces m) * 3)"
      by metis
    then have m2: "m2 = ?m1\<lparr>m_inum := Some (length (faces m) * 3), m_istart := Some is\<rparr>"
      and ib': "ib' = ib @ concat (map face_indices (faces m))"
      and n: "inum = length (faces m) * 3"
      by blast+
    show ?thesis
      using False E lE
      by (intro exI [of _ E] exI [of _ "concat (map face_indices (faces m))"])
        (simp add: st' vb' ib' vnum n index_count_def m2 same_content_def indices_of_def
          length_face_blocks)
  qed
qed

lemma content_fields [simp]:
  "mat_class (content m) = mat_class m" "fxfile (content m) = fxfile m"
  "technique (content m) = technique m" "maps (content m) = maps m"
  "vertices (content m) = vertices m" "faces (content m) = faces m"
  by (simp_all add: content_def Material_init_def)

lemma content_uses_alpha_blend [simp]: "uses_alpha_blend (content m) = uses_alpha_blend m"
  by (simp add: content_def Material_init_def uses_alpha_blend_def)

lemma same_content_content: "same_content m2 m \<Longrightarrow> content m2 = content m"
  by (simp add: content_def same_content_def)

lemma content_eq_fields:
  assumes "content m2 = content m"
  shows "mat_class m2 = mat_class m" "vertices m2 = vertices m" "faces m2 = faces m"
    "uses_alpha_blend m2 = uses_alpha_blend m" "fxfile m2 = fxfile m"
    "technique m2 = technique m" "maps m2 = maps m"
proof -
  show "mat_class m2 = mat_class m" using arg_cong [OF assms, of mat_class] by simp
  show "vertices m2 = vertices m" using arg_cong [OF assms, of vertices] by simp
  show "faces m2 = faces m" using arg_cong [OF assms, of faces] by simp
  show "uses_alpha_blend m2 = uses_alpha_blend m" using arg_cong [OF assms, of uses_alpha_blend] by simp
  show "fxfile m2 = fxfile m" using arg_cong [OF assms, of fxfile] by simp
  show "technique m2 = technique m" using arg_cong [OF assms, of technique] by simp
  show "maps m2 = maps m" using arg_cong [OF assms, of maps] by simp
qed

lemma indices_of_content:
  assumes "content m2 = content m"
  shows "indices_of m2 X = indices_of m X"
  using content_eq_fields(3,4) [OF assms] by (simp add: indices_of_def face_set_blocks_def)

lemma list_all2_map_eq:
  "list_all2 (\<lambda>x y. f y = f x \<and> Q y) xs ys \<Longrightarrow> map f ys = map f xs \<and> (\<forall>y \<in> set ys. Q y)"
  by (induction xs ys rule: list_all2_induct) simp_all

lemma in_all_materials:
  "m \<in> set (all_materials gs) \<longleftrightarrow> (\<exists>g \<in> set gs. \<exists>l \<in> set (lods g). m \<in> set (materials l))"
  by (auto simp: all_materials_def)

lemma all_materials_content:
  "all_materials (map geom_content gs) = map content (all_materials gs)"
  by (simp add: all_materials_def geom_content_def lod_content_def Lod_init_def map_concat comp_def)

lemma export_material_rel:
  assumes L: "\<forall>x. length (pack_f fc x) = 4" and lo: "laid_out 0 attrs"
    and ok: "buffers_ok (table_size attrs) s"
    and ex: "export_material ar fc attrs m s = Inr (m2, t)"
  shows "buffers_ok (table_size attrs) t \<and> buffers_extend s t
     \<and> content m2 = content m \<and> placed_in fc attrs t m2"
proof -
  obtain vb ib ha vs "is" where s: "s = (vb, ib, ha, vs, is)" by (cases s) auto
  from export_material_step [OF L lo ex [unfolded s]] obtain E X where
    t: "t = (vb @ E, ib @ X, (ha \<or> uses_alpha_blend m), vs + length (vertices m), is + index_count m)"
    and E: "encode_vertices fc attrs (vertices m) = Inr E"
    and lE: "length E = table_size attrs * length (vertices m)"
    and lX: "length X = index_count m" and iX: "indices_of m X"
    and sc: "same_content m2 m" and f: "m_vstart m2 = Some vs"
      "m_vnum m2 = Some (length (vertices m))" "m_istart m2 = Some is"
      "m_inum m2 = Some (length (faces m) * 3)"
    by blast
  from ok have lv: "length vb = vs * table_size attrs" and li: "length ib = is"
    by (simp_all add: buffers_ok_def s)
  note c = same_content_content [OF sc]
  have 1: "buffers_ok (table_size attrs) t"
    by (simp add: buffers_ok_def t lv li lE lX algebra_simps)
  have 2: "buffers_extend s t" by (simp add: buffers_extend_def s t)
  have v: "vertices m2 = vertices m" and fa: "faces m2 = faces m"
    using content_eq_fields [OF c] by simp_all
  have "placed fc attrs (vb @ E) (ib @ X) m2"
    unfolding placed_def
    apply (rule exI [of _ vs], rule exI [of _ "is"], rule exI [of _ E], rule exI [of _ vb])
    apply (rule exI [of _ "[]"], rule exI [of _ ib], rule exI [of _ X], rule exI [of _ "[]"])
    using f E iX lv li indices_of_content [OF c, of X] by (simp add: v fa)
  then have 3: "placed_in fc attrs t m2" by (simp add: placed_in_def t)
  from 1 2 c 3 show ?thesis by blast
qed

lemma export_material_flag:
  assumes "export_material ar fc attrs m s = Inr (m2, t)"
  shows "fst (snd (snd t)) = (fst (snd (snd s)) \<or> uses_alpha_blend m)"
proof -
  obtain vb ib ha vs "is" where s: "s = (vb, ib, ha, vs, is)" by (cases s) auto
  from export_material_Inr [OF assms [unfolded s]] show ?thesis by (auto simp: s)
qed

lemma export_lod_buffers_Inr:
  assumes "export_lod_buffers ar fc attrs lod s = Inr (lod2, t)"
  shows "\<exists>mats. emap_st (export_material ar fc attrs) (materials lod) s = Inr (mats, t)
        \<and> lod2 = lod\<lparr>materials := mats\<rparr>"
proof (cases "emap_st (export_material ar fc attrs) (materials lod) s")
  case (Inl e)
  with assms show ?thesis by (simp add: export_lod_buffers_def)
next
  case (Inr r)
  obtain mats t' where r: "r = (mats, t')" by (cases r) auto
  with assms Inr show ?thesis by (auto simp: export_lod_buffers_def)
qed

lemma export_geom_buffers_Inr:
  assumes "export_geom_buffers ar fc attrs g s = Inr (g2, t)"
  shows "\<exists>ls. emap_st (export_lod_buffers ar fc attrs) (lods g) s = Inr (ls, t)
        \<and> g2 = g\<lparr>lods := ls\<rparr>"
proof (cases "emap_st (export_lod_buffers ar fc attrs) (lods g) s")
  case (Inl e)
  with assms show ?thesis by (simp add: export_geom_buffers_def)
next
  case (Inr r)
  obtain ls t' where r: "r = (ls, t')" by (cases r) auto
  with assms Inr show ?thesis by (auto simp: export_geom_buffers_def)
qed

lemma export_lod_rel:
  assumes L: "\<forall>x. length (pack_f fc x) = 4" and lo: "laid_out 0 attrs"
    and ok: "buffers_ok (table_size attrs) s"
    and ex: "export_lod_buffers ar fc attrs lod s = Inr (lod2, t)"
  shows "buffers_ok (table_size attrs) t \<and> buffers_extend s t
     \<and> lod_content lod2 = lod_content lod
     \<and> (\<forall>m \<in> set (materials lod2). placed_in fc attrs t m)"
proof -
  from ex obtain mats where e: "emap_st (export_material ar fc attrs) (materials lod) s = Inr (mats, t)"
    and l2: "lod2 = lod\<lparr>materials := mats\<rparr>"
    using export_lod_buffers_Inr by blast
  have r: "buffers_ok (table_size attrs) t \<and> buffers_extend s t
     \<and> list_all2 (\<lambda>m m2. content m2 = content m \<and> placed_in fc attrs t m2) (materials lod) mats"
  proof (rule emap_st_rel [where g = "export_material ar fc attrs" and Inv = "buffers_ok (table_size attrs)"
        and ext = buffers_extend and P = "\<lambda>m m2 t. content m2 = content m \<and> placed_in fc attrs t m2",
        OF _ _ _ _ e ok])
    fix x s y t
    assume "buffers_ok (table_size attrs) s" "export_material ar fc attrs x s = Inr (y, t)"
    from export_material_rel [OF L lo this]
    show "buffers_ok (table_size attrs) t \<and> buffers_extend s t
       \<and> content y = content x \<and> placed_in fc attrs t y" .
  next
    fix x y :: Material and s t
    assume "content y = content x \<and> placed_in fc attrs s y" "buffers_extend s t"
    then show "content y = content x \<and> placed_in fc attrs t y"
      using placed_in_extend by blast
  next
    show "\<And>s. buffers_extend s s" by (rule buffers_extend_refl)
  next
    show "\<And>s t u. buffers_extend s t \<Longrightarrow> buffers_extend t u \<Longrightarrow> buffers_extend s u"
      by (rule buffers_extend_trans)
  qed
  from r list_all2_map_eq [of content "placed_in fc attrs t" "materials lod" mats]
  have "map content mats = map content (materials lod)" "\<forall>m \<in> set mats. placed_in fc attrs t m"
    by blast+
  with r show ?thesis by (simp add: l2 lod_content_def)
qed

lemma export_geom_rel:
  assumes L: "\<forall>x. length (pack_f fc x) = 4" and lo: "laid_out 0 attrs"
    and ok: "buffers_ok (table_size attrs) s"
    and ex: "export_geom_buffers ar fc attrs g s = Inr (g2, t)"
  shows "buffers_ok (table_size attrs) t \<and> buffers_extend s t
     \<and> geom_content g2 = geom_content g
     \<and> (\<forall>l \<in> set (lods g2). \<forall>m \<in> set (materials l). placed_in fc attrs t m)"
proof -
  from ex obtain ls where e: "emap_st (export_lod_buffers ar fc attrs) (lods g) s = Inr (ls, t)"
    and g2: "g2 = g\<lparr>lods := ls\<rparr>"
    using export_geom_buffers_Inr by blast
  have r: "buffers_ok (table_size attrs) t \<and> buffers_extend s t
     \<and> list_all2 (\<lambda>l l2. lod_content l2 = lod_content l
            \<and> (\<forall>m \<in> set (materials l2). placed_in fc attrs t m)) (lods g) ls"
  proof (rule emap_st_rel [where g = "export_lod_buffers ar fc attrs" and Inv = "buffers_ok (table_size attrs)"
        and ext = buffers_extend
        and P = "\<lambda>l l2 t. lod_content l2 = lod_content l
            \<and> (\<forall>m \<in> set (materials l2). placed_in fc attrs t m)",
        OF _ _ _ _ e ok])
    fix x s y t
    assume "buffers_ok (table_size attrs) s" "export_lod_buffers ar fc attrs x s = Inr (y, t)"
    from export_lod_rel [OF L lo this]
    show "buffers_ok (table_size attrs) t \<and> buffers_extend s t
       \<and> lod_content y = lod_content x \<and> (\<forall>m \<in> set (materials y). placed_in fc attrs t m)" .
  next
    fix x y :: Lod and s t
    assume "lod_content y = lod_content x \<and> (\<forall>m \<in> set (materials y). placed_in fc attrs s m)"
      "buffers_extend s t"
    then show "lod_content y = lod_content x \<and> (\<forall>m \<in> set (materials y). placed_in fc attrs t m)"
      using placed_in_extend by blast
  next
    show "\<And>s. buffers_extend s s" by (rule buffers_extend_refl)
  next
    show "\<And>s t u. buffers_extend s t \<Longrightarrow> buffers_extend t u \<Longrightarrow> buffers_extend s u"
      by (rule buffers_extend_trans)
  qed
  from r list_all2_map_eq [of lod_content "\<lambda>l. \<forall>m \<in> set (materials l). placed_in fc attrs t m" "lods g" ls]
  have "map lod_content ls = map lod_content (lods g)"
    "\<forall>l \<in> set ls. \<forall>m \<in> set (materials l). placed_in fc attrs t m"
    by blast+
  with r show ?thesis by (simp add: g2 geom_content_def)
qed

lemma export_buffers_rel:
  assumes L: "\<forall>x. length (pack_f fc x) = 4" and lo: "laid_out 0 attrs"
    and ex: "export_buffers ar fc attrs gs = Inr (gs1, vb, ib, ha, vs, is)"
  shows "length vb = vs * table_size attrs \<and> length ib = is
     \<and> map geom_content gs1 = map geom_content gs
     \<and> (\<forall>m \<in> set (all_materials gs1). placed fc attrs vb ib m)"
proof -
  let ?t = "(vb, ib, ha, vs, is)"
  have ok: "buffers_ok (table_size attrs) ([], [], False, 0, 0)" by (simp add: buffers_ok_def)
  from ex have e: "emap_st (export_geom_buffers ar fc attrs) gs ([], [], False, 0, 0) = Inr (gs1, ?t)"
    by (simp add: export_buffers_def)
  have r: "buffers_ok (table_size attrs) ?t \<and> buffers_extend ([], [], False, 0, 0) ?t
     \<and> list_all2 (\<lambda>g g2. geom_content g2 = geom_content g
            \<and> (\<forall>l \<in> set (lods g2). \<forall>m \<in> set (materials l). placed_in fc attrs ?t m)) gs gs1"
  proof (rule emap_st_rel [where g = "export_geom_buffers ar fc attrs" and Inv = "buffers_ok (table_size attrs)"
        and ext = buffers_extend
        and P = "\<lambda>g g2 t. geom_content g2 = geom_content g
            \<and> (\<forall>l \<in> set (lods g2). \<forall>m \<in> set (materials l). placed_in fc attrs t m)",
        OF _ _ _ _ e ok])
    fix x s y t
    assume "buffers_ok (table_size attrs) s" "export_geom_buffers ar fc attrs x s = Inr (y, t)"
    from export_geom_rel [OF L lo this]
    show "buffers_ok (table_size attrs) t \<and> buffers_extend s t
       \<and> geom_content y = geom_content x
       \<and> (\<forall>l \<in> set (lods y). \<forall>m \<in> set (materials l). placed_in fc attrs t m)" .
  next
    fix x y :: Geom and s t
    assume "geom_content y = geom_content x
       \<and> (\<forall>l \<in> set (lods y). \<forall>m \<in> set (materials l). placed_in fc attrs s m)"
      "buffers_extend s t"
    then show "geom_content y = geom_content x
       \<and> (\<forall>l \<in> set (lods y). \<forall>m \<in> set (materials l). placed_in fc attrs t m)"
      using placed_in_extend by blast
  next
    show "\<And>s. buffers_extend s s" by (rule buffers_extend_refl)
  next
    show "\<And>s t u. buffers_extend s t \<Longrightarrow> buffers_extend t u \<Longrightarrow> buffers_extend s u"
      by (rule buffers_extend_trans)
  qed
  from r list_all2_map_eq [of geom_content
      "\<lambda>g. \<forall>l \<in> set (lods g). \<forall>m \<in> set (materials l). placed_in fc attrs ?t m" gs gs1]
  have 1: "map geom_content gs1 = map geom_content gs"
    and 2: "\<forall>g \<in> set gs1. \<forall>l \<in> set (lods g). \<forall>m \<in> set (materials l). placed_in fc attrs ?t m"
    by blast+
  from 2 have 3: "\<forall>m \<in> set (all_materials gs1). placed fc attrs vb ib m"
    by (auto simp: in_all_materials placed_in_def)
  from r have "length vb = vs * table_size attrs" "length ib = is"
    by (simp_all add: buffers_ok_def)
  with 1 3 show ?thesis by blast
qed

lemma export_buffers_flag:
  assumes "export_buffers ar fc attrs gs = Inr (gs1, vb, ib, ha, vs, is)"
  shows "ha = (\<exists>m \<in> set (all_materials gs). uses_alpha_blend m)"
proof -
  let ?h = "\<lambda>st :: export_state. fst (snd (snd st))"
  have lod: "?h t = (?h s \<or> (\<exists>m \<in> set (materials l). uses_alpha_blend m))"
    if "export_lod_buffers ar fc attrs l s = Inr (l2, t)" for l s l2 t
  proof -
    from that obtain mats where e: "emap_st (export_material ar fc attrs) (materials l) s = Inr (mats, t)"
      using export_lod_buffers_Inr by blast
    show ?thesis
      by (rule emap_st_any [where h = ?h, OF _ e]) (rule export_material_flag)
  qed
  have geom: "?h t = (?h s \<or> (\<exists>l \<in> set (lods g). \<exists>m \<in> set (materials l). uses_alpha_blend m))"
    if "export_geom_buffers ar fc attrs g s = Inr (g2, t)" for g s g2 t
  proof -
    from that obtain ls where e: "emap_st (export_lod_buffers ar fc attrs) (lods g) s = Inr (ls, t)"
      using export_geom_buffers_Inr by blast
    show ?thesis
      by (rule emap_st_any [where h = ?h, OF _ e]) (rule lod)
  qed
  from assms have e: "emap_st (export_geom_buffers ar fc attrs) gs ([], [], False, 0, 0)
      = Inr (gs1, (vb, ib, ha, vs, is))"
    by (simp add: export_buffers_def)
  have "?h (vb, ib, ha, vs, is) = (?h ([], [], False, 0, 0)
      \<or> (\<exists>g \<in> set gs. \<exists>l \<in> set (lods g). \<exists>m \<in> set (materials l). uses_alpha_blend m))"
    by (rule emap_st_any [where h = ?h, OF _ e]) (rule geom)
  moreover have "(\<exists>m \<in> set (all_materials gs). uses_alpha_blend m)
      = (\<exists>g \<in> set gs. \<exists>l \<in> set (lods g). \<exists>m \<in> set (materials l). uses_alpha_blend m)"
    unfolding Bex_def in_all_materials by blast
  ultimately show ?thesis by simp
qed

lemma sum_list_map_concat:
  "sum_list (map w (concat xss)) = sum_list (map (\<lambda>xs. sum_list (map w xs)) xss)"
  for w :: "'a \<Rightarrow> nat"
  by (induction xss) simp_all

lemma export_material_count:
  assumes "export_material ar fc attrs m s = Inr (m2, t)"
  shows "length (fst (snd t)) = length (fst (snd s)) + index_count m"
proof -
  obtain vb ib ha vs "is" where s: "s = (vb, ib, ha, vs, is)" by (cases s) auto
  from export_material_Inr [OF assms [unfolded s]] obtain m1 vb' vnum ib' inum where
    sv: "save_vertices fc m attrs vb vs = Inr (m1, vb', vnum)"
    and sf: "mat_save_faces ar m1 ib is = Inr (m2, ib', inum)"
    and t: "t = (vb', ib', (ha \<or> uses_alpha_blend m), vs + vnum, is + inum)"
    by blast
  from save_vertices_out [OF sv] have m1: "m1 = m\<lparr>m_vstart := Some vs, m_vnum := Some (length (vertices m))\<rparr>"
    by blast
  then have f: "faces m1 = faces m" and c: "mat_class m1 = mat_class m"
    and a: "alpha_mode m1 = alpha_mode m" by simp_all
  show ?thesis
  proof (cases "uses_alpha_blend m")
    case True
    then have "save_faces_alpha_blend ar m1 ib is = Inr (m2, ib', inum)"
      using sf by (simp add: mat_save_faces_def MaterialWithTransparency_save_faces_def
          uses_alpha_blend_def c a)
    from alpha_blend_indices [OF this] True show ?thesis
      by (auto simp: t s f index_count_def)
  next
    case False
    then have "Material_save_faces m1 ib is = (m2, ib', inum)"
      using sf
      by (cases "mat_class m")
        (simp_all add: mat_save_faces_def MaterialWithTransparency_save_faces_def
          uses_alpha_blend_def c a)
    moreover have "Material_save_faces m1 ib is =
       (m1\<lparr>m_inum := Some (length (faces m) * 3), m_istart := Some is\<rparr>,
        ib @ concat (map face_indices (faces m)), length (faces m) * 3)"
      by (simp add: Material_save_faces_def Let_def f)
    ultimately have "(m2, ib', inum) =
       (m1\<lparr>m_inum := Some (length (faces m) * 3), m_istart := Some is\<rparr>,
        ib @ concat (map face_indices (faces m)), length (faces m) * 3)"
      by metis
    then have "ib' = ib @ concat (map face_indices (faces m))" by blast
    with False show ?thesis by (simp add: t s index_count_def length_face_blocks)
  qed
qed

lemma export_buffers_count:
  assumes "export_buffers ar fc attrs gs = Inr (gs1, vb, ib, ha, vs, is)"
  shows "length ib = sum_list (map index_count (all_materials gs))"
proof -
  let ?mu = "\<lambda>st :: export_state. length (fst (snd st))"
  have lod: "?mu t = ?mu s + sum_list (map index_count (materials l))"
    if "export_lod_buffers ar fc attrs l s = Inr (l2, t)" for l s l2 t
  proof -
    from that obtain mats where e: "emap_st (export_material ar fc attrs) (materials l) s = Inr (mats, t)"
      using export_lod_buffers_Inr by blast
    show ?thesis
      by (rule emap_st_sum [where mu = ?mu, OF _ e]) (rule export_material_count)
  qed
  have geom: "?mu t = ?mu s
       + sum_list (map (\<lambda>l. sum_list (map index_count (materials l))) (lods g))"
    if "export_geom_buffers ar fc attrs g s = Inr (g2, t)" for g s g2 t
  proof -
    from that obtain ls where e: "emap_st (export_lod_buffers ar fc attrs) (lods g) s = Inr (ls, t)"
      using export_geom_buffers_Inr by blast
    show ?thesis
      by (rule emap_st_sum [where mu = ?mu, OF _ e]) (rule lod)
  qed
  from assms have e: "emap_st (export_geom_buffers ar fc attrs) gs ([], [], False, 0, 0)
      = Inr (gs1, (vb, ib, ha, vs, is))"
    by (simp add: export_buffers_def)
  have "?mu (vb, ib, ha, vs, is) = ?mu ([], [], False, 0, 0)
      + sum_list (map (\<lambda>g. sum_list (map (\<lambda>l. sum_list (map index_count (materials l))) (lods g))) gs)"
    by (rule emap_st_sum [where mu = ?mu, OF _ e]) (rule geom)
  then show ?thesis
    by (simp add: all_materials_def sum_list_map_concat comp_def)
qed

section \<open>The face set count of a document\<close>

lemma export_Inr:
  assumes "export cls ar fc self = Inr (self', out)"
  shows "\<exists>header sk attrs vds table prim gs1 vb ib ha vs is buffers fsc gs2 bounds mats.
     MeshHeader_save (VERSION cls) = Inr header
     \<and> seq_out (write_dword (Some (length (geoms self))) # map Geom_save (geoms self)) = Inr sk
     \<and> export_vertex_attributes (vertex_attributes self) = Inr (attrs, vds, table)
     \<and> seq_out [write_dword (Some (D3DPRIMITIVETYPE_int TRIANGLELIST)), write_dword (Some vds)] = Inr prim
     \<and> export_buffers ar fc attrs (geoms self) = Inr (gs1, vb, ib, ha, vs, is)
     \<and> save_buffers vds vb ib = Inr buffers
     \<and> save_alpha_blend_indexnum cls ha = Inr fsc
     \<and> save_all_parts_rigs fc gs1 = Inr (gs2, bounds)
     \<and> save_all_materials gs2 = Inr mats
     \<and> self' = \<lparr>geoms = gs2, vertex_attributes = attrs\<rparr>
     \<and> out = header @ sk @ table @ prim @ buffers @ fsc @ bounds @ mats"
proof -
  from assms obtain header where 1: "MeshHeader_save (VERSION cls) = Inr header"
    and r1: "ebind (seq_out (write_dword (Some (length (geoms self))) # map Geom_save (geoms self)))
       (\<lambda>skeleton.
     ebind (export_vertex_attributes (vertex_attributes self)) (\<lambda>(attrs, vertex_decl_size, table).
     ebind (seq_out [write_dword (Some (D3DPRIMITIVETYPE_int TRIANGLELIST)),
                     write_dword (Some vertex_decl_size)]) (\<lambda>prim.
     ebind (export_buffers ar fc attrs (geoms self))
       (\<lambda>(gs1, vertex_buffer, index_buffer, has_alpha_blend_material, vstart, istart).
     ebind (save_buffers vertex_decl_size vertex_buffer index_buffer) (\<lambda>buffers.
     ebind (save_alpha_blend_indexnum cls has_alpha_blend_material) (\<lambda>face_set_count.
     ebind (save_all_parts_rigs fc gs1) (\<lambda>(gs2, bounds).
     ebind (save_all_materials gs2) (\<lambda>mats.
       Inr (\<lparr>geoms = gs2, vertex_attributes = attrs\<rparr>,
            header @ skeleton @ table @ prim @ buffers @ face_set_count @ bounds @ mats))))))))) = Inr (self', out)"
    unfolding export_def ebind_eq_Inr [of "MeshHeader_save (VERSION cls)"] by blast
  from r1 obtain sk where 2: "seq_out (write_dword (Some (length (geoms self))) # map Geom_save (geoms self)) = Inr sk"
    and r2: "ebind (export_vertex_attributes (vertex_attributes self)) (\<lambda>(attrs, vertex_decl_size, table).
     ebind (seq_out [write_dword (Some (D3DPRIMITIVETYPE_int TRIANGLELIST)),
                     write_dword (Some vertex_decl_size)]) (\<lambda>prim.
     ebind (export_buffers ar fc attrs (geoms self))
       (\<lambda>(gs1, vertex_buffer, index_buffer, has_alpha_blend_material, vstart, istart).
     ebind (save_buffers vertex_decl_size vertex_buffer index_buffer) (\<lambda>buffers.
     ebind (save_alpha_blend_indexnum cls has_alpha_blend_material) (\<lambda>face_set_count.
     ebind (save_all_parts_rigs fc gs1) (\<lambda>(gs2, bounds).
     ebind (save_all_materials gs2) (\<lambda>mats.
       Inr (\<lparr>geoms = gs2, vertex_attributes = attrs\<rparr>,
            header @ sk @ table @ prim @ buffers @ face_set_count @ bounds @ mats)))))))) = Inr (self', out)"
    unfolding ebind_eq_Inr [of "seq_out (write_dword (Some (length (geoms self))) # map Geom_save (geoms self))"]
    by blast
  from r2 obtain x where 3: "export_vertex_attributes (vertex_attributes self) = Inr x"
    and r3: "(case x of (attrs, vertex_decl_size, table) \<Rightarrow>
     ebind (seq_out [write_dword (Some (D3DPRIMITIVETYPE_int TRIANGLELIST)),
                     write_dword (Some vertex_decl_size)]) (\<lambda>prim.
     ebind (export_buffers ar fc attrs (geoms self))
       (\<lambda>(gs1, vertex_buffer, index_buffer, has_alpha_blend_material, vstart, istart).
     ebind (save_buffers vertex_decl_size vertex_buffer index_buffer) (\<lambda>buffers.
     ebind (save_alpha_blend_indexnum cls has_alpha_blend_material) (\<lambda>face_set_count.
     ebind (save_all_parts_rigs fc gs1) (\<lambda>(gs2, bounds).
     ebind (save_all_materials gs2) (\<lambda>mats.
       Inr (\<lparr>geoms = gs2, vertex_attributes = attrs\<rparr>,
            header @ sk @ table @ prim @ buffers @ face_set_count @ bounds @ mats)))))))) = Inr (self', out)"
    unfolding ebind_eq_Inr [of "export_vertex_attributes (vertex_attributes self)"] by blast
  obtain attrs vds table where x: "x = (attrs, vds, table)" by (cases x) auto
  from r3 [unfolded x prod.case] obtain prim where
    4: "seq_out [write_dword (Some (D3DPRIMITIVETYPE_int TRIANGLELIST)), write_dword (Some vds)] = Inr prim"
    and r4: "ebind (export_buffers ar fc attrs (geoms self))
       (\<lambda>(gs1, vertex_buffer, index_buffer, has_alpha_blend_material, vstart, istart).
     ebind (save_buffers vds vertex_buffer index_buffer) (\<lambda>buffers.
     ebind (save_alpha_blend_indexnum cls has_alpha_blend_material) (\<lambda>face_set_count.
     ebind (save_all_parts_rigs fc gs1) (\<lambda>(gs2, bounds).
     ebind (save_all_materials gs2) (\<lambda>mats.
       Inr (\<lparr>geoms = gs2, vertex_attributes = attrs\<rparr>,
            header @ sk @ table @ prim @ buffers @ face_set_count @ bounds @ mats)))))) = Inr (self', out)"
    unfolding ebind_eq_Inr [of "seq_out [write_dword (Some (D3DPRIMITIVETYPE_int TRIANGLELIST)), write_dword (Some vds)]"]
    by blast
  from r4 obtain y where 5: "export_buffers ar fc attrs (geoms self) = Inr y"
    and r5: "(case y of (gs1, vertex_buffer, index_buffer, has_alpha_blend_material, vstart, istart) \<Rightarrow>
     ebind (save_buffers vds vertex_buffer index_buffer) (\<lambda>buffers.
     ebind (save_alpha_blend_indexnum cls has_alpha_blend_material) (\<lambda>face_set_count.
     ebind (save_all_parts_rigs fc gs1) (\<lambda>(gs2, bounds).
     ebind (save_all_materials gs2) (\<lambda>mats.
       Inr (\<lparr>geoms = gs2, vertex_attributes = attrs\<rparr>,
            header @ sk @ table @ prim @ buffers @ face_set_count @ bounds @ mats)))))) = Inr (self', out)"
    unfolding ebind_eq_Inr [of "export_buffers ar fc attrs (geoms self)"] by blast
  obtain gs1 vb ib ha vs "is" where y: "y = (gs1, vb, ib, ha, vs, is)" by (cases y) auto
  from r5 [unfolded y prod.case] obtain buffers where 6: "save_buffers vds vb ib = Inr buffers"
    and r6: "ebind (save_alpha_blend_indexnum cls ha) (\<lambda>face_set_count.
     ebind (save_all_parts_rigs fc gs1) (\<lambda>(gs2, bounds).
     ebind (save_all_materials gs2) (\<lambda>mats.
       Inr (\<lparr>geoms = gs2, vertex_attributes = attrs\<rparr>,
            header @ sk @ table @ prim @ buffers @ face_set_count @ bounds @ mats)))) = Inr (self', out)"
    unfolding ebind_eq_Inr [of "save_buffers vds vb ib"] by blast
  from r6 obtain fsc where 7: "save_alpha_blend_indexnum cls ha = Inr fsc"
    and r7: "ebind (save_all_parts_rigs fc gs1) (\<lambda>(gs2, bounds).
     ebind (save_all_materials gs2) (\<lambda>mats.
       Inr (\<lparr>geoms = gs2, vertex_attributes = attrs\<rparr>,
            header @ sk @ table @ prim @ buffers @ fsc @ bounds @ mats))) = Inr (self', out)"
    unfolding ebind_eq_Inr [of "save_alpha_blend_indexnum cls ha"] by blast
  from r7 obtain z where 8: "save_all_parts_rigs fc gs1 = Inr z"
    and r8: "(case z of (gs2, bounds) \<Rightarrow>
     ebind (save_all_materials gs2) (\<lambda>mats.
       Inr (\<lparr>geoms = gs2, vertex_attributes = attrs\<rparr>,
            header @ sk @ table @ prim @ buffers @ fsc @ bounds @ mats))) = Inr (self', out)"
    unfolding ebind_eq_Inr [of "save_all_parts_rigs fc gs1"] by blast
  obtain gs2 bounds where z: "z = (gs2, bounds)" by (cases z) auto
  from r8 [unfolded z prod.case] obtain mats where 9: "save_all_materials gs2 = Inr mats"
    and r9: "Inr (\<lparr>geoms = gs2, vertex_attributes = attrs\<rparr>,
            header @ sk @ table @ prim @ buffers @ fsc @ bounds @ mats) = (Inr (self', out) :: error + (BF2VisibleMesh \<times> nat list))"
    unfolding ebind_eq_Inr [of "save_all_materials gs2"] by blast
  from r9 have 10: "self' = \<lparr>geoms = gs2, vertex_attributes = attrs\<rparr>"
    and 11: "out = header @ sk @ table @ prim @ buffers @ fsc @ bounds @ mats" by simp_all
  from 1 2 3 [unfolded x] 4 5 [unfolded y] 6 7 8 [unfolded z] 9 10 11 show ?thesis by blast
qed

lemma face_set_blocks_lengths:
  assumes "face_set_blocks m blocks"
  shows "length blocks = 8
     \<and> (\<forall>b \<in> set blocks. length b = 3 * length (faces m)
            \<and> (\<exists>fs. mset fs = mset (faces m) \<and> b = concat (map face_indices fs)))"
proof -
  from assms have l: "length blocks = 8"
    and b: "\<forall>b \<in> set blocks. \<exists>fs. mset fs = mset (faces m) \<and> b = concat (map face_indices fs)"
    by (simp_all add: face_set_blocks_def ALPHA_BLEND_FACE_SET_COUNT_def)
  have "\<forall>b \<in> set blocks. length b = 3 * length (faces m)"
  proof
    fix b assume "b \<in> set blocks"
    with b obtain fs where fs: "mset fs = mset (faces m)" and bf: "b = concat (map face_indices fs)"
      by blast
    from fs have "length fs = length (faces m)" by (rule mset_eq_length)
    then show "length b = 3 * length (faces m)" using length_face_blocks [of fs] bf by simp
  qed
  with l b show ?thesis by blast
qed

lemma content_of_all_materials:
  assumes "map geom_content gs1 = map geom_content gs" and "m \<in> set (all_materials gs)"
  shows "\<exists>m1 \<in> set (all_materials gs1). content m1 = content m"
proof -
  have "map content (all_materials gs1) = map content (all_materials gs)"
    using assms(1) by (simp add: all_materials_content [symmetric])
  then have "content ` set (all_materials gs1) = content ` set (all_materials gs)"
    by (metis set_map)
  with assms(2) show ?thesis by (metis (no_types, lifting) image_iff)
qed

text \<open>
  C7. A successful export by a class with transparency, of a document none of whose
  attribute rows is flagged unused, writes a file from which \<open>load\<close> reads the face set
  count 8 when some material of the document uses alpha blending, and 0 otherwise. The
  index buffer of the file has three indices for each face of a material without alpha
  blending and eight times as many for one with alpha blending, and no others; the
  indices of a material with alpha blending are eight contiguous blocks, each of them
  the faces of the material in some order (for a material of two faces: eight blocks of
  six indices).
\<close>

theorem alpha_blend_face_set_count:
  assumes "export cls ar fc self = Inr (self', out)"
    and "MATERIAL_TYPE cls = MaterialWithTransparency_class"
    and "\<forall>a \<in> set (vertex_attributes self). a_flag a \<noteq> Some VertexAttribute_UNUSED"
    and "\<forall>x. length (pack_f fc x) = 4"
  shows "\<exists>v gs attrs vds vb ib rest.
      load_head cls out =
        Inr ((v, gs, attrs, vds, vb, ib,
              Some (if (\<exists>m \<in> set (all_materials (geoms self)). uses_alpha_blend m) then 8 else 0)),
             rest)
      \<and> length ib = sum_list (map index_count (all_materials (geoms self)))
      \<and> (\<forall>m \<in> set (all_materials (geoms self)). uses_alpha_blend m \<longrightarrow>
            (\<exists>C blocks D. ib = C @ concat blocks @ D \<and> length blocks = 8
               \<and> (\<forall>b \<in> set blocks. length b = 3 * length (faces m)
                      \<and> (\<exists>fs. mset fs = mset (faces m) \<and> b = concat (map face_indices fs)))))"
proof -
  from export_Inr [OF assms(1)] obtain header sk attrs vds table prim gs1 vb ib ha vs "is"
      buffers fsc gs2 bounds mats where
    h: "MeshHeader_save (VERSION cls) = Inr header"
    and s: "seq_out (write_dword (Some (length (geoms self))) # map Geom_save (geoms self)) = Inr sk"
    and a: "export_vertex_attributes (vertex_attributes self) = Inr (attrs, vds, table)"
    and p: "seq_out [write_dword (Some (D3DPRIMITIVETYPE_int TRIANGLELIST)), write_dword (Some vds)] = Inr prim"
    and b: "export_buffers ar fc attrs (geoms self) = Inr (gs1, vb, ib, ha, vs, is)"
    and sb: "save_buffers vds vb ib = Inr buffers"
    and f: "save_alpha_blend_indexnum cls ha = Inr fsc"
    and out: "out = header @ sk @ table @ prim @ buffers @ fsc @ bounds @ mats"
    by blast
  from export_vertex_attributes_load [OF a assms(3)] have lo: "laid_out 0 attrs"
    and vds: "vds = table_size attrs" by simp_all
  from export_buffers_rel [OF assms(4) lo b] have lv: "length vb = vs * table_size attrs"
    and gc: "map geom_content gs1 = map geom_content (geoms self)"
    and pl: "\<forall>m \<in> set (all_materials gs1). placed fc attrs vb ib m" by simp_all
  note ha = export_buffers_flag [OF b]
  note cnt = export_buffers_count [OF b]
  have lv': "length vb = vds * vs" using lv vds by (simp add: mult.commute)
  from load_head_of_export [OF h s a assms(3) p sb lv' f, of "bounds @ mats"] assms(2)
  obtain v where lh: "load_head cls out =
       Inr ((v, map skeleton (geoms self), attrs, vds, vb, ib,
             Some (if ha then ALPHA_BLEND_FACE_SET_COUNT else 0)), bounds @ mats)"
    unfolding out by auto
  have 1: "load_head cls out =
        Inr ((v, map skeleton (geoms self), attrs, vds, vb, ib,
              Some (if (\<exists>m \<in> set (all_materials (geoms self)). uses_alpha_blend m) then 8 else 0)),
             bounds @ mats)"
    using lh ha by (simp add: ALPHA_BLEND_FACE_SET_COUNT_def)
  have 3: "\<forall>m \<in> set (all_materials (geoms self)). uses_alpha_blend m \<longrightarrow>
            (\<exists>C blocks D. ib = C @ concat blocks @ D \<and> length blocks = 8
               \<and> (\<forall>b \<in> set blocks. length b = 3 * length (faces m)
                      \<and> (\<exists>fs. mset fs = mset (faces m) \<and> b = concat (map face_indices fs))))"
  proof (intro ballI impI)
    fix m assume m: "m \<in> set (all_materials (geoms self))" and u: "uses_alpha_blend m"
    from content_of_all_materials [OF gc m] obtain m1 where m1: "m1 \<in> set (all_materials gs1)"
      and c: "content m1 = content m" by blast
    from pl m1 obtain C X D where ib: "ib = C @ X @ D" and i1: "indices_of m1 X"
      unfolding placed_def by blast
    from i1 indices_of_content [OF c] have "indices_of m X" by simp
    with u obtain blocks where X: "X = concat blocks" and fb: "face_set_blocks m blocks"
      by (auto simp: indices_of_def)
    from face_set_blocks_lengths [OF fb] ib X
    show "\<exists>C blocks D. ib = C @ concat blocks @ D \<and> length blocks = 8
               \<and> (\<forall>b \<in> set blocks. length b = 3 * length (faces m)
                      \<and> (\<exists>fs. mset fs = mset (faces m) \<and> b = concat (map face_indices fs)))"
      by blast
  qed
  from 1 cnt 3 show ?thesis by blast
qed

subsection \<open>The export of two documents, evaluated\<close>

lemma write_words_total:
  "\<forall>w \<in> set ws. w < 65536 \<Longrightarrow> \<exists>bs. write_words ws = Inr bs"
proof (induction ws)
  case Nil
  then show ?case by (simp add: write_words_def)
next
  case (Cons w ws)
  then obtain bs where "write_words ws = Inr bs" by auto
  moreover have "write_word (Some w) = Inr (le_encode 2 w)"
    using Cons.prems by (simp add: write_word_def write_uint_def)
  ultimately show ?case by (simp add: write_words_def)
qed

lemma example_header: "\<exists>h. MeshHeader_save (Some 11) = Inr h"
  by (simp add: MeshHeader_save_def write_dword_def write_byte_def write_uint_def)

lemma position_table:
  "export_vertex_attributes [position_row]
     = Inr ([position_row], 12, [2, 0, 0, 0, 0, 0, 0, 0, 2, 0, 0, 0, 255, 0, 0, 0, 17, 0, 0, 0])"
proof -
  have 1: "export_vertex_attr position_row 0 = Inr ((position_row, [0, 0, 0, 0, 2, 0, 0, 0]), 12)"
    using position_row_bytes
    by (simp add: export_vertex_attr_def position_row_def VertexAttribute_init_def
        VertexAttribute_UNUSED_def VertexAttribute_USED_def)
  show ?thesis
    by (simp add: export_vertex_attributes_def 1 unused_attr_bytes write_dword_def
        write_uint_def le_encode_4)
qed

lemma example_prim:
  "\<exists>p. seq_out [write_dword (Some (D3DPRIMITIVETYPE_int TRIANGLELIST)), write_dword (Some 12)] = Inr p"
  by (simp add: write_dword_def write_uint_def)

lemma triangle_vertices_encoded:
  "encode_vertices example_format [position_row] [vertex_at 0 0 0, vertex_at 1 0 0, vertex_at 0 1 0]
     = Inr [0, 0, 0, 0, 0, 0, 0, 0, 0, 0, 0, 0,
            1, 0, 0, 0, 0, 0, 0, 0, 0, 0, 0, 0,
            0, 0, 0, 0, 1, 0, 0, 0, 0, 0, 0, 0]"
  by (simp add: encode_vertices_def encode_vertex_def save_vertex_attr_def position_row_def
      VertexAttribute_init_def VertexAttribute_UNUSED_def vertex_at_def Vertex_init_def
      struct_pack_def struct_items_values example_format_def le_encode_4)

lemma two_sided_vertices_saved:
  "save_vertices example_format two_sided_material [position_row] [] 0
     = Inr (two_sided_material\<lparr>m_vstart := Some 0, m_vnum := Some 3\<rparr>,
            [0, 0, 0, 0, 0, 0, 0, 0, 0, 0, 0, 0,
             1, 0, 0, 0, 0, 0, 0, 0, 0, 0, 0, 0,
             0, 0, 0, 0, 1, 0, 0, 0, 0, 0, 0, 0], 3)"
proof -
  have v: "vertices two_sided_material = [vertex_at 0 0 0, vertex_at 1 0 0, vertex_at 0 1 0]"
    by (simp add: two_sided_material_def)
  have "efold (\<lambda>vb v. efold (save_vertex_attr example_format v) vb [position_row]) []
      (vertices two_sided_material)
     = Inr [0, 0, 0, 0, 0, 0, 0, 0, 0, 0, 0, 0,
            1, 0, 0, 0, 0, 0, 0, 0, 0, 0, 0, 0,
            0, 0, 0, 0, 1, 0, 0, 0, 0, 0, 0, 0]"
    by (simp only: save_vertices_loop v triangle_vertices_encoded ebind_Inr append_Nil)
  then show ?thesis
    unfolding save_vertices_def Let_def
    by (simp add: v [symmetric] del: efold.simps) (simp add: v)
qed

lemma placed_two_sided_save:
  "save_faces_alpha_blend exact_arith (two_sided_material\<lparr>m_vstart := Some 0, m_vnum := Some 3\<rparr>) ib istart =
     Inr (two_sided_material\<lparr>m_vstart := Some 0, m_vnum := Some 3,
            m_min := Some (0, 0, 0), m_max := Some (1, 1, 0),
            m_inum := Some 6, m_istart := Some istart\<rparr>,
          ib @ concat (replicate 8 [0, 1, 2, 2, 1, 0]), 48)"
proof -
  let ?m = "two_sided_material\<lparr>m_vstart := Some 0, m_vnum := Some 3\<rparr>"
  have b: "Material_calc_bounds ?m =
     Inr (?m\<lparr>m_min := Some (0, 0, 0), m_max := Some (1, 1, 0)\<rparr>, (0, 0, 0), (1, 1, 0))"
    by (simp add: Material_calc_bounds_def two_sided_material_def Material_init_def vertex_at_def
        Vertex_init_def Vec3_of_def calc_bounds_def)
  have "\<exists>planes. get_sorting_planes exact_arith ?m =
     Inr (?m\<lparr>m_min := Some (0, 0, 0), m_max := Some (1, 1, 0)\<rparr>, planes) \<and> length planes = 8"
    by (simp add: get_sorting_planes_def b Let_def ALPHA_BLEND_FACE_SET_COUNT_def)
  then obtain planes where gp: "get_sorting_planes exact_arith ?m =
     Inr (?m\<lparr>m_min := Some (0, 0, 0), m_max := Some (1, 1, 0)\<rparr>, planes)"
    and len: "length planes = 8" by blast
  have fs: "faces two_sided_material = [(2, 1, 0), (0, 1, 2)]"
    by (simp add: two_sided_material_def)
  have blk: "\<And>plane. plane_block exact_arith (faces two_sided_material) [(1/3, 1/3, 0), (1/3, 1/3, 0)] plane
     = [0, 1, 2, 2, 1, 0]"
    unfolding fs by (rule two_sided_block)
  have "save_faces_alpha_blend exact_arith ?m ib istart =
     Inr (?m\<lparr>m_min := Some (0, 0, 0), m_max := Some (1, 1, 0),
            m_inum := Some (length (faces two_sided_material) * 3), m_istart := Some istart\<rparr>,
          foldl (\<lambda>ib plane. ib @ plane_block exact_arith (faces two_sided_material)
                                   [(1/3, 1/3, 0), (1/3, 1/3, 0)] plane) ib planes,
          length (faces two_sided_material) * 3 * length planes)"
    unfolding save_faces_alpha_blend_def gp using two_sided_centers
    by (simp add: Let_def del: emap.simps)
  moreover have "foldl (\<lambda>ib plane. ib @ plane_block exact_arith (faces two_sided_material)
                                   [(1/3, 1/3, 0), (1/3, 1/3, 0)] plane) ib planes
      = ib @ concat (replicate 8 [0, 1, 2, 2, 1, 0])"
    using foldl_const_block [of planes "plane_block exact_arith (faces two_sided_material)
                                   [(1/3, 1/3, 0), (1/3, 1/3, 0)]" "[0, 1, 2, 2, 1, 0]" ib]
    by (simp add: blk len)
  ultimately show ?thesis
    by (simp only: fs len) simp
qed

lemma glass_material_exported:
  "export_material exact_arith example_format [position_row] two_sided_material ([], [], False, 0, 0)
     = Inr (two_sided_material\<lparr>m_vstart := Some 0, m_vnum := Some 3,
              m_min := Some (0, 0, 0), m_max := Some (1, 1, 0),
              m_inum := Some 6, m_istart := Some 0\<rparr>,
            ([0, 0, 0, 0, 0, 0, 0, 0, 0, 0, 0, 0,
              1, 0, 0, 0, 0, 0, 0, 0, 0, 0, 0, 0,
              0, 0, 0, 0, 1, 0, 0, 0, 0, 0, 0, 0],
             concat (replicate 8 [0, 1, 2, 2, 1, 0]), True, 3, 48))"
proof -
  have c: "mat_class two_sided_material = MaterialWithTransparency_class"
    and a: "alpha_mode two_sided_material = Some ALPHA_BLEND"
    by (simp_all add: two_sided_material_def Material_init_def)
  have f: "mat_save_faces exact_arith (two_sided_material\<lparr>m_vstart := Some 0, m_vnum := Some 3\<rparr>) [] 0
     = Inr (two_sided_material\<lparr>m_vstart := Some 0, m_vnum := Some 3,
              m_min := Some (0, 0, 0), m_max := Some (1, 1, 0),
              m_inum := Some 6, m_istart := Some 0\<rparr>,
            concat (replicate 8 [0, 1, 2, 2, 1, 0]), 48)"
    using placed_two_sided_save [of "[]" 0]
    by (simp add: mat_save_faces_def MaterialWithTransparency_save_faces_def c a)
  show ?thesis
    unfolding export_material_def
    by (simp add: two_sided_vertices_saved f c a Let_def)
qed

lemma glass_buffers:
  "export_buffers exact_arith example_format [position_row] (geoms glass_document)
     = Inr ([\<lparr>lods = [Lod_init\<lparr>materials :=
                [two_sided_material\<lparr>m_vstart := Some 0, m_vnum := Some 3,
                   m_min := Some (0, 0, 0), m_max := Some (1, 1, 0),
                   m_inum := Some 6, m_istart := Some 0\<rparr>]\<rparr>]\<rparr>],
            [0, 0, 0, 0, 0, 0, 0, 0, 0, 0, 0, 0,
             1, 0, 0, 0, 0, 0, 0, 0, 0, 0, 0, 0,
             0, 0, 0, 0, 1, 0, 0, 0, 0, 0, 0, 0],
            concat (replicate 8 [0, 1, 2, 2, 1, 0]), True, 3, 48)"
  by (simp add: export_buffers_def export_geom_buffers_def export_lod_buffers_def
      glass_document_def Lod_init_def glass_material_exported)

lemma glass_saved_buffers:
  "\<exists>bs. save_buffers 12
      [0, 0, 0, 0, 0, 0, 0, 0, 0, 0, 0, 0,
       1, 0, 0, 0, 0, 0, 0, 0, 0, 0, 0, 0,
       0, 0, 0, 0, 1, 0, 0, 0, 0, 0, 0, 0]
      (concat (replicate 8 [0, 1, 2, 2, 1, 0])) = Inr bs"
proof -
  have "\<forall>w \<in> set (concat (replicate 8 [0, 1, 2, 2, 1, 0 :: nat])). w < 65536" by auto
  from write_words_total [OF this] obtain ws where
    w: "write_words (concat (replicate 8 [0, 1, 2, 2, 1, 0])) = Inr ws" by blast
  have l: "length (concat (replicate 8 [0, 1, 2, 2, 1, 0 :: nat])) = 48"
    by (simp add: length_concat sum_list_replicate)
  show ?thesis
    unfolding save_buffers_def l w
    by (simp add: write_dword_def write_uint_def write_raw_def)
qed

lemma glass_bounds_saved:
  "\<exists>bs. save_all_parts_rigs example_format
      [\<lparr>lods = [Lod_init\<lparr>materials :=
                [two_sided_material\<lparr>m_vstart := Some 0, m_vnum := Some 3,
                   m_min := Some (0, 0, 0), m_max := Some (1, 1, 0),
                   m_inum := Some 6, m_istart := Some 0\<rparr>]\<rparr>]\<rparr>]
     = Inr ([\<lparr>lods = [Lod_init\<lparr>l_min := Some (Fin 0, Fin 0, Fin 0), l_max := Some (Fin 1, Fin 1, Fin 0),
                materials :=
                [two_sided_material\<lparr>m_vstart := Some 0, m_vnum := Some 3,
                   m_min := Some (0, 0, 0), m_max := Some (1, 1, 0),
                   m_inum := Some 6, m_istart := Some 0\<rparr>]\<rparr>]\<rparr>], bs)"
proof -
  let ?m = "two_sided_material\<lparr>m_vstart := Some 0, m_vnum := Some 3,
                   m_min := Some (0, 0, 0), m_max := Some (1, 1, 0),
                   m_inum := Some 6, m_istart := Some 0\<rparr>"
  have b: "Material_calc_bounds ?m = Inr (?m, (0, 0, 0), (1, 1, 0))"
    by (simp add: Material_calc_bounds_def two_sided_material_def Material_init_def vertex_at_def
        Vertex_init_def Vec3_of_def calc_bounds_def)
  have "save_parts_rigs example_format (Lod_init\<lparr>materials := [?m]\<rparr>)
     = Inr (Lod_init\<lparr>l_min := Some (Fin 0, Fin 0, Fin 0), l_max := Some (Fin 1, Fin 1, Fin 0),
              materials := [?m]\<rparr>,
            [0, 0, 0, 0, 0, 0, 0, 0, 0, 0, 0, 0, 1, 0, 0, 0, 1, 0, 0, 0, 0, 0, 0, 0])"
    by (simp add: save_parts_rigs_def Lod_init_def lod_bounds_step_def b widen_triangle
        example_vectors)
  then show ?thesis
    by (simp add: save_all_parts_rigs_def)
qed

lemma glass_materials_saved:
  "\<exists>bs. save_all_materials
      [\<lparr>lods = [Lod_init\<lparr>l_min := Some (Fin 0, Fin 0, Fin 0), l_max := Some (Fin 1, Fin 1, Fin 0),
                materials :=
                [two_sided_material\<lparr>m_vstart := Some 0, m_vnum := Some 3,
                   m_min := Some (0, 0, 0), m_max := Some (1, 1, 0),
                   m_inum := Some 6, m_istart := Some 0\<rparr>]\<rparr>]\<rparr>] = Inr bs"
  by (simp add: save_all_materials_def save_materials_def mat_save_def
      MaterialWithTransparency_save_def Material_save_def two_sided_material_def Material_init_def
      Lod_init_def write_string_def write_dword_def write_uint_def write_raw_def)

lemma glass_export:
  "\<exists>self' out. export transparent_mesh_class exact_arith example_format glass_document = Inr (self', out)"
proof -
  from example_header obtain h where h: "MeshHeader_save (Some 11) = Inr h" ..
  have "\<exists>sk. seq_out (write_dword (Some (length (geoms glass_document)))
                # map Geom_save (geoms glass_document)) = Inr sk"
    by (simp add: glass_document_def Geom_save_def Lod_save_def write_dword_def write_uint_def)
  then obtain sk where sk: "seq_out (write_dword (Some (length (geoms glass_document)))
                # map Geom_save (geoms glass_document)) = Inr sk" ..
  from example_prim obtain p where
    p: "seq_out [write_dword (Some (D3DPRIMITIVETYPE_int TRIANGLELIST)), write_dword (Some 12)] = Inr p"
    ..
  from glass_saved_buffers obtain bu where bu: "save_buffers 12
      [0, 0, 0, 0, 0, 0, 0, 0, 0, 0, 0, 0,
       1, 0, 0, 0, 0, 0, 0, 0, 0, 0, 0, 0,
       0, 0, 0, 0, 1, 0, 0, 0, 0, 0, 0, 0]
      (concat (replicate 8 [0, 1, 2, 2, 1, 0])) = Inr bu" ..
  have "\<exists>f. save_alpha_blend_indexnum transparent_mesh_class True = Inr f"
    by (simp add: save_alpha_blend_indexnum_def transparent_mesh_class_def
        ALPHA_BLEND_FACE_SET_COUNT_def write_dword_def write_uint_def)
  then obtain f where f: "save_alpha_blend_indexnum transparent_mesh_class True = Inr f" ..
  from glass_bounds_saved obtain bo where bo: "save_all_parts_rigs example_format
      [\<lparr>lods = [Lod_init\<lparr>materials :=
                [two_sided_material\<lparr>m_vstart := Some 0, m_vnum := Some 3,
                   m_min := Some (0, 0, 0), m_max := Some (1, 1, 0),
                   m_inum := Some 6, m_istart := Some 0\<rparr>]\<rparr>]\<rparr>]
     = Inr ([\<lparr>lods = [Lod_init\<lparr>l_min := Some (Fin 0, Fin 0, Fin 0), l_max := Some (Fin 1, Fin 1, Fin 0),
                materials :=
                [two_sided_material\<lparr>m_vstart := Some 0, m_vnum := Some 3,
                   m_min := Some (0, 0, 0), m_max := Some (1, 1, 0),
                   m_inum := Some 6, m_istart := Some 0\<rparr>]\<rparr>]\<rparr>], bo)" ..
  from glass_materials_saved obtain ma where ma: "save_all_materials
      [\<lparr>lods = [Lod_init\<lparr>l_min := Some (Fin 0, Fin 0, Fin 0), l_max := Some (Fin 1, Fin 1, Fin 0),
                materials :=
                [two_sided_material\<lparr>m_vstart := Some 0, m_vnum := Some 3,
                   m_min := Some (0, 0, 0), m_max := Some (1, 1, 0),
                   m_inum := Some 6, m_istart := Some 0\<rparr>]\<rparr>]\<rparr>] = Inr ma" ..
  have v: "VERSION transparent_mesh_class = Some 11" by (simp add: transparent_mesh_class_def)
  have a: "vertex_attributes glass_document = [position_row]" by (simp add: glass_document_def)
  have e: "export transparent_mesh_class exact_arith example_format glass_document =
     Inr (\<lparr>geoms = [\<lparr>lods = [Lod_init\<lparr>l_min := Some (Fin 0, Fin 0, Fin 0), l_max := Some (Fin 1, Fin 1, Fin 0),
                materials :=
                [two_sided_material\<lparr>m_vstart := Some 0, m_vnum := Some 3,
                   m_min := Some (0, 0, 0), m_max := Some (1, 1, 0),
                   m_inum := Some 6, m_istart := Some 0\<rparr>]\<rparr>]\<rparr>],
            vertex_attributes = [position_row]\<rparr>,
          h @ sk @ [2, 0, 0, 0, 0, 0, 0, 0, 2, 0, 0, 0, 255, 0, 0, 0, 17, 0, 0, 0] @ p @ bu @ f @ bo @ ma)"
    unfolding export_def
    by (simp only: v h sk a position_table p glass_buffers bu f bo ma ebind_Inr prod.case)
  show ?thesis by (intro exI) (rule e)
qed

lemma empty_export:
  "\<exists>self' out. export transparent_mesh_class exact_arith example_format empty_document = Inr (self', out)"
proof -
  from example_header obtain h where h: "MeshHeader_save (Some 11) = Inr h" ..
  have "\<exists>sk. seq_out (write_dword (Some (length (geoms empty_document)))
                # map Geom_save (geoms empty_document)) = Inr sk"
    by (simp add: empty_document_def write_dword_def write_uint_def)
  then obtain sk where sk: "seq_out (write_dword (Some (length (geoms empty_document)))
                # map Geom_save (geoms empty_document)) = Inr sk" ..
  from example_prim obtain p where
    p: "seq_out [write_dword (Some (D3DPRIMITIVETYPE_int TRIANGLELIST)), write_dword (Some 12)] = Inr p"
    ..
  have b: "export_buffers exact_arith example_format [position_row] (geoms empty_document)
     = Inr ([], [], [], False, 0, 0)"
    by (simp add: export_buffers_def empty_document_def)
  have "\<exists>bu. save_buffers 12 [] [] = Inr bu"
    by (simp add: save_buffers_def write_words_def write_dword_def write_uint_def write_raw_def)
  then obtain bu where bu: "save_buffers 12 [] [] = Inr bu" ..
  have "\<exists>f. save_alpha_blend_indexnum transparent_mesh_class False = Inr f"
    by (simp add: save_alpha_blend_indexnum_def transparent_mesh_class_def
        write_dword_def write_uint_def)
  then obtain f where f: "save_alpha_blend_indexnum transparent_mesh_class False = Inr f" ..
  have bo: "save_all_parts_rigs example_format [] = Inr ([], [])"
    by (simp add: save_all_parts_rigs_def)
  have ma: "save_all_materials [] = Inr []" by (simp add: save_all_materials_def)
  have v: "VERSION transparent_mesh_class = Some 11" by (simp add: transparent_mesh_class_def)
  have a: "vertex_attributes empty_document = [position_row]" by (simp add: empty_document_def)
  have e: "export transparent_mesh_class exact_arith example_format empty_document =
     Inr (\<lparr>geoms = [], vertex_attributes = [position_row]\<rparr>,
          h @ sk @ [2, 0, 0, 0, 0, 0, 0, 0, 2, 0, 0, 0, 255, 0, 0, 0, 17, 0, 0, 0] @ p @ bu @ f @ [] @ [])"
    unfolding export_def
    by (simp only: v h sk a position_table p b bu f bo ma ebind_Inr prod.case)
  show ?thesis by (intro exI) (rule e)
qed

lemma example_rows_used:
  "\<forall>a \<in> set [position_row]. a_flag a \<noteq> Some VertexAttribute_UNUSED"
  by (simp add: position_row_def VertexAttribute_init_def VertexAttribute_UNUSED_def)

theorem alpha_blend_face_set_count_witness:
  "(\<exists>self' out.
      export transparent_mesh_class exact_arith example_format glass_document = Inr (self', out)
      \<and> (\<exists>v gs attrs vds vb ib rest.
            load_head transparent_mesh_class out = Inr ((v, gs, attrs, vds, vb, ib, Some 8), rest)
            \<and> length ib = 48
            \<and> (\<exists>C blocks D. ib = C @ concat blocks @ D \<and> length blocks = 8
                 \<and> (\<forall>b \<in> set blocks. length b = 6
                        \<and> (\<exists>fs. mset fs = mset [(2, 1, 0), (0, 1, 2)]
                               \<and> b = concat (map face_indices fs))))))
   \<and> (\<exists>self' out.
      export transparent_mesh_class exact_arith example_format empty_document = Inr (self', out)
      \<and> (\<exists>v gs attrs vds vb ib rest.
            load_head transparent_mesh_class out = Inr ((v, gs, attrs, vds, vb, ib, Some 0), rest)
            \<and> length ib = 0))"
proof -
  have t: "MATERIAL_TYPE transparent_mesh_class = MaterialWithTransparency_class"
    by (simp add: transparent_mesh_class_def)
  have ag: "\<forall>a \<in> set (vertex_attributes glass_document). a_flag a \<noteq> Some VertexAttribute_UNUSED"
    using example_rows_used by (simp add: glass_document_def)
  have ae: "\<forall>a \<in> set (vertex_attributes empty_document). a_flag a \<noteq> Some VertexAttribute_UNUSED"
    using example_rows_used by (simp add: empty_document_def)
  have mg: "all_materials (geoms glass_document) = [two_sided_material]"
    by (simp add: all_materials_def glass_document_def Lod_init_def)
  have me: "all_materials (geoms empty_document) = []"
    by (simp add: all_materials_def empty_document_def)
  have u: "uses_alpha_blend two_sided_material"
    by (simp add: uses_alpha_blend_def two_sided_material_def Material_init_def)
  have fs: "faces two_sided_material = [(2, 1, 0), (0, 1, 2)]"
    by (simp add: two_sided_material_def)
  have ic: "index_count two_sided_material = 48"
    by (simp add: index_count_def u fs ALPHA_BLEND_FACE_SET_COUNT_def)
  from glass_export obtain sg og where
    eg: "export transparent_mesh_class exact_arith example_format glass_document = Inr (sg, og)"
    by blast
  from alpha_blend_face_set_count [OF eg t ag example_format_length]
  obtain v gs attrs vds vb ib rest where
    g1: "load_head transparent_mesh_class og = Inr ((v, gs, attrs, vds, vb, ib, Some 8), rest)"
    and g2: "length ib = 48"
    and g3: "\<exists>C blocks D. ib = C @ concat blocks @ D \<and> length blocks = 8
                 \<and> (\<forall>b \<in> set blocks. length b = 6
                        \<and> (\<exists>fs. mset fs = mset [(2, 1, 0), (0, 1, 2)]
                               \<and> b = concat (map face_indices fs)))"
    unfolding mg by (simp add: u ic fs) blast
  from empty_export obtain se oe where
    ee: "export transparent_mesh_class exact_arith example_format empty_document = Inr (se, oe)"
    by blast
  from alpha_blend_face_set_count [OF ee t ae example_format_length]
  obtain v' gs' attrs' vds' vb' ib' rest' where
    e1: "load_head transparent_mesh_class oe = Inr ((v', gs', attrs', vds', vb', ib', Some 0), rest')"
    and e2: "length ib' = 0"
    unfolding me by auto
  from eg g1 g2 g3 ee e1 e2 show ?thesis by blast
qed

end
